theory Spec2Isabelle
  imports Main
begin

section \<open>The coaching server (server.js) as HOL functions\<close>

text \<open>
  The model follows \<^verbatim>\<open>src/server.js\<close>: the two channel adapters
  (\<^verbatim>\<open>SlackThreadManager\<close>, \<^verbatim>\<open>SMSManager\<close>), the per-session \<^verbatim>\<open>AIAgent\<close>
  with its transcript buffer, the function \<^verbatim>\<open>sendPrivateChatMessage\<close>, and the
  webhook and stop-bot routes over the \<^verbatim>\<open>sessions\<close> map.

  Mutation is explicit state passing. Every call that leaves the process (the chat
  model, Slack, the meeting bot's chat endpoint, Twilio) is recorded in a list of
  effects, together with the console lines that tell the branches apart. What the
  outside answers is an input: the record \<open>world\<close> holds, for one handler, the
  settlement of each call the handler can make.

  An \<^verbatim>\<open>async\<close> function runs without interruption up to an \<^verbatim>\<open>await\<close> and goes on
  when the awaited call has settled. The calls of a list of effects stand in the order
  in which the code issues them, which the code fixes. Where the console lines of calls
  that are pending at the same time stand, relative to each other, is fixed by the
  network and not by the code: the lists below show them in one of the possible orders
  (pending calls settle in the order in which they were issued), and the properties
  proved later do not rest on that choice.

  Left out: wall-clock values (timestamps, the duration in the summaries), the rich
  formatting of the Slack blocks and SMS texts (the payload keeps the values that are
  formatted), the server-sent-event broadcast to dashboard clients, and the Teams
  branch, whose manager \<^verbatim>\<open>this.teamsThread\<close> is never assigned.
\<close>

subsection \<open>JavaScript values\<close>

text \<open>
  A participant id arrives as JSON: a number, a string, or nothing. The code tests
  ids by truthiness (\<^verbatim>\<open>if (this.interviewerId)\<close>) and prints them with
  \<^verbatim>\<open>String(participantId)\<close>. Numbers are taken to be integers that a double
  holds exactly (below \<open>2 ^ 53\<close> in magnitude), as participant ids are; for these
  \<open>String_js\<close> is what \<^verbatim>\<open>String\<close> prints. Beyond that range JavaScript rounds
  the number and, from \<open>10 ^ 21\<close>, prints an exponent, which \<open>String_js\<close>
  does not follow.
\<close>

datatype jsval = JNull | JNum int | JStr string

fun truthy :: "jsval \<Rightarrow> bool" where
  "truthy JNull = False"
| "truthy (JNum n) = (n \<noteq> 0)"
| "truthy (JStr s) = (s \<noteq> [])"

definition digit :: "nat \<Rightarrow> char" where
  "digit n = ''0123456789'' ! n"

function dec_nat :: "nat \<Rightarrow> string" where
  "dec_nat n = (if n < 10 then [digit n] else dec_nat (n div 10) @ [digit (n mod 10)])"
  by pat_completeness auto
termination
  by (relation "measure id") auto

declare dec_nat.simps [simp del]

fun String_js :: "jsval \<Rightarrow> string" where
  "String_js JNull = ''null''"
| "String_js (JNum n) = (if n < 0 then CHR ''-'' # dec_nat (nat (- n)) else dec_nat (nat n))"
| "String_js (JStr s) = s"

text \<open>\<^verbatim>\<open>a || b\<close> on strings: the first operand unless it is empty (or absent).\<close>

definition or_default :: "string \<Rightarrow> string \<Rightarrow> string" where
  "or_default s d = (if s = [] then d else s)"

text \<open>\<^verbatim>\<open>Array.prototype.join\<close> and \<^verbatim>\<open>String.prototype.includes\<close>.\<close>

fun join :: "string \<Rightarrow> string list \<Rightarrow> string" where
  "join sep [] = []"
| "join sep [x] = x"
| "join sep (x # y # ys) = x @ sep @ join sep (y # ys)"

fun str_includes :: "string \<Rightarrow> string \<Rightarrow> bool" where
  "str_includes [] sub = (sub = [])"
| "str_includes (c # cs) sub = (take (length sub) (c # cs) = sub \<or> str_includes cs sub)"

subsection \<open>Configuration read at start-up\<close>

text \<open>
  \<^verbatim>\<open>INTEGRATION_MODES\<close> is the upper-cased, comma-separated \<^verbatim>\<open>INTEGRATION\<close>
  variable. \<^verbatim>\<open>slackClient\<close> is non-null exactly when the list has \<^verbatim>\<open>SLACK\<close>;
  \<^verbatim>\<open>twilioClient\<close> when it has \<^verbatim>\<open>SMS\<close> and both Twilio credentials are set.
\<close>

record config =
  INTEGRATION_MODES :: "string list"
  twilio_credentials :: bool

definition mode_on :: "config \<Rightarrow> string \<Rightarrow> bool" where
  "mode_on cfg m = (m \<in> set (INTEGRATION_MODES cfg))"

definition slackClient :: "config \<Rightarrow> bool" where
  "slackClient cfg = mode_on cfg ''SLACK''"

definition twilioClient :: "config \<Rightarrow> bool" where
  "twilioClient cfg = (mode_on cfg ''SMS'' \<and> twilio_credentials cfg)"

subsection \<open>What the outside answers\<close>

text \<open>
  \<open>chat_response\<close>: how \<^verbatim>\<open>await this.chat.sendMessage(batchMessage)\<close> and the
  reading of its response end. \<open>ChatFails\<close> stands for a rejected call and for a
  response whose accessors throw; \<open>ChatText\<close> is a response without a function call;
  \<open>ChatCall name args\<close> is \<^verbatim>\<open>response.functionCalls()[0]\<close>, its \<^verbatim>\<open>args\<close> absent
  when the response is malformed (destructuring it then throws).
\<close>

record call_args =
  participant_id :: jsval
  participant_name :: string
  message :: string
  reason :: string

datatype chat_response = ChatFails | ChatText string | ChatCall string "call_args option"

datatype slack_result = SlackRejects | SlackResolves string

datatype fetch_result = FetchThrows | FetchNotOk | FetchOk

text \<open>
  One field per call site. \<open>sms_*\<close> give, by position in the phone list, whether
  \<^verbatim>\<open>twilioClient.messages.create\<close> resolves. \<open>delete_ok\<close> is whether the
  \<^verbatim>\<open>DELETE\<close> of the bot resolves.
\<close>

record world =
  chat_reply :: chat_response
  slack_start :: slack_result
  slack_reply_ok :: bool
  slack_end_ok :: bool
  zoom_fetch :: fetch_result
  sms_start_ok :: "nat \<Rightarrow> bool"
  sms_nudge_ok :: "nat \<Rightarrow> bool"
  sms_end_ok :: "nat \<Rightarrow> bool"
  delete_ok :: bool

subsection \<open>Effects\<close>

datatype sms_body =
    SessionStarted string string string
  | Nudge nat string string nat
  | SessionEnded nat

datatype logline =
    SlackThreadCreated string
  | SlackThreadError
  | SlackInitFailed
  | NoActiveSlackThread
  | SlackNudgeSent nat
  | SlackReplyError
  | NoSlackThreadToEnd
  | SlackThreadEnded
  | SlackEndError
  | SmsNotConfigured
  | SmsNotActive
  | SmsNoSessionToEnd
  | SmsSentTo string
  | SmsFailedTo string
  | SmsStartAllSent
  | SmsStartError
  | SmsStartFailed
  | SmsNudgeAllSent nat
  | SmsNudgeError
  | SmsSessionEnded
  | SmsEndError
  | ZoomDelivered
  | ZoomFailed
  | CoachingSent nat
  | NoSalesRep
  | Monitoring
  | BatchError
  | EndedSessions nat
  | NoSessionFound
  | NoTranscriptData

text \<open>
  \<open>ChatSendMessage\<close> is one analyze call. \<open>SlackPostParent\<close> is the
  \<^verbatim>\<open>chat.postMessage\<close> without \<^verbatim>\<open>thread_ts\<close> that opens a thread (member, title,
  platform); \<open>SlackPostReply\<close> (thread, nudge number, reason, message, batch number,
  messages analysed) and \<open>SlackPostSummary\<close> (thread, total nudges) are posted into
  it. \<open>ZoomChatMessage\<close> is the request to the bot's \<^verbatim>\<open>send_chat_message\<close>
  endpoint (bot, the \<^verbatim>\<open>to\<close> field, message). \<open>SmsCreate\<close> is one
  \<^verbatim>\<open>messages.create\<close> (to, body). \<open>BotDelete\<close> is the \<^verbatim>\<open>DELETE\<close> of the bot.
\<close>

datatype effect =
    ChatSendMessage string
  | SlackPostParent string string string
  | SlackPostReply string nat string string nat nat
  | SlackPostSummary string nat
  | ZoomChatMessage string "string option" string
  | SmsCreate string sms_body
  | BotDelete string
  | Log logline

subsection \<open>The phases of an adapter call\<close>

text \<open>
  What one call of a channel adapter causes, in three parts: \<open>issued\<close>, what the
  call does before its first \<^verbatim>\<open>await\<close> (the requests it sends, or the console
  line of its guard); \<open>settled\<close>, the console lines printed from then until the
  promise of the call settles; \<open>late\<close>, the console lines printed after that by
  requests that were still pending. \<open>whole\<close> is all of it.
\<close>

record phases =
  issued :: "effect list"
  settled :: "effect list"
  late :: "effect list"

definition whole :: "phases \<Rightarrow> effect list" where
  "whole p = issued p @ settled p @ late p"

definition no_phases :: phases where
  "no_phases = \<lparr> issued = [], settled = [], late = [] \<rparr>"

subsection \<open>SlackThreadManager\<close>

record SlackThreadManager =
  threadTs :: "string option"
  slack_nudgeCount :: nat

record coaching =
  c_reason :: string
  c_message :: string
  c_batchNumber :: nat
  c_messagesAnalyzed :: nat

text \<open>The test \<^verbatim>\<open>this.threadTs\<close>: a thread handle that is set and not empty.\<close>

fun live_thread :: "string option \<Rightarrow> string option" where
  "live_thread None = None"
| "live_thread (Some ts) = (if ts = [] then None else Some ts)"

text \<open>
  \<^verbatim>\<open>startSessionThread\<close> suspends at its \<^verbatim>\<open>chat.postMessage\<close>. The part before is
  \<open>startSessionThread_post\<close>; the part after, run when the call settles, is
  \<open>startSessionThread_settle\<close>, whose last component says that the error was
  rethrown.
\<close>

definition startSessionThread_post :: "string \<Rightarrow> string \<Rightarrow> string \<Rightarrow> effect" where
  "startSessionThread_post memberName meetingTitle platform =
     SlackPostParent memberName meetingTitle platform"

definition startSessionThread_settle ::
  "slack_result \<Rightarrow> SlackThreadManager \<Rightarrow> SlackThreadManager \<times> effect list \<times> bool" where
  "startSessionThread_settle r m =
     (case r of
        SlackResolves ts \<Rightarrow> (m\<lparr>threadTs := Some ts\<rparr>, [Log (SlackThreadCreated ts)], False)
      | SlackRejects \<Rightarrow> (m, [Log SlackThreadError], True))"

text \<open>
  \<^verbatim>\<open>sendCoachingReply\<close>: without a thread handle only the console line of the
  guard; else the counter goes up and the reply is posted, and the outcome is logged
  when the post has settled. \<open>sendCoachingReply\<close> is the call as a whole.
\<close>

definition sendCoachingReply_phases ::
  "bool \<Rightarrow> coaching \<Rightarrow> SlackThreadManager \<Rightarrow> SlackThreadManager \<times> phases" where
  "sendCoachingReply_phases ok d m =
     (case live_thread (threadTs m) of
        None \<Rightarrow> (m, \<lparr> issued = [Log NoActiveSlackThread], settled = [], late = [] \<rparr>)
      | Some ts \<Rightarrow>
          (let n = slack_nudgeCount m + 1 in
           (m\<lparr>slack_nudgeCount := n\<rparr>,
            \<lparr> issued = [SlackPostReply ts n (c_reason d) (c_message d) (c_batchNumber d)
                          (c_messagesAnalyzed d)],
              settled = [Log (if ok then SlackNudgeSent n else SlackReplyError)],
              late = [] \<rparr>)))"

definition sendCoachingReply ::
  "bool \<Rightarrow> coaching \<Rightarrow> SlackThreadManager \<Rightarrow> SlackThreadManager \<times> effect list" where
  "sendCoachingReply ok d m =
     (fst (sendCoachingReply_phases ok d m), whole (snd (sendCoachingReply_phases ok d m)))"

text \<open>
  \<^verbatim>\<open>endSessionThread\<close>: the summary is posted into the thread; the handle and the
  counter are reset when the post has succeeded.
\<close>

definition endSessionThread_phases ::
  "bool \<Rightarrow> SlackThreadManager \<Rightarrow> SlackThreadManager \<times> phases" where
  "endSessionThread_phases ok m =
     (case live_thread (threadTs m) of
        None \<Rightarrow> (m, \<lparr> issued = [Log NoSlackThreadToEnd], settled = [], late = [] \<rparr>)
      | Some ts \<Rightarrow>
          (if ok
           then (m\<lparr>threadTs := None, slack_nudgeCount := 0\<rparr>,
                 \<lparr> issued = [SlackPostSummary ts (slack_nudgeCount m)],
                   settled = [Log SlackThreadEnded], late = [] \<rparr>)
           else (m, \<lparr> issued = [SlackPostSummary ts (slack_nudgeCount m)],
                      settled = [Log SlackEndError], late = [] \<rparr>)))"

definition endSessionThread ::
  "bool \<Rightarrow> SlackThreadManager \<Rightarrow> SlackThreadManager \<times> effect list" where
  "endSessionThread ok m =
     (fst (endSessionThread_phases ok m), whole (snd (endSessionThread_phases ok m)))"

subsection \<open>SMSManager\<close>

record SMSManager =
  sms_phoneNumbers :: "string list"
  sms_nudgeCount :: nat
  sessionActive :: bool

text \<open>
  \<^verbatim>\<open>sendSMS\<close>: one \<^verbatim>\<open>messages.create\<close>; it logs the outcome for its number and
  rethrows a failure.
\<close>

definition sendSMS_log :: "bool \<Rightarrow> string \<Rightarrow> effect" where
  "sendSMS_log ok phoneNumber = Log (if ok then SmsSentTo phoneNumber else SmsFailedTo phoneNumber)"

text \<open>
  \<^verbatim>\<open>this.phoneNumbers.map(p => this.sendSMS(p, body))\<close> followed by
  \<^verbatim>\<open>await Promise.all(sendPromises)\<close>. Every send is started before any is awaited.
  \<^verbatim>\<open>Promise.all\<close> resolves when every send has resolved and rejects as soon as one
  send has failed, without waiting for the others. With the sends settling in list
  order, the lines up to the first failed send are printed before the promise
  settles, those of the sends after it are late. The second component says that
  \<^verbatim>\<open>Promise.all\<close> rejected.
\<close>

definition send_all :: "(nat \<Rightarrow> bool) \<Rightarrow> string list \<Rightarrow> sms_body \<Rightarrow> phases \<times> bool" where
  "send_all ok phones body =
     (let sends = enumerate 0 phones;
          resolved = takeWhile (\<lambda>(i, p). ok i) sends;
          others = dropWhile (\<lambda>(i, p). ok i) sends
      in (\<lparr> issued = map (\<lambda>p. SmsCreate p body) phones,
            settled = map (\<lambda>(i, p). sendSMS_log (ok i) p) (resolved @ take 1 others),
            late = map (\<lambda>(i, p). sendSMS_log (ok i) p) (drop 1 others) \<rparr>,
          others \<noteq> []))"

text \<open>A line that is added to \<open>settled\<close>: it is printed when the promise settles.\<close>

definition closing :: "effect \<Rightarrow> phases \<Rightarrow> phases" where
  "closing e p = p\<lparr>settled := settled p @ [e]\<rparr>"

definition sms_idle :: "config \<Rightarrow> SMSManager \<Rightarrow> bool" where
  "sms_idle cfg s = (\<not> twilioClient cfg \<or> length (sms_phoneNumbers s) = 0 \<or> \<not> sessionActive s)"

text \<open>
  \<^verbatim>\<open>startSession\<close>: the session flag is set before the sends; a failure is
  logged and rethrown (the last component).
\<close>

definition startSession ::
  "config \<Rightarrow> (nat \<Rightarrow> bool) \<Rightarrow> string \<Rightarrow> string \<Rightarrow> string \<Rightarrow> SMSManager
     \<Rightarrow> SMSManager \<times> phases \<times> bool" where
  "startSession cfg ok memberName meetingTitle platform s =
     (if \<not> twilioClient cfg \<or> length (sms_phoneNumbers s) = 0
      then (s, \<lparr> issued = [Log SmsNotConfigured], settled = [], late = [] \<rparr>, False)
      else
        (let (p, rejected) =
               send_all ok (sms_phoneNumbers s)
                 (SessionStarted (or_default memberName ''Sales Rep'')
                    (or_default meetingTitle ''Sales Call'') (or_default platform ''Unknown''))
         in (s\<lparr>sessionActive := True\<rparr>,
             closing (Log (if rejected then SmsStartError else SmsStartAllSent)) p, rejected)))"

text \<open>
  \<^verbatim>\<open>sendCoachingNudge\<close>: the counter goes up before the sends; after
  \<^verbatim>\<open>Promise.all\<close> one line reports the nudge as sent to all numbers or as an error.
  \<open>sendCoachingNudge\<close> is the call as a whole, the lines of sends that are still
  pending when it returns included.
\<close>

definition sendCoachingNudge_phases ::
  "config \<Rightarrow> (nat \<Rightarrow> bool) \<Rightarrow> coaching \<Rightarrow> SMSManager \<Rightarrow> SMSManager \<times> phases" where
  "sendCoachingNudge_phases cfg ok d s =
     (if sms_idle cfg s
      then (s, \<lparr> issued = [Log SmsNotActive], settled = [], late = [] \<rparr>)
      else
        (let n = sms_nudgeCount s + 1;
             (p, rejected) =
               send_all ok (sms_phoneNumbers s) (Nudge n (c_reason d) (c_message d) (c_batchNumber d))
         in (s\<lparr>sms_nudgeCount := n\<rparr>,
             closing (Log (if rejected then SmsNudgeError else SmsNudgeAllSent n)) p)))"

definition sendCoachingNudge ::
  "config \<Rightarrow> (nat \<Rightarrow> bool) \<Rightarrow> coaching \<Rightarrow> SMSManager \<Rightarrow> SMSManager \<times> effect list" where
  "sendCoachingNudge cfg ok d s =
     (fst (sendCoachingNudge_phases cfg ok d s), whole (snd (sendCoachingNudge_phases cfg ok d s)))"

text \<open>
  \<^verbatim>\<open>endSession\<close>: the session flag and the counter are reset when every send
  has succeeded.
\<close>

definition endSession_phases ::
  "config \<Rightarrow> (nat \<Rightarrow> bool) \<Rightarrow> SMSManager \<Rightarrow> SMSManager \<times> phases" where
  "endSession_phases cfg ok s =
     (if sms_idle cfg s
      then (s, \<lparr> issued = [Log SmsNoSessionToEnd], settled = [], late = [] \<rparr>)
      else
        (let (p, rejected) = send_all ok (sms_phoneNumbers s) (SessionEnded (sms_nudgeCount s))
         in if rejected
            then (s, closing (Log SmsEndError) p)
            else (s\<lparr>sessionActive := False, sms_nudgeCount := 0\<rparr>, closing (Log SmsSessionEnded) p)))"

definition endSession :: "config \<Rightarrow> (nat \<Rightarrow> bool) \<Rightarrow> SMSManager \<Rightarrow> SMSManager \<times> effect list" where
  "endSession cfg ok s =
     (fst (endSession_phases cfg ok s), whole (snd (endSession_phases cfg ok s)))"

subsection \<open>AIAgent\<close>

text \<open>
  The fields of the class that the code reads again. A history entry is
  (role, speaker, text).
\<close>

record AIAgent =
  botId :: string
  meetingUrl :: string
  phoneNumbers :: "string list"
  conversationHistory :: "(string \<times> string \<times> string) list"
  interviewerId :: jsval
  interviewerName :: "string option"
  transcriptBuffer :: "string list"
  batchSize :: nat
  batchCount :: nat
  slackThread :: "SlackThreadManager option"
  smsManager :: "SMSManager option"

definition new_AIAgent :: "config \<Rightarrow> string \<Rightarrow> string \<Rightarrow> string list \<Rightarrow> AIAgent" where
  "new_AIAgent cfg bid url phones =
     \<lparr> botId = bid, meetingUrl = url, phoneNumbers = phones,
       conversationHistory = [], interviewerId = JNull, interviewerName = None,
       transcriptBuffer = [], batchSize = 6, batchCount = 0,
       slackThread =
         (if mode_on cfg ''SLACK'' \<and> slackClient cfg
          then Some \<lparr> threadTs = None, slack_nudgeCount = 0 \<rparr> else None),
       smsManager =
         (if mode_on cfg ''SMS'' \<and> twilioClient cfg \<and> length phones > 0
          then Some \<lparr> sms_phoneNumbers = phones, sms_nudgeCount = 0, sessionActive = False \<rparr>
          else None) \<rparr>"

definition extractMeetingTitle :: "string \<Rightarrow> string" where
  "extractMeetingTitle url =
     (if str_includes url ''zoom.us'' then ''Zoom Sales Call''
      else if str_includes url ''meet.google.com'' then ''Google Meet Sales Call''
      else if str_includes url ''teams.microsoft.com'' then ''Teams Sales Call''
      else ''Sales Call'')"

definition detectPlatform :: "string \<Rightarrow> string" where
  "detectPlatform url =
     (if str_includes url ''zoom.us'' then ''Zoom''
      else if str_includes url ''meet.google.com'' then ''Google Meet''
      else if str_includes url ''teams.microsoft.com'' then ''Microsoft Teams''
      else ''Unknown Platform'')"

text \<open>
  \<^verbatim>\<open>initializeSlackThread\<close>: guarded by \<^verbatim>\<open>this.slackThread && !this.slackThread.threadTs\<close>.
  \<open>initializeSlackThread_begin\<close> is the part up to the suspension inside
  \<^verbatim>\<open>startSessionThread\<close> (the post it issues, if any); \<open>initializeSlackThread_settle\<close>
  is the rest, with the \<^verbatim>\<open>catch\<close> that logs a rethrown failure.
\<close>

definition initializeSlackThread_begin :: "string \<Rightarrow> AIAgent \<Rightarrow> effect option" where
  "initializeSlackThread_begin memberName a =
     (case slackThread a of
        None \<Rightarrow> None
      | Some m \<Rightarrow>
          (if live_thread (threadTs m) = None
           then Some (startSessionThread_post (or_default memberName ''Sales Rep'')
                        (extractMeetingTitle (meetingUrl a)) (detectPlatform (meetingUrl a)))
           else None))"

definition initializeSlackThread_settle :: "slack_result \<Rightarrow> AIAgent \<Rightarrow> AIAgent \<times> effect list" where
  "initializeSlackThread_settle r a =
     (case slackThread a of
        None \<Rightarrow> (a, [])
      | Some m \<Rightarrow>
          (let (m', es, thrown) = startSessionThread_settle r m
           in (a\<lparr>slackThread := Some m'\<rparr>, es @ (if thrown then [Log SlackInitFailed] else []))))"

text \<open>
  \<^verbatim>\<open>setInterviewer\<close>: only while no truthy id is stored. It starts the Slack
  thread and the SMS session in the background. \<open>setInterviewer_begin\<close> runs up to
  the suspension of the Slack post; its third component says that a post is
  outstanding. The SMS start changes state (\<^verbatim>\<open>sessionActive = true\<close>) before its
  sends and nothing after them, so its lines are given with it, as \<open>settled\<close> and
  \<open>late\<close>; the \<^verbatim>\<open>catch\<close> on its promise adds a line when it rejects.
\<close>

definition setInterviewer_begin ::
  "config \<Rightarrow> world \<Rightarrow> string \<Rightarrow> jsval \<Rightarrow> AIAgent \<Rightarrow> AIAgent \<times> phases \<times> bool" where
  "setInterviewer_begin cfg w nm pid a =
     (if \<not> truthy (interviewerId a)
      then
        (let a1 = a\<lparr>interviewerId := pid, interviewerName := Some nm\<rparr>;
             post = (if mode_on cfg ''SLACK'' \<and> slackThread a1 \<noteq> None
                     then initializeSlackThread_begin nm a1 else None);
             (a2, sms) =
               (case (mode_on cfg ''SMS'', smsManager a1) of
                  (True, Some s) \<Rightarrow>
                    (let (s', p, rejected) =
                           startSession cfg (sms_start_ok w) (or_default nm ''Sales Rep'')
                             (extractMeetingTitle (meetingUrl a1)) (detectPlatform (meetingUrl a1)) s
                     in (a1\<lparr>smsManager := Some s'\<rparr>,
                         (if rejected then closing (Log SmsStartFailed) p else p)))
                | _ \<Rightarrow> (a1, no_phases))
         in (a2, sms\<lparr>issued := (case post of None \<Rightarrow> [] | Some e \<Rightarrow> [e]) @ issued sms\<rparr>,
             post \<noteq> None))
      else (a, no_phases, False))"

text \<open>The handler run with every call settling at once.\<close>

definition setInterviewer ::
  "config \<Rightarrow> world \<Rightarrow> string \<Rightarrow> jsval \<Rightarrow> AIAgent \<Rightarrow> AIAgent \<times> effect list" where
  "setInterviewer cfg w nm pid a =
     (let (a1, p, posted) = setInterviewer_begin cfg w nm pid a;
          (a2, es') = (if posted then initializeSlackThread_settle (slack_start w) a1 else (a1, []))
      in (a2, whole p @ es'))"

text \<open>
  \<^verbatim>\<open>sendPrivateChatMessage\<close>: the \<^verbatim>\<open>to\<close> field is set only for a truthy
  participant id; every failure is turned into the result \<^verbatim>\<open>false\<close>.
\<close>

definition sendPrivateChatMessage ::
  "fetch_result \<Rightarrow> string \<Rightarrow> jsval \<Rightarrow> string \<Rightarrow> phases \<times> bool" where
  "sendPrivateChatMessage r bid pid msg =
     (\<lparr> issued = [ZoomChatMessage bid (if truthy pid then Some (String_js pid) else None) msg],
        settled = [Log (if r = FetchOk then ZoomDelivered else ZoomFailed)],
        late = [] \<rparr>,
      r = FetchOk)"

text \<open>
  The three live branches of ``Send to ALL enabled platforms'' in
  \<^verbatim>\<open>analyzeBatch\<close>. Each gives the agent, the phases of the channel's adapter call
  and the number of promises it pushed on \<^verbatim>\<open>sendPromises\<close>.
\<close>

definition coachingData :: "call_args \<Rightarrow> AIAgent \<Rightarrow> coaching" where
  "coachingData g a =
     \<lparr> c_reason = reason g, c_message = message g,
       c_batchNumber = batchCount a, c_messagesAnalyzed = 6 \<rparr>"

definition send_slack :: "config \<Rightarrow> world \<Rightarrow> call_args \<Rightarrow> AIAgent \<Rightarrow> AIAgent \<times> phases \<times> nat" where
  "send_slack cfg w g a =
     (case (mode_on cfg ''SLACK'', slackThread a) of
        (True, Some m) \<Rightarrow>
          (let (m', p) = sendCoachingReply_phases (slack_reply_ok w) (coachingData g a) m
           in (a\<lparr>slackThread := Some m'\<rparr>, p, 1))
      | _ \<Rightarrow> (a, no_phases, 0))"

definition send_zoom :: "config \<Rightarrow> world \<Rightarrow> call_args \<Rightarrow> AIAgent \<Rightarrow> phases \<times> nat" where
  "send_zoom cfg w g a =
     (if mode_on cfg ''ZOOM_DM''
      then (fst (sendPrivateChatMessage (zoom_fetch w) (botId a) (interviewerId a) (message g)), 1)
      else (no_phases, 0))"

definition send_sms :: "config \<Rightarrow> world \<Rightarrow> call_args \<Rightarrow> AIAgent \<Rightarrow> AIAgent \<times> phases \<times> nat" where
  "send_sms cfg w g a =
     (case (mode_on cfg ''SMS'', smsManager a) of
        (True, Some s) \<Rightarrow>
          (let (s', p) = sendCoachingNudge_phases cfg (sms_nudge_ok w) (coachingData g a) s
           in (a\<lparr>smsManager := Some s'\<rparr>, p, 1))
      | _ \<Rightarrow> (a, no_phases, 0))"

text \<open>
  The fan-out. The three adapter calls are made one after the other without an
  \<^verbatim>\<open>await\<close> between them, so what they issue comes first. Every promise on
  \<^verbatim>\<open>sendPromises\<close> has its own \<^verbatim>\<open>catch\<close>, so \<^verbatim>\<open>await Promise.all(sendPromises)\<close>
  goes on when all three adapter calls have settled; then the number of platforms is
  logged. SMS sends that are still pending then print their lines later.
\<close>

definition send_to_platforms :: "config \<Rightarrow> world \<Rightarrow> call_args \<Rightarrow> AIAgent \<Rightarrow> AIAgent \<times> effect list" where
  "send_to_platforms cfg w g a =
     (let (a1, slack, n1) = send_slack cfg w g a;
          (zoom, n2) = send_zoom cfg w g a1;
          (a2, sms, n3) = send_sms cfg w g a1
      in (a2, issued slack @ issued zoom @ issued sms
              @ settled slack @ settled zoom @ settled sms
              @ [Log (CoachingSent (n1 + n2 + n3))]
              @ late slack @ late zoom @ late sms))"

text \<open>
  \<^verbatim>\<open>analyzeBatch\<close> suspends at \<^verbatim>\<open>await this.chat.sendMessage(batchMessage)\<close>.
  \<open>analyzeBatch_begin\<close> is the part before: nothing on an empty buffer, else the
  batch counter goes up, the buffer is joined and cleared, and the joined text is
  submitted. \<open>analyzeBatch_resume\<close> is the part after, including the \<^verbatim>\<open>catch\<close>
  that clears the buffer.
\<close>

definition analyzeBatch_begin :: "AIAgent \<Rightarrow> AIAgent \<times> string option" where
  "analyzeBatch_begin a =
     (if length (transcriptBuffer a) = 0 then (a, None)
      else (a\<lparr>batchCount := batchCount a + 1, transcriptBuffer := []\<rparr>,
            Some (join [CHR 0x0A] (transcriptBuffer a))))"

definition analyzeBatch_resume :: "config \<Rightarrow> world \<Rightarrow> AIAgent \<Rightarrow> AIAgent \<times> effect list" where
  "analyzeBatch_resume cfg w a =
     (case chat_reply w of
        ChatFails \<Rightarrow> (a\<lparr>transcriptBuffer := []\<rparr>, [Log BatchError])
      | ChatText t \<Rightarrow> (a, [Log Monitoring])
      | ChatCall fname args \<Rightarrow>
          (if fname = ''send_message''
           then (case args of
                   None \<Rightarrow> (a\<lparr>transcriptBuffer := []\<rparr>, [Log BatchError])
                 | Some g \<Rightarrow>
                     (if truthy (interviewerId a)
                      then send_to_platforms cfg w g a
                      else (a, [Log NoSalesRep])))
           else (a, [])))"

definition analyzeBatch :: "config \<Rightarrow> world \<Rightarrow> AIAgent \<Rightarrow> AIAgent \<times> effect list" where
  "analyzeBatch cfg w a =
     (case analyzeBatch_begin a of
        (a1, None) \<Rightarrow> (a1, [])
      | (a1, Some batchMessage) \<Rightarrow>
          (let (a2, es) = analyzeBatch_resume cfg w a1
           in (a2, ChatSendMessage batchMessage # es)))"

text \<open>
  \<^verbatim>\<open>processTranscript\<close>. \<open>transcript_line\<close> is the buffered text
  \<^verbatim>\<open>[ROLE - speaker]: text\<close>. \<open>processTranscript_begin\<close> runs to the first
  suspension: it reports an outstanding Slack thread post and the batch submitted to
  the chat model, if any.
\<close>

definition role_of :: "bool \<Rightarrow> string" where
  "role_of isHost = (if isHost then ''SALES REP'' else ''PROSPECT'')"

definition transcript_line :: "string \<Rightarrow> bool \<Rightarrow> string \<Rightarrow> string" where
  "transcript_line speaker isHost txt =
     ''['' @ role_of isHost @ '' - '' @ speaker @ '']: '' @ txt"

definition processTranscript_begin ::
  "config \<Rightarrow> world \<Rightarrow> string \<Rightarrow> jsval \<Rightarrow> bool \<Rightarrow> string \<Rightarrow> AIAgent
     \<Rightarrow> AIAgent \<times> phases \<times> bool \<times> string option" where
  "processTranscript_begin cfg w speaker pid isHost txt a =
     (let (a1, p, posted) =
            (if isHost \<and> \<not> truthy (interviewerId a)
             then setInterviewer_begin cfg w speaker pid a else (a, no_phases, False));
          a2 = a1\<lparr>conversationHistory := conversationHistory a1 @ [(role_of isHost, speaker, txt)],
                  transcriptBuffer := transcriptBuffer a1 @ [transcript_line speaker isHost txt]\<rparr>;
          (a3, submitted) =
            (if length (transcriptBuffer a2) \<ge> batchSize a2
             then analyzeBatch_begin a2 else (a2, None))
      in (a3, p, posted, submitted))"

text \<open>
  \<open>processTranscript\<close>: the handler with every call settling at once: the calls
  are issued, the chat call last; then the SMS start sends settle, then the thread
  post, then the chat call.
\<close>

definition processTranscript ::
  "config \<Rightarrow> world \<Rightarrow> string \<Rightarrow> jsval \<Rightarrow> bool \<Rightarrow> string \<Rightarrow> AIAgent \<Rightarrow> AIAgent \<times> effect list" where
  "processTranscript cfg w speaker pid isHost txt a =
     (let (a1, p, posted, submitted) = processTranscript_begin cfg w speaker pid isHost txt a;
          (a2, es') = (if posted then initializeSlackThread_settle (slack_start w) a1 else (a1, []));
          (a3, es'') =
            (case submitted of
               None \<Rightarrow> (a2, [])
             | Some batchMessage \<Rightarrow> analyzeBatch_resume cfg w a2)
      in (a3, issued p
                @ (case submitted of None \<Rightarrow> [] | Some batchMessage \<Rightarrow> [ChatSendMessage batchMessage])
                @ settled p @ late p @ es' @ es''))"

text \<open>
  \<^verbatim>\<open>flushBuffer\<close>: a last analysis when anything is buffered, awaited; then the
  end of session on the channels that are open, both calls made before either is
  awaited; a line with their number once both have settled.
\<close>

definition end_slack :: "config \<Rightarrow> world \<Rightarrow> AIAgent \<Rightarrow> AIAgent \<times> phases \<times> nat" where
  "end_slack cfg w a =
     (case (mode_on cfg ''SLACK'', slackThread a) of
        (True, Some m) \<Rightarrow>
          (if live_thread (threadTs m) \<noteq> None
           then (let (m', p) = endSessionThread_phases (slack_end_ok w) m
                 in (a\<lparr>slackThread := Some m'\<rparr>, p, 1))
           else (a, no_phases, 0))
      | _ \<Rightarrow> (a, no_phases, 0))"

definition end_sms :: "config \<Rightarrow> world \<Rightarrow> AIAgent \<Rightarrow> AIAgent \<times> phases \<times> nat" where
  "end_sms cfg w a =
     (case (mode_on cfg ''SMS'', smsManager a) of
        (True, Some s) \<Rightarrow>
          (if sessionActive s
           then (let (s', p) = endSession_phases cfg (sms_end_ok w) s
                 in (a\<lparr>smsManager := Some s'\<rparr>, p, 1))
           else (a, no_phases, 0))
      | _ \<Rightarrow> (a, no_phases, 0))"

definition flushBuffer :: "config \<Rightarrow> world \<Rightarrow> AIAgent \<Rightarrow> AIAgent \<times> effect list" where
  "flushBuffer cfg w a =
     (let (a1, es) = (if length (transcriptBuffer a) > 0 then analyzeBatch cfg w a else (a, []));
          (a2, slack, n1) = end_slack cfg w a1;
          (a3, sms, n2) = end_sms cfg w a2
      in (a3, es @ issued slack @ issued sms @ settled slack @ settled sms
              @ (if n1 + n2 > 0 then [Log (EndedSessions (n1 + n2))] else [])
              @ late slack @ late sms))"

subsection \<open>The session map and the routes\<close>

text \<open>
  A session holds the transcript list shown on the dashboard (speaker, words, host
  flag) and its agent. \<^verbatim>\<open>sessions\<close> is a map from bot id to session.
\<close>

record session =
  transcripts :: "(string \<times> string \<times> bool) list"
  aiAgent :: AIAgent

type_synonym sessions = "string \<rightharpoonup> session"

datatype http_response = Ok200 | BadRequest400 | Unauthorized401 | Error500

text \<open>
  \<^verbatim>\<open>POST /api/start-bot\<close>: \<open>created\<close> is the id of the bot the control plane
  created, absent when that request failed.
\<close>

definition start_bot ::
  "config \<Rightarrow> string option \<Rightarrow> string \<Rightarrow> string list \<Rightarrow> sessions \<Rightarrow> http_response \<times> sessions" where
  "start_bot cfg created meeting_url phones ss =
     (if meeting_url = [] then (BadRequest400, ss)
      else (case created of
              None \<Rightarrow> (Error500, ss)
            | Some bid \<Rightarrow>
                (Ok200, ss(bid \<mapsto> \<lparr> transcripts = [],
                                        aiAgent = new_AIAgent cfg bid meeting_url phones \<rparr>))))"

text \<open>
  The body of a webhook request: the event name, and \<^verbatim>\<open>data\<close> with
  \<^verbatim>\<open>data.bot?.id\<close> and \<^verbatim>\<open>data.data\<close>. \<open>in_words\<close> is the text already
  extracted from \<^verbatim>\<open>transcript.words\<close>.
\<close>

datatype participant = Participant (p_name: string) (p_id: jsval) (p_is_host: bool)

datatype inner = Inner (in_participant: "participant option") (in_words: string)

datatype request =
  Request (secret_ok: bool) (event_name: string) (body_data: "(string option \<times> inner option) option")

definition find_session :: "sessions \<Rightarrow> string option \<Rightarrow> (string \<times> session) option" where
  "find_session ss b =
     (case b of
        None \<Rightarrow> None
      | Some bid \<Rightarrow> (case ss bid of None \<Rightarrow> None | Some s \<Rightarrow> Some (bid, s)))"

text \<open>
  The \<^verbatim>\<open>setImmediate\<close> callback of \<^verbatim>\<open>POST /api/webhook\<close>, after its test
  \<^verbatim>\<open>!event || !data\<close>.
\<close>

definition on_transcript ::
  "config \<Rightarrow> world \<Rightarrow> string \<Rightarrow> session \<Rightarrow> inner \<Rightarrow> sessions \<Rightarrow> sessions \<times> effect list" where
  "on_transcript cfg w bid s tr ss =
     (let speaker = (case in_participant tr of None \<Rightarrow> ''Unknown''
                     | Some p \<Rightarrow> or_default (p_name p) ''Unknown'');
          participantId = (case in_participant tr of None \<Rightarrow> JNull | Some p \<Rightarrow> p_id p);
          isHost = (case in_participant tr of None \<Rightarrow> False | Some p \<Rightarrow> p_is_host p);
          txt = in_words tr
      in if txt \<noteq> []
         then
           (let s1 = s\<lparr>transcripts := transcripts s @ [(speaker, txt, isHost)]\<rparr>;
                (a', es) =
                  (if truthy participantId
                   then processTranscript cfg w speaker participantId isHost txt (aiAgent s1)
                   else (aiAgent s1, []))
            in (ss(bid \<mapsto> s1\<lparr>aiAgent := a'\<rparr>), es))
         else (ss, []))"

definition on_join ::
  "config \<Rightarrow> world \<Rightarrow> string \<Rightarrow> session \<Rightarrow> inner option \<Rightarrow> sessions \<Rightarrow> sessions \<times> effect list" where
  "on_join cfg w bid s d ss =
     (case d of
        None \<Rightarrow> (ss, [])
      | Some i \<Rightarrow>
          (case in_participant i of
             None \<Rightarrow> (ss, [])
           | Some p \<Rightarrow>
               (if p_is_host p
                then (let (a', es) = setInterviewer cfg w (p_name p) (p_id p) (aiAgent s)
                      in (ss(bid \<mapsto> s\<lparr>aiAgent := a'\<rparr>), es))
                else (ss, []))))"

definition webhook_task ::
  "config \<Rightarrow> world \<Rightarrow> string \<Rightarrow> string option \<times> inner option \<Rightarrow> sessions \<Rightarrow> sessions \<times> effect list" where
  "webhook_task cfg w ev d ss =
     (case find_session ss (fst d) of
        None \<Rightarrow> (ss, [Log NoSessionFound])
      | Some (bid, s) \<Rightarrow>
          (if ev = ''transcript.data'' \<or> ev = ''transcript.partial_data''
           then (case snd d of
                   None \<Rightarrow> (ss, [Log NoTranscriptData])
                 | Some tr \<Rightarrow>
                     (if ev = ''transcript.partial_data'' then (ss, [])
                      else on_transcript cfg w bid s tr ss))
           else if ev = ''participant_events.join'' then on_join cfg w bid s (snd d) ss
           else (ss, [])))"

text \<open>
  \<^verbatim>\<open>POST /api/webhook\<close>: the response is sent before the callback runs;
  it is 401 on a wrong secret and 200 \<^verbatim>\<open>OK\<close> in every other case.
\<close>

definition webhook ::
  "config \<Rightarrow> world \<Rightarrow> request \<Rightarrow> sessions \<Rightarrow> http_response \<times> sessions \<times> effect list" where
  "webhook cfg w req ss =
     (if \<not> secret_ok req then (Unauthorized401, ss, [])
      else (case body_data req of
              None \<Rightarrow> (Ok200, ss, [])
            | Some d \<Rightarrow>
                (if event_name req = [] then (Ok200, ss, [])
                 else (let (ss', es) = webhook_task cfg w (event_name req) d ss
                       in (Ok200, ss', es)))))"

text \<open>
  \<^verbatim>\<open>POST /api/stop-bot/:botId\<close>: flush the session's agent if the session
  exists, delete the bot, and only then remove the session; a rejected
  \<^verbatim>\<open>DELETE\<close> skips the removal and answers 500.
\<close>

definition stop_bot ::
  "config \<Rightarrow> world \<Rightarrow> string \<Rightarrow> sessions \<Rightarrow> http_response \<times> sessions \<times> effect list" where
  "stop_bot cfg w bid ss =
     (let (ss1, es) =
            (case ss bid of
               None \<Rightarrow> (ss, [])
             | Some s \<Rightarrow>
                 (let (a', out) = flushBuffer cfg w (aiAgent s)
                  in (ss(bid \<mapsto> s\<lparr>aiAgent := a'\<rparr>), out)))
      in if delete_ok w
         then (Ok200, ss1(bid := None), es @ [BotDelete bid])
         else (Error500, ss1, es @ [BotDelete bid]))"

subsection \<open>Handlers that overlap\<close>

text \<open>
  Each webhook request runs in a callback of its own, and a callback gives up control
  at every \<^verbatim>\<open>await\<close>. Between two suspensions the code runs alone, so a run of the
  server on one session is a sequence of ticks: a transcript arrives and its handler
  runs to its first suspension; the host's join event arrives and \<^verbatim>\<open>setInterviewer\<close>
  runs; an outstanding thread post settles; an outstanding chat call settles. The
  state counts the calls that are outstanding. The continuation of a chat call reads
  only the agent and the response, so the count is all that is needed. It is run in
  one tick, the sends it makes settling at once: all that a fan-out changes in the
  agent (the two nudge counters) it changes before its first suspension. Nothing in
  the code orders the ticks: every list of ticks in which a call settles after it was
  issued is a run.
\<close>

record loop =
  agent :: AIAgent
  analyzing :: nat
  thread_posts :: nat
  emitted :: "effect list"

datatype tick =
    TranscriptArrives world string jsval bool string
  | HostJoins world string jsval
  | ThreadPostSettles slack_result
  | ChatSettles world

definition start_loop :: "AIAgent \<Rightarrow> loop" where
  "start_loop a = \<lparr> agent = a, analyzing = 0, thread_posts = 0, emitted = [] \<rparr>"

definition tick_step :: "config \<Rightarrow> tick \<Rightarrow> loop \<Rightarrow> loop option" where
  "tick_step cfg t l =
     (case t of
        TranscriptArrives w speaker pid isHost txt \<Rightarrow>
          (let (a', p, posted, submitted) =
                 processTranscript_begin cfg w speaker pid isHost txt (agent l)
           in Some \<lparr> agent = a',
                     analyzing = analyzing l + (case submitted of None \<Rightarrow> 0 | Some b \<Rightarrow> 1),
                     thread_posts = thread_posts l + (if posted then 1 else 0),
                     emitted = emitted l @ issued p
                       @ (case submitted of None \<Rightarrow> [] | Some b \<Rightarrow> [ChatSendMessage b])
                       @ settled p @ late p \<rparr>)
      | HostJoins w nm pid \<Rightarrow>
          (let (a', p, posted) = setInterviewer_begin cfg w nm pid (agent l)
           in Some \<lparr> agent = a', analyzing = analyzing l,
                     thread_posts = thread_posts l + (if posted then 1 else 0),
                     emitted = emitted l @ whole p \<rparr>)
      | ThreadPostSettles r \<Rightarrow>
          (if thread_posts l = 0 then None
           else (let (a', es) = initializeSlackThread_settle r (agent l)
                 in Some \<lparr> agent = a', analyzing = analyzing l,
                           thread_posts = thread_posts l - 1, emitted = emitted l @ es \<rparr>))
      | ChatSettles w \<Rightarrow>
          (if analyzing l = 0 then None
           else (let (a', es) = analyzeBatch_resume cfg w (agent l)
                 in Some \<lparr> agent = a', analyzing = analyzing l - 1,
                           thread_posts = thread_posts l, emitted = emitted l @ es \<rparr>)))"

fun run_ticks :: "config \<Rightarrow> tick list \<Rightarrow> loop \<Rightarrow> loop option" where
  "run_ticks cfg [] l = Some l"
| "run_ticks cfg (t # ts) l =
     (case tick_step cfg t l of None \<Rightarrow> None | Some l' \<Rightarrow> run_ticks cfg ts l')"

subsection \<open>Runs of transcript events, one handler after the other\<close>

text \<open>
  An arrival is the argument list of one \<^verbatim>\<open>processTranscript\<close> call with the
  world its handler meets. \<open>ingest_all\<close> runs the handlers in order, each to its
  end before the next starts.
\<close>

type_synonym arrival = "world \<times> string \<times> jsval \<times> bool \<times> string"

fun line_of :: "arrival \<Rightarrow> string" where
  "line_of (w, speaker, pid, isHost, txt) = transcript_line speaker isHost txt"

fun ingest_all :: "config \<Rightarrow> arrival list \<Rightarrow> AIAgent \<Rightarrow> AIAgent \<times> effect list" where
  "ingest_all cfg [] a = (a, [])"
| "ingest_all cfg ((w, speaker, pid, isHost, txt) # evs) a =
     (let (a1, es) = processTranscript cfg w speaker pid isHost txt a;
          (a2, es') = ingest_all cfg evs a1
      in (a2, es @ es'))"

text \<open>
  The tick of an arrival, and the ticks of one handler that runs alone: the arrival,
  then the settling of the thread post and of the chat call it started, if any.
\<close>

fun arrive :: "arrival \<Rightarrow> tick" where
  "arrive (w, sp, pid, h, tx) = TranscriptArrives w sp pid h tx"

fun handler_ticks :: "config \<Rightarrow> arrival \<Rightarrow> AIAgent \<Rightarrow> tick list" where
  "handler_ticks cfg (w, sp, pid, h, tx) a =
     (let (a', p, posted, submitted) = processTranscript_begin cfg w sp pid h tx a
      in TranscriptArrives w sp pid h tx
         # (if posted then [ThreadPostSettles (slack_start w)] else [])
         @ (case submitted of None \<Rightarrow> [] | Some b \<Rightarrow> [ChatSettles w]))"

subsection \<open>Reading a list of effects\<close>

fun is_log :: "effect \<Rightarrow> bool" where
  "is_log (Log l) = True"
| "is_log e = False"

text \<open>The calls that left the process, without the console lines.\<close>

definition calls :: "effect list \<Rightarrow> effect list" where
  "calls es = filter (\<lambda>e. \<not> is_log e) es"

text \<open>The batches submitted to the chat model, in order.\<close>

fun chat_batches :: "effect list \<Rightarrow> string list" where
  "chat_batches [] = []"
| "chat_batches (ChatSendMessage b # es) = b # chat_batches es"
| "chat_batches (e # es) = chat_batches es"

datatype channel = Slack | ZoomDM | SMS

fun log_channel :: "logline \<Rightarrow> channel option" where
  "log_channel (SlackThreadCreated ts) = Some Slack"
| "log_channel SlackThreadError = Some Slack"
| "log_channel SlackInitFailed = Some Slack"
| "log_channel NoActiveSlackThread = Some Slack"
| "log_channel (SlackNudgeSent n) = Some Slack"
| "log_channel SlackReplyError = Some Slack"
| "log_channel NoSlackThreadToEnd = Some Slack"
| "log_channel SlackThreadEnded = Some Slack"
| "log_channel SlackEndError = Some Slack"
| "log_channel SmsNotConfigured = Some SMS"
| "log_channel SmsNotActive = Some SMS"
| "log_channel SmsNoSessionToEnd = Some SMS"
| "log_channel (SmsSentTo p) = Some SMS"
| "log_channel (SmsFailedTo p) = Some SMS"
| "log_channel SmsStartAllSent = Some SMS"
| "log_channel SmsStartError = Some SMS"
| "log_channel SmsStartFailed = Some SMS"
| "log_channel (SmsNudgeAllSent n) = Some SMS"
| "log_channel SmsNudgeError = Some SMS"
| "log_channel SmsSessionEnded = Some SMS"
| "log_channel SmsEndError = Some SMS"
| "log_channel ZoomDelivered = Some ZoomDM"
| "log_channel ZoomFailed = Some ZoomDM"
| "log_channel l = None"

fun channel_of :: "effect \<Rightarrow> channel option" where
  "channel_of (SlackPostParent m t p) = Some Slack"
| "channel_of (SlackPostReply ts n r m b k) = Some Slack"
| "channel_of (SlackPostSummary ts n) = Some Slack"
| "channel_of (ZoomChatMessage b t m) = Some ZoomDM"
| "channel_of (SmsCreate p b) = Some SMS"
| "channel_of (Log l) = log_channel l"
| "channel_of e = None"

definition on_channel :: "channel \<Rightarrow> effect list \<Rightarrow> effect list" where
  "on_channel c es = filter (\<lambda>e. channel_of e = Some c) es"

text \<open>The end-of-session calls: the Slack summary and the SMS session-ended text.\<close>

fun is_end :: "effect \<Rightarrow> bool" where
  "is_end (SlackPostSummary ts n) = True"
| "is_end (SmsCreate p (SessionEnded n)) = True"
| "is_end e = False"

text \<open>
  The channels on which \<^verbatim>\<open>analyzeBatch\<close> pushes a send promise, in its order.
\<close>

definition platforms :: "config \<Rightarrow> AIAgent \<Rightarrow> channel list" where
  "platforms cfg a =
     (if mode_on cfg ''SLACK'' \<and> slackThread a \<noteq> None then [Slack] else [])
     @ (if mode_on cfg ''ZOOM_DM'' then [ZoomDM] else [])
     @ (if mode_on cfg ''SMS'' \<and> smsManager a \<noteq> None then [SMS] else [])"

text \<open>Two worlds that settle the coaching send of a channel alike.\<close>

fun same_outcome :: "channel \<Rightarrow> world \<Rightarrow> world \<Rightarrow> bool" where
  "same_outcome Slack w w' = (slack_reply_ok w = slack_reply_ok w')"
| "same_outcome ZoomDM w w' = (zoom_fetch w = zoom_fetch w')"
| "same_outcome SMS w w' = (sms_nudge_ok w = sms_nudge_ok w')"

text \<open>
  The windows of exactly \<open>n\<close> consecutive elements of a list, from its start;
  what is left over at the end is in no window.
\<close>

function windows :: "nat \<Rightarrow> 'a list \<Rightarrow> 'a list list" where
  "windows n xs =
     (if n = 0 \<or> length xs < n then [] else take n xs # windows n (drop n xs))"
  by pat_completeness auto
termination
  by (relation "measure (\<lambda>(n, xs). length xs)") auto

declare windows.simps [simp del]

subsection \<open>What a fan-out leaves in place\<close>

text \<open>
  The thread handle of the Slack manager, and the phone list and session flag of the
  SMS manager: the parts of the channel state that decide whether a channel is open.
\<close>

definition handle :: "AIAgent \<Rightarrow> string option option" where
  "handle a = map_option threadTs (slackThread a)"

definition sms_line :: "AIAgent \<Rightarrow> (string list \<times> bool) option" where
  "sms_line a = map_option (\<lambda>s. (sms_phoneNumbers s, sessionActive s)) (smsManager a)"

text \<open>The thread handle that passes the test \<^verbatim>\<open>this.threadTs\<close>, if there is one.\<close>

definition live_handle :: "AIAgent \<Rightarrow> string option" where
  "live_handle a = (case handle a of None \<Rightarrow> None | Some t \<Rightarrow> live_thread t)"

text \<open>The post that opens a Slack thread.\<close>

fun is_parent_post :: "effect \<Rightarrow> bool" where
  "is_parent_post (SlackPostParent m t p) = True"
| "is_parent_post e = False"

text \<open>
  The test of \<^verbatim>\<open>processTranscript\<close> after its push: the buffer, one line longer,
  has reached the batch size.
\<close>

definition fills :: "AIAgent \<Rightarrow> bool" where
  "fills a = (batchSize a \<le> length (transcriptBuffer a) + 1)"

subsection \<open>Deliveries, host signals and the batcher\<close>

text \<open>
  The calls a directive \<open>g\<close> is to cause when the agent \<open>a\<close> fans it out: the reply
  into the Slack thread when Slack is on and a thread is open, the direct message to
  the host when direct messages are on, one text per phone number when SMS is on and
  the SMS session is active. They are listed in the order of the three branches of
  \<^verbatim>\<open>analyzeBatch\<close>.
\<close>

definition deliveries :: "config \<Rightarrow> call_args \<Rightarrow> AIAgent \<Rightarrow> effect list" where
  "deliveries cfg g a =
     (case (mode_on cfg ''SLACK'', slackThread a) of
        (True, Some m) \<Rightarrow>
          (case live_thread (threadTs m) of
             None \<Rightarrow> []
           | Some ts \<Rightarrow>
               [SlackPostReply ts (slack_nudgeCount m + 1) (reason g) (message g) (batchCount a) 6])
      | _ \<Rightarrow> [])
     @ (if mode_on cfg ''ZOOM_DM''
        then [ZoomChatMessage (botId a) (Some (String_js (interviewerId a))) (message g)] else [])
     @ (case (mode_on cfg ''SMS'', smsManager a) of
          (True, Some s) \<Rightarrow>
            (if sms_idle cfg s then []
             else map (\<lambda>p. SmsCreate p (Nudge (sms_nudgeCount s + 1) (reason g) (message g) (batchCount a)))
                    (sms_phoneNumbers s))
        | _ \<Rightarrow> [])"

text \<open>
  The console line with which the coaching send of a channel ends: the adapter call
  of that channel has settled when it is printed.
\<close>

fun outcome_of :: "effect \<Rightarrow> channel option" where
  "outcome_of (Log (SlackNudgeSent n)) = Some Slack"
| "outcome_of (Log SlackReplyError) = Some Slack"
| "outcome_of (Log NoActiveSlackThread) = Some Slack"
| "outcome_of (Log ZoomDelivered) = Some ZoomDM"
| "outcome_of (Log ZoomFailed) = Some ZoomDM"
| "outcome_of (Log (SmsNudgeAllSent n)) = Some SMS"
| "outcome_of (Log SmsNudgeError) = Some SMS"
| "outcome_of (Log SmsNotActive) = Some SMS"
| "outcome_of e = None"

text \<open>
  A tick that can resolve the host (a transcript event of the host, or the host's
  join event), and a tick whose host signal, if it is one, carries a truthy
  participant id.
\<close>

fun host_signal :: "tick \<Rightarrow> bool" where
  "host_signal (TranscriptArrives w sp pid h tx) = h"
| "host_signal (HostJoins w nm pid) = True"
| "host_signal t = False"

fun names_host :: "tick \<Rightarrow> bool" where
  "names_host (TranscriptArrives w sp pid h tx) = (\<not> h \<or> truthy pid)"
| "names_host (HostJoins w nm pid) = truthy pid"
| "names_host t = True"

text \<open>
  The number of posts that open a thread, and what holds of them in a run whose host
  signals all carry an id: no thread post is issued before the host is resolved, and
  the posts that are outstanding together with the thread that is open are never
  more than the one post that was issued.
\<close>

definition parent_posts :: "effect list \<Rightarrow> nat" where
  "parent_posts es = length (filter is_parent_post es)"

definition one_thread :: "loop \<Rightarrow> bool" where
  "one_thread l =
     ((truthy (interviewerId (agent l)) \<or> (parent_posts (emitted l) = 0 \<and> thread_posts l = 0))
      \<and> thread_posts l + (if live_handle (agent l) = None then 0 else 1) \<le> parent_posts (emitted l)
      \<and> parent_posts (emitted l) \<le> 1)"

text \<open>
  The analysis fails: the chat call rejects, or its reply is a \<^verbatim>\<open>send_message\<close>
  call without arguments.
\<close>

definition analysis_fails :: "world \<Rightarrow> bool" where
  "analysis_fails w = (chat_reply w = ChatFails \<or> chat_reply w = ChatCall ''send_message'' None)"

text \<open>
  The batcher in words, to be compared with the code: it holds the lines buffered so
  far and the batches submitted so far. A transcript event adds its line; when that
  makes six lines, the six are submitted as one batch and the buffer is empty. An
  analysis that fails empties the buffer when it settles. Nothing else touches
  either.
\<close>

fun batcher :: "tick \<Rightarrow> string list \<times> string list list \<Rightarrow> string list \<times> string list list" where
  "batcher (TranscriptArrives w sp pid h tx) (buf, out) =
     (if length buf + 1 = 6 then ([], out @ [buf @ [transcript_line sp h tx]])
      else (buf @ [transcript_line sp h tx], out))"
| "batcher (ChatSettles w) (buf, out) = (if analysis_fails w then [] else buf, out)"
| "batcher t (buf, out) = (buf, out)"

text \<open>
  The line that a tick adds to the buffer, if it adds one, and the ticks at which an
  analysis fails.
\<close>

fun line_added :: "tick \<Rightarrow> string list" where
  "line_added (TranscriptArrives w sp pid h tx) = [transcript_line sp h tx]"
| "line_added t = []"

fun failed_analysis :: "tick \<Rightarrow> bool" where
  "failed_analysis (ChatSettles w) = analysis_fails w"
| "failed_analysis t = False"

subsection \<open>Example values\<close>

text \<open>
  A configuration with all three channels, a session with two phone numbers, a reply
  of the chat model that names a participant other than the host, and a world in
  which every call succeeds.
\<close>

definition ex_cfg :: config where
  "ex_cfg = \<lparr> INTEGRATION_MODES = [''ZOOM_DM'', ''SLACK'', ''SMS''], twilio_credentials = True \<rparr>"

definition ex_args :: call_args where
  "ex_args = \<lparr> participant_id = JStr ''p9'', participant_name = ''Prospect'',
               message = ''Ask about budget'', reason = ''No BANT qualification yet'' \<rparr>"

definition ex_world :: world where
  "ex_world =
     \<lparr> chat_reply = ChatCall ''send_message'' (Some ex_args),
       slack_start = SlackResolves ''1700.01'', slack_reply_ok = True, slack_end_ok = True,
       zoom_fetch = FetchOk, sms_start_ok = (\<lambda>i. True), sms_nudge_ok = (\<lambda>i. True),
       sms_end_ok = (\<lambda>i. True), delete_ok = True \<rparr>"

definition ex_agent :: AIAgent where
  "ex_agent = new_AIAgent ex_cfg ''bot-1'' ''https://zoom.us/j/1'' [''+15550001'', ''+15550002'']"

text \<open>The agent once the host (participant 100) has been resolved.\<close>

definition ex_host :: AIAgent where
  "ex_host = fst (setInterviewer ex_cfg ex_world ''Ann'' (JNum 100) ex_agent)"

definition ex_sms :: SMSManager where
  "ex_sms = \<lparr> sms_phoneNumbers = [''+15550001'', ''+15550002''], sms_nudgeCount = 0,
              sessionActive = True \<rparr>"

definition ex_coaching :: coaching where
  "ex_coaching = coachingData ex_args ex_host"

text \<open>The host's agent with one line left in the buffer.\<close>

definition ex_late :: AIAgent where
  "ex_late = ex_host\<lparr>transcriptBuffer := [''[PROSPECT - Bo]: too expensive'']\<rparr>"

text \<open>A session map with one started bot, and a transcript event for it.\<close>

definition ex_sessions :: sessions where
  "ex_sessions = snd (start_bot ex_cfg (Some ''bot-1'') ''https://zoom.us/j/1'' [''+15550001'', ''+15550002''] Map.empty)"

definition ex_request :: request where
  "ex_request = Request True ''transcript.data''
     (Some (Some ''bot-1'', Some (Inner (Some (Participant ''Ann'' (JNum 100) True)) ''hello'')))"

text \<open>Seven transcript events: the host's greeting and six lines of the prospect.\<close>

definition ex_seven :: "arrival list" where
  "ex_seven =
     (ex_world, ''Ann'', JNum 100, True, ''hello'')
     # map (\<lambda>t. (ex_world, ''Bo'', JNum 200, False, t)) [''a'', ''b'', ''c'', ''d'', ''e'', ''f'']"

text \<open>The agent whose host was resolved while Slack refused the thread post.\<close>

definition ex_nothread :: AIAgent where
  "ex_nothread = fst (setInterviewer ex_cfg (ex_world\<lparr>slack_start := SlackRejects\<rparr>) ''Ann'' (JNum 100) ex_agent)"

text \<open>Twelve transcript events.\<close>

definition ex_twelve :: "arrival list" where
  "ex_twelve = ex_seven @ map (\<lambda>t. (ex_world, ''Bo'', JNum 200, False, t)) [''g'', ''h'', ''i'', ''j'', ''k'']"

text \<open>
  A run in which the thread post settles late: six events arrive and the first
  analysis returns a directive while the post that opens the Slack thread is still
  outstanding; the post settles; six more events arrive and the second analysis
  returns a directive.
\<close>

definition ex_late_thread :: "tick list" where
  "ex_late_thread =
     map arrive (take 6 ex_seven)
     @ [ChatSettles ex_world, ThreadPostSettles (SlackResolves ''1700.01'')]
     @ map arrive (take 6 ex_seven)
     @ [ChatSettles ex_world]"

text \<open>
  Twelve transcript events of which the chat call of the first batch fails after the
  eighth: the first eight arrive, the call settles, the last four arrive.
\<close>

definition ex_lost :: "tick list" where
  "ex_lost =
     map arrive (take 8 ex_twelve)
     @ [ChatSettles (ex_world\<lparr>chat_reply := ChatFails\<rparr>)]
     @ map arrive (drop 8 ex_twelve)"

text \<open>
  The host's join event arrives twice without a participant id before Slack has
  answered; then Slack answers the two thread posts.
\<close>

definition ex_two_joins :: "tick list" where
  "ex_two_joins =
     [HostJoins ex_world ''Ann'' JNull, HostJoins ex_world ''Ann'' JNull,
      ThreadPostSettles (SlackResolves ''1700.01''), ThreadPostSettles (SlackResolves ''1700.02'')]"

text \<open>The session map after the host's first transcript event.\<close>

definition ex_live :: sessions where
  "ex_live = fst (snd (webhook ex_cfg ex_world ex_request ex_sessions))"

section \<open>Properties\<close>

subsection \<open>Auxiliary facts about the adapters and the fan-out\<close>

lemma calls_append [simp]: "calls (xs @ ys) = calls xs @ calls ys"
  by (simp add: calls_def)

lemma on_channel_append [simp]: "on_channel c (xs @ ys) = on_channel c xs @ on_channel c ys"
  by (simp add: on_channel_def)

lemma on_channel_all: "list_all (\<lambda>e. channel_of e = Some c') es \<Longrightarrow> on_channel c es = (if c = c' then es else [])"
  by (induction es) (auto simp: on_channel_def)

lemma calls_logs: "list_all is_log es \<Longrightarrow> calls es = []"
  by (induction es) (auto simp: calls_def)

lemma whole_simps [simp]: "whole \<lparr> issued = i, settled = s, late = l \<rparr> = i @ s @ l"
  by (simp add: whole_def)

lemma no_phases_simps [simp]:
  "issued no_phases = []" "settled no_phases = []" "late no_phases = []" "whole no_phases = []"
  by (simp_all add: no_phases_def)

lemma closing_simps [simp]:
  "issued (closing e p) = issued p" "settled (closing e p) = settled p @ [e]" "late (closing e p) = late p"
  by (simp_all add: closing_def)

lemma list_all_whole:
  "list_all P (whole p) = (list_all P (issued p) \<and> list_all P (settled p) \<and> list_all P (late p))"
  by (simp add: whole_def)

lemma send_all_issued [simp]: "issued (fst (send_all ok ps b)) = map (\<lambda>p. SmsCreate p b) ps"
  by (simp add: send_all_def Let_def)

lemma send_all_lines:
  "settled (fst (send_all ok ps b)) @ late (fst (send_all ok ps b))
     = map (\<lambda>(i, p). sendSMS_log (ok i) p) (enumerate 0 ps)"
  by (simp add: send_all_def Let_def flip: map_append)

lemma send_all_rejected: "snd (send_all ok ps b) = (\<not> (\<forall>i < length ps. ok i))"
  by (auto simp: send_all_def Let_def dropWhile_eq_Nil_conv in_set_enumerate_eq)

lemma send_all_late: "\<forall>i < length ps. ok i \<Longrightarrow> late (fst (send_all ok ps b)) = []"
proof -
  assume "\<forall>i < length ps. ok i"
  then have "dropWhile (\<lambda>(i, p). ok i) (enumerate 0 ps) = []"
    by (auto simp: dropWhile_eq_Nil_conv in_set_enumerate_eq)
  then have "drop 1 (dropWhile (\<lambda>(i, p). ok i) (enumerate 0 ps)) = []"
    by (simp only: drop_Nil)
  then show ?thesis
    by (simp add: send_all_def Let_def)
qed

lemma send_all_log_set:
  "set (settled (fst (send_all ok ps b))) \<union> set (late (fst (send_all ok ps b)))
     = {sendSMS_log (ok i) (ps ! i) | i. i < length ps}"
proof -
  have "set (settled (fst (send_all ok ps b))) \<union> set (late (fst (send_all ok ps b)))
          = set (settled (fst (send_all ok ps b)) @ late (fst (send_all ok ps b)))"
    by simp
  also have "\<dots> = (\<lambda>(i, p). sendSMS_log (ok i) p) ` set (enumerate 0 ps)"
    by (simp only: send_all_lines set_map)
  also have "\<dots> = {sendSMS_log (ok i) (ps ! i) | i. i < length ps}"
    by (force simp: in_set_enumerate_eq image_iff)
  finally show ?thesis .
qed

lemma send_all_logs:
  assumes "i < length ps"
  shows "sendSMS_log (ok i) (ps ! i) \<in> set (whole (fst (send_all ok ps b)))"
  using assms send_all_log_set [of ok ps b] by (auto simp: whole_def)

lemma send_all_log_phases:
  "list_all is_log (settled (fst (send_all ok ps b)))"
  "list_all is_log (late (fst (send_all ok ps b)))"
  by (auto simp: send_all_def Let_def sendSMS_log_def list_all_iff)

lemma send_all_channel: "list_all (\<lambda>e. channel_of e = Some SMS) (whole (fst (send_all ok ps b)))"
  by (auto simp: whole_def send_all_def Let_def sendSMS_log_def list_all_iff)

lemma send_all_calls: "calls (whole (fst (send_all ok ps b))) = map (\<lambda>p. SmsCreate p b) ps"
  by (simp add: whole_def calls_logs send_all_log_phases) (simp add: calls_def)

lemma sendCoachingReply_channel: "list_all (\<lambda>e. channel_of e = Some Slack) (snd (sendCoachingReply ok d m))"
  by (cases "live_thread (threadTs m)") (simp_all add: sendCoachingReply_def sendCoachingReply_phases_def Let_def)

lemma sendCoachingReply_state: "fst (sendCoachingReply ok d m) = fst (sendCoachingReply ok' d m)"
  by (cases "live_thread (threadTs m)") (simp_all add: sendCoachingReply_def sendCoachingReply_phases_def Let_def)

lemma sendCoachingReply_calls: "calls (snd (sendCoachingReply ok d m)) = calls (snd (sendCoachingReply ok' d m))"
  by (cases "live_thread (threadTs m)") (simp_all add: sendCoachingReply_def sendCoachingReply_phases_def Let_def calls_def)

lemma sendCoachingNudge_out:
  "snd (sendCoachingNudge cfg ok d s) =
     (if sms_idle cfg s then [Log SmsNotActive]
      else map (\<lambda>p. SmsCreate p (Nudge (sms_nudgeCount s + 1) (c_reason d) (c_message d) (c_batchNumber d)))
             (sms_phoneNumbers s)
           @ settled (fst (send_all ok (sms_phoneNumbers s)
                (Nudge (sms_nudgeCount s + 1) (c_reason d) (c_message d) (c_batchNumber d))))
           @ [Log (if \<forall>i < length (sms_phoneNumbers s). ok i
                   then SmsNudgeAllSent (sms_nudgeCount s + 1) else SmsNudgeError)]
           @ late (fst (send_all ok (sms_phoneNumbers s)
                (Nudge (sms_nudgeCount s + 1) (c_reason d) (c_message d) (c_batchNumber d)))))"
  by (auto simp: sendCoachingNudge_def sendCoachingNudge_phases_def Let_def case_prod_beta whole_def
      send_all_rejected)

lemma sendCoachingNudge_channel: "list_all (\<lambda>e. channel_of e = Some SMS) (snd (sendCoachingNudge cfg ok d s))"
  using send_all_channel [of ok "sms_phoneNumbers s"]
  by (simp add: sendCoachingNudge_def sendCoachingNudge_phases_def Let_def case_prod_beta whole_def)

lemma sendCoachingNudge_state: "fst (sendCoachingNudge cfg ok d s) = fst (sendCoachingNudge cfg ok' d s)"
  by (simp add: sendCoachingNudge_def sendCoachingNudge_phases_def Let_def case_prod_beta)

lemma sendCoachingNudge_call_list:
  "calls (snd (sendCoachingNudge cfg ok d s)) =
     (if sms_idle cfg s then []
      else map (\<lambda>p. SmsCreate p (Nudge (sms_nudgeCount s + 1) (c_reason d) (c_message d) (c_batchNumber d)))
             (sms_phoneNumbers s))"
  by (simp add: sendCoachingNudge_out calls_logs send_all_log_phases) (simp add: calls_def)

lemma sendCoachingNudge_calls: "calls (snd (sendCoachingNudge cfg ok d s)) = calls (snd (sendCoachingNudge cfg ok' d s))"
  by (simp add: sendCoachingNudge_call_list)

lemma send_slack_cases:
  "send_slack cfg w g a =
     (if mode_on cfg ''SLACK'' \<and> slackThread a \<noteq> None
      then (a\<lparr>slackThread := Some (fst (sendCoachingReply (slack_reply_ok w) (coachingData g a) (the (slackThread a))))\<rparr>,
            snd (sendCoachingReply_phases (slack_reply_ok w) (coachingData g a) (the (slackThread a))), 1)
      else (a, no_phases, 0))"
  by (cases "mode_on cfg ''SLACK''"; cases "slackThread a")
     (simp_all add: send_slack_def sendCoachingReply_def case_prod_beta)

lemma send_sms_cases:
  "send_sms cfg w g a =
     (if mode_on cfg ''SMS'' \<and> smsManager a \<noteq> None
      then (a\<lparr>smsManager := Some (fst (sendCoachingNudge cfg (sms_nudge_ok w) (coachingData g a) (the (smsManager a))))\<rparr>,
            snd (sendCoachingNudge_phases cfg (sms_nudge_ok w) (coachingData g a) (the (smsManager a))), 1)
      else (a, no_phases, 0))"
  by (cases "mode_on cfg ''SMS''"; cases "smsManager a")
     (simp_all add: send_sms_def sendCoachingNudge_def case_prod_beta)

lemma send_slack_whole:
  "whole (fst (snd (send_slack cfg w g a))) =
     (if mode_on cfg ''SLACK'' \<and> slackThread a \<noteq> None
      then snd (sendCoachingReply (slack_reply_ok w) (coachingData g a) (the (slackThread a)))
      else [])"
  by (cases "slackThread a") (simp_all add: send_slack_cases sendCoachingReply_def)

lemma send_sms_whole:
  "whole (fst (snd (send_sms cfg w g a))) =
     (if mode_on cfg ''SMS'' \<and> smsManager a \<noteq> None
      then snd (sendCoachingNudge cfg (sms_nudge_ok w) (coachingData g a) (the (smsManager a)))
      else [])"
  by (cases "smsManager a") (simp_all add: send_sms_cases sendCoachingNudge_def)

lemma send_zoom_whole:
  "whole (fst (send_zoom cfg w g a)) =
     (if mode_on cfg ''ZOOM_DM''
      then whole (fst (sendPrivateChatMessage (zoom_fetch w) (botId a) (interviewerId a) (message g)))
      else [])"
  by (simp add: send_zoom_def sendPrivateChatMessage_def)

lemma send_slack_late [simp]: "late (fst (snd (send_slack cfg w g a))) = []"
  by (cases "live_thread (threadTs (the (slackThread a)))")
     (simp_all add: send_slack_cases sendCoachingReply_phases_def Let_def)

lemma send_zoom_late [simp]: "late (fst (send_zoom cfg w g a)) = []"
  by (simp add: send_zoom_def sendPrivateChatMessage_def)

lemma send_to_platforms_parts:
  "send_to_platforms cfg w g a =
     (fst (send_sms cfg w g (fst (send_slack cfg w g a))),
      issued (fst (snd (send_slack cfg w g a)))
        @ issued (fst (send_zoom cfg w g (fst (send_slack cfg w g a))))
        @ issued (fst (snd (send_sms cfg w g (fst (send_slack cfg w g a)))))
        @ settled (fst (snd (send_slack cfg w g a)))
        @ settled (fst (send_zoom cfg w g (fst (send_slack cfg w g a))))
        @ settled (fst (snd (send_sms cfg w g (fst (send_slack cfg w g a)))))
        @ [Log (CoachingSent (snd (snd (send_slack cfg w g a)) + snd (send_zoom cfg w g (fst (send_slack cfg w g a)))
              + snd (snd (send_sms cfg w g (fst (send_slack cfg w g a))))))]
        @ late (fst (snd (send_sms cfg w g (fst (send_slack cfg w g a))))))"
  by (simp add: send_to_platforms_def case_prod_beta)

lemma send_slack_channel: "list_all (\<lambda>e. channel_of e = Some Slack) (whole (fst (snd (send_slack cfg w g a))))"
  by (simp add: send_slack_whole sendCoachingReply_channel)

lemma send_sms_channel: "list_all (\<lambda>e. channel_of e = Some SMS) (whole (fst (snd (send_sms cfg w g a))))"
  by (simp add: send_sms_whole sendCoachingNudge_channel)

lemma send_zoom_channel: "list_all (\<lambda>e. channel_of e = Some ZoomDM) (whole (fst (send_zoom cfg w g a)))"
  by (simp add: send_zoom_def sendPrivateChatMessage_def)

lemma send_slack_state: "fst (send_slack cfg w g a) = fst (send_slack cfg w' g a)"
  using sendCoachingReply_state [of "slack_reply_ok w" _ _ "slack_reply_ok w'"]
  by (simp add: send_slack_cases)

lemma send_sms_state: "fst (send_sms cfg w g a) = fst (send_sms cfg w' g a)"
  using sendCoachingNudge_state [of cfg "sms_nudge_ok w" _ _ "sms_nudge_ok w'"]
  by (simp add: send_sms_cases)

lemma send_slack_keeps [simp]:
  "interviewerId (fst (send_slack cfg w g a)) = interviewerId a"
  "botId (fst (send_slack cfg w g a)) = botId a"
  "batchCount (fst (send_slack cfg w g a)) = batchCount a"
  "smsManager (fst (send_slack cfg w g a)) = smsManager a"
  "transcriptBuffer (fst (send_slack cfg w g a)) = transcriptBuffer a"
  by (simp_all add: send_slack_cases)

lemma send_sms_keeps [simp]:
  "interviewerId (fst (send_sms cfg w g a)) = interviewerId a"
  "botId (fst (send_sms cfg w g a)) = botId a"
  "batchCount (fst (send_sms cfg w g a)) = batchCount a"
  "slackThread (fst (send_sms cfg w g a)) = slackThread a"
  "transcriptBuffer (fst (send_sms cfg w g a)) = transcriptBuffer a"
  by (simp_all add: send_sms_cases)

lemma send_slack_target [simp]:
  "send_slack cfg w (g\<lparr>participant_id := p, participant_name := n\<rparr>) a = send_slack cfg w g a"
  by (simp add: send_slack_cases coachingData_def)

lemma send_sms_target [simp]:
  "send_sms cfg w (g\<lparr>participant_id := p, participant_name := n\<rparr>) a = send_sms cfg w g a"
  by (simp add: send_sms_cases coachingData_def)

lemma send_zoom_target [simp]:
  "send_zoom cfg w (g\<lparr>participant_id := p, participant_name := n\<rparr>) a = send_zoom cfg w g a"
  by (simp add: send_zoom_def)

lemma send_to_platforms_target:
  "send_to_platforms cfg w (g\<lparr>participant_id := p, participant_name := n\<rparr>) a = send_to_platforms cfg w g a"
  by (simp add: send_to_platforms_parts)

lemma send_slack_count: "snd (snd (send_slack cfg w g a)) = (if mode_on cfg ''SLACK'' \<and> slackThread a \<noteq> None then 1 else 0)"
  by (simp add: send_slack_cases)

lemma send_sms_count: "snd (snd (send_sms cfg w g a)) = (if mode_on cfg ''SMS'' \<and> smsManager a \<noteq> None then 1 else 0)"
  by (simp add: send_sms_cases)

lemma send_zoom_count: "snd (send_zoom cfg w g a) = (if mode_on cfg ''ZOOM_DM'' then 1 else 0)"
  by (simp add: send_zoom_def)

lemma send_slack_same: "slack_reply_ok w = slack_reply_ok w' \<Longrightarrow> send_slack cfg w g a = send_slack cfg w' g a"
  by (simp add: send_slack_cases)

lemma send_sms_same: "sms_nudge_ok w = sms_nudge_ok w' \<Longrightarrow> send_sms cfg w g a = send_sms cfg w' g a"
  by (simp add: send_sms_cases)

lemma send_zoom_same: "zoom_fetch w = zoom_fetch w' \<Longrightarrow> send_zoom cfg w g a = send_zoom cfg w' g a"
  by (simp add: send_zoom_def)

lemma send_to_platforms_chat [simp]:
  "send_to_platforms cfg (w\<lparr>chat_reply := r\<rparr>) g a = send_to_platforms cfg w g a"
proof -
  have "send_slack cfg (w\<lparr>chat_reply := r\<rparr>) g a = send_slack cfg w g a"
    by (rule send_slack_same) simp
  moreover have "send_zoom cfg (w\<lparr>chat_reply := r\<rparr>) g = send_zoom cfg w g"
    by (rule ext, rule send_zoom_same) simp
  moreover have "send_sms cfg (w\<lparr>chat_reply := r\<rparr>) g = send_sms cfg w g"
    by (rule ext, rule send_sms_same) simp
  ultimately show ?thesis
    by (simp add: send_to_platforms_def)
qed

lemma send_zoom_agent: "send_zoom cfg w g (fst (send_slack cfg w' g a)) = send_zoom cfg w g a"
  by (simp add: send_zoom_def)

lemma send_sms_agent:
  "fst (snd (send_sms cfg w g (fst (send_slack cfg w' g a)))) = fst (snd (send_sms cfg w g a))"
  "snd (snd (send_sms cfg w g (fst (send_slack cfg w' g a)))) = snd (snd (send_sms cfg w g a))"
  by (cases "smsManager a"; simp add: send_sms_cases coachingData_def)+

lemma platforms_count:
  "snd (snd (send_slack cfg w g a)) + snd (send_zoom cfg w g a) + snd (snd (send_sms cfg w g a))
     = length (platforms cfg a)"
  by (simp add: send_slack_count send_zoom_count send_sms_count platforms_def)

lemma send_to_platforms_out:
  "snd (send_to_platforms cfg w g a) =
     (issued (fst (snd (send_slack cfg w g a))) @ issued (fst (send_zoom cfg w g a))
        @ issued (fst (snd (send_sms cfg w g a)))
        @ settled (fst (snd (send_slack cfg w g a))) @ settled (fst (send_zoom cfg w g a))
        @ settled (fst (snd (send_sms cfg w g a))))
     @ Log (CoachingSent (length (platforms cfg a)))
     # late (fst (snd (send_sms cfg w g a)))"
  by (simp add: send_to_platforms_parts send_zoom_agent send_sms_agent platforms_count)

lemma send_to_platforms_set:
  "set (snd (send_to_platforms cfg w g a)) =
     set (whole (fst (snd (send_slack cfg w g a)))) \<union> set (whole (fst (send_zoom cfg w g a)))
       \<union> set (whole (fst (snd (send_sms cfg w g a)))) \<union> {Log (CoachingSent (length (platforms cfg a)))}"
  by (auto simp: send_to_platforms_out whole_def)

lemma send_to_platforms_all:
  "list_all P (snd (send_to_platforms cfg w g a)) \<longleftrightarrow>
     list_all P (whole (fst (snd (send_slack cfg w g a)))) \<and> list_all P (whole (fst (send_zoom cfg w g a)))
       \<and> list_all P (whole (fst (snd (send_sms cfg w g a)))) \<and> P (Log (CoachingSent (length (platforms cfg a))))"
  by (auto simp: list_all_iff send_to_platforms_set)

lemma send_to_platforms_state:
  "fst (send_to_platforms cfg w g a) = fst (send_to_platforms cfg w' g a)"
  using send_slack_state [of cfg w g a w'] send_sms_state [of cfg w g _ w']
  by (simp add: send_to_platforms_parts)

lemma on_channel_phases:
  assumes "list_all (\<lambda>e. channel_of e = Some c') (whole p)"
  shows "on_channel c (issued p) = (if c = c' then issued p else [])"
    and "on_channel c (settled p) = (if c = c' then settled p else [])"
    and "on_channel c (late p) = (if c = c' then late p else [])"
  using assms by (simp_all add: list_all_whole on_channel_all)

lemma on_channel_sent: "on_channel c (Log (CoachingSent n) # es) = on_channel c es"
  by (simp add: on_channel_def)

lemma send_to_platforms_on_channel:
  "on_channel c (snd (send_to_platforms cfg w g a)) =
     (case c of Slack \<Rightarrow> whole (fst (snd (send_slack cfg w g a)))
      | ZoomDM \<Rightarrow> whole (fst (send_zoom cfg w g a))
      | SMS \<Rightarrow> whole (fst (snd (send_sms cfg w g a))))"
proof -
  have "snd (send_to_platforms cfg w g a) =
     issued (fst (snd (send_slack cfg w g a))) @ issued (fst (send_zoom cfg w g a))
        @ issued (fst (snd (send_sms cfg w g a)))
        @ settled (fst (snd (send_slack cfg w g a))) @ settled (fst (send_zoom cfg w g a))
        @ settled (fst (snd (send_sms cfg w g a)))
        @ [Log (CoachingSent (length (platforms cfg a)))]
        @ late (fst (snd (send_sms cfg w g a)))"
    by (simp add: send_to_platforms_out)
  then show ?thesis
    by (cases c)
       (simp_all add: on_channel_phases [OF send_slack_channel] on_channel_phases [OF send_zoom_channel]
          on_channel_phases [OF send_sms_channel] on_channel_sent whole_def)
qed

lemma send_to_platforms_same:
  "same_outcome c w w' \<Longrightarrow>
     on_channel c (snd (send_to_platforms cfg w g a)) = on_channel c (snd (send_to_platforms cfg w' g a))"
  using send_slack_same [of w w' cfg g a] send_zoom_same [of w w' cfg g a] send_sms_same [of w w' cfg g a]
  by (cases c) (simp_all add: send_to_platforms_on_channel)

lemma not_zoom_in:
  "list_all (\<lambda>e. channel_of e = Some c) es \<Longrightarrow> c \<noteq> ZoomDM \<Longrightarrow> ZoomChatMessage b t m \<notin> set es"
  by (auto simp: list_all_iff)

lemma zoom_in_platforms:
  assumes "ZoomChatMessage b t m \<in> set (snd (send_to_platforms cfg w g a))"
  shows "b = botId a \<and> t = (if truthy (interviewerId a) then Some (String_js (interviewerId a)) else None) \<and> m = message g"
proof -
  from assms have "ZoomChatMessage b t m \<in> set (whole (fst (send_zoom cfg w g a)))"
    using not_zoom_in [OF send_slack_channel, of b t m cfg w g a]
          not_zoom_in [OF send_sms_channel, of b t m cfg w g a]
    by (auto simp: send_to_platforms_set)
  then show ?thesis
    by (auto simp: send_zoom_whole sendPrivateChatMessage_def split: if_splits)
qed

lemma channel_not_batch_error:
  "list_all (\<lambda>e. channel_of e = Some c) es \<Longrightarrow> Log BatchError \<notin> set es"
  by (auto simp: list_all_iff)

lemma send_to_platforms_no_error: "Log BatchError \<notin> set (snd (send_to_platforms cfg w g a))"
  using channel_not_batch_error [OF send_slack_channel, of cfg w g a]
        channel_not_batch_error [OF send_zoom_channel, of cfg w g a]
        channel_not_batch_error [OF send_sms_channel, of cfg w g a]
  by (simp add: send_to_platforms_set)

lemma send_to_platforms_buffer: "transcriptBuffer (fst (send_to_platforms cfg w g a)) = transcriptBuffer a"
  by (simp add: send_to_platforms_parts)

lemma chat_batches_append [simp]: "chat_batches (xs @ ys) = chat_batches xs @ chat_batches ys"
  by (induction xs rule: chat_batches.induct) simp_all

lemma chat_batches_channel: "list_all (\<lambda>e. channel_of e = Some c) es \<Longrightarrow> chat_batches es = []"
  by (induction es rule: chat_batches.induct) auto

lemma chat_batches_none: "list_all (\<lambda>e. channel_of e \<noteq> None \<or> is_log e) es \<Longrightarrow> chat_batches es = []"
  by (induction es rule: chat_batches.induct) auto

lemma channel_kinds:
  "list_all (\<lambda>e. channel_of e = Some c) es \<Longrightarrow> list_all (\<lambda>e. channel_of e \<noteq> None \<or> is_log e) es"
  by (auto simp: list_all_iff)

lemma sendCoachingReply_no_end: "list_all (\<lambda>e. \<not> is_end e) (snd (sendCoachingReply ok d m))"
  by (cases "live_thread (threadTs m)") (simp_all add: sendCoachingReply_def sendCoachingReply_phases_def Let_def)

lemma sendCoachingNudge_no_end: "list_all (\<lambda>e. \<not> is_end e) (snd (sendCoachingNudge cfg ok d s))"
  by (auto simp: sendCoachingNudge_def sendCoachingNudge_phases_def Let_def case_prod_beta whole_def
      send_all_def sendSMS_log_def list_all_iff dest: set_takeWhileD in_set_takeD in_set_dropD set_dropWhileD)

lemma send_to_platforms_no_end: "list_all (\<lambda>e. \<not> is_end e) (snd (send_to_platforms cfg w g a))"
  by (simp add: send_to_platforms_all send_slack_whole send_sms_whole send_zoom_whole
      sendCoachingReply_no_end sendCoachingNudge_no_end sendPrivateChatMessage_def)

lemma send_to_platforms_no_chat: "chat_batches (snd (send_to_platforms cfg w g a)) = []"
  using channel_kinds [OF send_slack_channel, of cfg w g a] channel_kinds [OF send_zoom_channel, of cfg w g a]
        channel_kinds [OF send_sms_channel, of cfg w g a]
  by (intro chat_batches_none) (simp add: send_to_platforms_all)

lemma resume_cases:
  "analyzeBatch_resume cfg w a = (a\<lparr>transcriptBuffer := []\<rparr>, [Log BatchError])
   \<or> analyzeBatch_resume cfg w a = (a, [Log Monitoring])
   \<or> analyzeBatch_resume cfg w a = (a, [Log NoSalesRep])
   \<or> analyzeBatch_resume cfg w a = (a, [])
   \<or> (\<exists>g. analyzeBatch_resume cfg w a = send_to_platforms cfg w g a)"
proof (cases "chat_reply w")
  case (ChatCall f args)
  then show ?thesis
    by (cases args) (auto simp: analyzeBatch_resume_def)
qed (simp_all add: analyzeBatch_resume_def)

lemma resume_no_end: "list_all (\<lambda>e. \<not> is_end e) (snd (analyzeBatch_resume cfg w a))"
  using resume_cases [of cfg w a] send_to_platforms_no_end [of cfg w _ a] by auto

lemma resume_no_chat: "chat_batches (snd (analyzeBatch_resume cfg w a)) = []"
  using resume_cases [of cfg w a] send_to_platforms_no_chat [of cfg w _ a] by auto

lemma analyzeBatch_out:
  "snd (analyzeBatch cfg w a) =
     (if transcriptBuffer a = [] then []
      else ChatSendMessage (join [CHR 0x0A] (transcriptBuffer a))
             # snd (analyzeBatch_resume cfg w (a\<lparr>batchCount := batchCount a + 1, transcriptBuffer := []\<rparr>)))"
  by (simp add: analyzeBatch_def analyzeBatch_begin_def case_prod_beta)

lemma analyzeBatch_state:
  "fst (analyzeBatch cfg w a) =
     (if transcriptBuffer a = [] then a
      else fst (analyzeBatch_resume cfg w (a\<lparr>batchCount := batchCount a + 1, transcriptBuffer := []\<rparr>)))"
  by (simp add: analyzeBatch_def analyzeBatch_begin_def case_prod_beta)

lemma send_to_platforms_handle: "handle (fst (send_to_platforms cfg w g a)) = handle a"
  by (cases "slackThread a"; cases "live_thread (threadTs (the (slackThread a)))")
     (simp_all add: send_to_platforms_parts handle_def send_slack_cases sendCoachingReply_def
        sendCoachingReply_phases_def Let_def)

lemma send_to_platforms_sms_line: "sms_line (fst (send_to_platforms cfg w g a)) = sms_line a"
  by (cases "smsManager a")
     (simp_all add: send_to_platforms_parts sms_line_def send_sms_cases sendCoachingNudge_def
        sendCoachingNudge_phases_def Let_def case_prod_beta)

lemma resume_handle: "handle (fst (analyzeBatch_resume cfg w a)) = handle a"
  using resume_cases [of cfg w a] send_to_platforms_handle [of cfg w _ a]
  by (auto simp: handle_def)

lemma resume_sms_line: "sms_line (fst (analyzeBatch_resume cfg w a)) = sms_line a"
  using resume_cases [of cfg w a] send_to_platforms_sms_line [of cfg w _ a]
  by (auto simp: sms_line_def)

lemma analyzeBatch_handle: "handle (fst (analyzeBatch cfg w a)) = handle a"
  by (simp add: analyzeBatch_state resume_handle) (simp add: handle_def)

lemma analyzeBatch_sms_line: "sms_line (fst (analyzeBatch cfg w a)) = sms_line a"
  by (simp add: analyzeBatch_state resume_sms_line) (simp add: sms_line_def)

lemma end_slack_cases:
  "end_slack cfg w a =
     (case slackThread a of
        None \<Rightarrow> (a, no_phases, 0)
      | Some m \<Rightarrow>
          (if mode_on cfg ''SLACK'' \<and> live_thread (threadTs m) \<noteq> None
           then (a\<lparr>slackThread := Some (fst (endSessionThread (slack_end_ok w) m))\<rparr>,
                 snd (endSessionThread_phases (slack_end_ok w) m), 1)
           else (a, no_phases, 0)))"
  by (cases "mode_on cfg ''SLACK''"; cases "slackThread a")
     (simp_all add: end_slack_def endSessionThread_def case_prod_beta)

lemma end_sms_cases:
  "end_sms cfg w a =
     (case smsManager a of
        None \<Rightarrow> (a, no_phases, 0)
      | Some s \<Rightarrow>
          (if mode_on cfg ''SMS'' \<and> sessionActive s
           then (a\<lparr>smsManager := Some (fst (endSession cfg (sms_end_ok w) s))\<rparr>,
                 snd (endSession_phases cfg (sms_end_ok w) s), 1)
           else (a, no_phases, 0)))"
  by (cases "mode_on cfg ''SMS''"; cases "smsManager a")
     (simp_all add: end_sms_def endSession_def case_prod_beta)

lemma end_slack_whole:
  "whole (fst (snd (end_slack cfg w a))) =
     (case slackThread a of
        None \<Rightarrow> []
      | Some m \<Rightarrow>
          (if mode_on cfg ''SLACK'' \<and> live_thread (threadTs m) \<noteq> None
           then snd (endSessionThread (slack_end_ok w) m) else []))"
  by (cases "slackThread a") (auto simp: end_slack_cases endSessionThread_def)

lemma end_sms_whole:
  "whole (fst (snd (end_sms cfg w a))) =
     (case smsManager a of
        None \<Rightarrow> []
      | Some s \<Rightarrow>
          (if mode_on cfg ''SMS'' \<and> sessionActive s
           then snd (endSession cfg (sms_end_ok w) s) else []))"
  by (cases "smsManager a") (auto simp: end_sms_cases endSession_def)

lemma endSessionThread_out:
  "snd (endSessionThread ok m) =
     (case live_thread (threadTs m) of
        None \<Rightarrow> [Log NoSlackThreadToEnd]
      | Some ts \<Rightarrow> [SlackPostSummary ts (slack_nudgeCount m), Log (if ok then SlackThreadEnded else SlackEndError)])"
  by (cases "live_thread (threadTs m)") (simp_all add: endSessionThread_def endSessionThread_phases_def)

lemma endSession_out:
  "snd (endSession cfg ok s) =
     (if sms_idle cfg s then [Log SmsNoSessionToEnd]
      else map (\<lambda>p. SmsCreate p (SessionEnded (sms_nudgeCount s))) (sms_phoneNumbers s)
             @ settled (fst (send_all ok (sms_phoneNumbers s) (SessionEnded (sms_nudgeCount s))))
             @ [Log (if snd (send_all ok (sms_phoneNumbers s) (SessionEnded (sms_nudgeCount s)))
                     then SmsEndError else SmsSessionEnded)]
             @ late (fst (send_all ok (sms_phoneNumbers s) (SessionEnded (sms_nudgeCount s)))))"
  by (simp add: endSession_def endSession_phases_def case_prod_beta whole_def)

lemma end_slack_kinds:
  "list_all (\<lambda>e. is_log e \<or> is_end e) (whole (fst (snd (end_slack cfg w a))))"
  "list_all (\<lambda>e. channel_of e = Some Slack) (whole (fst (snd (end_slack cfg w a))))"
  by (cases "slackThread a"; cases "live_thread (threadTs (the (slackThread a)))";
      simp add: end_slack_whole endSessionThread_out)+

lemma endSession_kinds:
  "list_all (\<lambda>e. is_log e \<or> is_end e) (snd (endSession cfg ok s))"
  "list_all (\<lambda>e. channel_of e = Some SMS) (snd (endSession cfg ok s))"
proof -
  let ?p = "fst (send_all ok (sms_phoneNumbers s) (SessionEnded (sms_nudgeCount s)))"
  have l: "list_all is_log (settled ?p)" "list_all is_log (late ?p)"
    by (rule send_all_log_phases)+
  then have "list_all (\<lambda>e. is_log e \<or> is_end e) (settled ?p)" "list_all (\<lambda>e. is_log e \<or> is_end e) (late ?p)"
    by (simp_all add: list_all_iff)
  moreover have "list_all (\<lambda>e. is_log e \<or> is_end e)
      (map (\<lambda>p. SmsCreate p (SessionEnded (sms_nudgeCount s))) (sms_phoneNumbers s))"
    by (simp add: list_all_iff)
  ultimately show "list_all (\<lambda>e. is_log e \<or> is_end e) (snd (endSession cfg ok s))"
    by (simp add: endSession_out)
  have "list_all (\<lambda>e. channel_of e = Some SMS) (settled ?p)" "list_all (\<lambda>e. channel_of e = Some SMS) (late ?p)"
    using send_all_channel [of ok "sms_phoneNumbers s" "SessionEnded (sms_nudgeCount s)"]
    by (simp_all add: list_all_whole)
  moreover have "list_all (\<lambda>e. channel_of e = Some SMS)
      (map (\<lambda>p. SmsCreate p (SessionEnded (sms_nudgeCount s))) (sms_phoneNumbers s))"
    by (simp add: list_all_iff)
  ultimately show "list_all (\<lambda>e. channel_of e = Some SMS) (snd (endSession cfg ok s))"
    by (simp add: endSession_out)
qed

lemma end_sms_kinds:
  "list_all (\<lambda>e. is_log e \<or> is_end e) (whole (fst (snd (end_sms cfg w a))))"
  "list_all (\<lambda>e. channel_of e = Some SMS) (whole (fst (snd (end_sms cfg w a))))"
  by (cases "smsManager a"; simp add: end_sms_whole endSession_kinds)+

lemma end_slack_summary:
  "(\<exists>ts n. SlackPostSummary ts n \<in> set (whole (fst (snd (end_slack cfg w a)))))
     \<longleftrightarrow> mode_on cfg ''SLACK'' \<and> (\<exists>t. handle a = Some t \<and> live_thread t \<noteq> None)"
  by (cases "slackThread a"; cases "live_thread (threadTs (the (slackThread a)))")
     (auto simp: end_slack_whole endSessionThread_out handle_def)

lemma end_sms_summary:
  "(\<exists>p n. SmsCreate p (SessionEnded n) \<in> set (whole (fst (snd (end_sms cfg w a)))))
     \<longleftrightarrow> mode_on cfg ''SMS'' \<and> twilioClient cfg
          \<and> (\<exists>ps. sms_line a = Some (ps, True) \<and> ps \<noteq> [])"
proof (cases "smsManager a")
  case None
  then show ?thesis by (simp add: end_sms_whole sms_line_def)
next
  case (Some s)
  show ?thesis
  proof (cases "mode_on cfg ''SMS'' \<and> sessionActive s \<and> \<not> sms_idle cfg s")
    case True
    then have ne: "sms_phoneNumbers s \<noteq> []" and tw: "twilioClient cfg" by (auto simp: sms_idle_def)
    from ne have "SmsCreate (hd (sms_phoneNumbers s)) (SessionEnded (sms_nudgeCount s))
        \<in> set (map (\<lambda>p. SmsCreate p (SessionEnded (sms_nudgeCount s))) (sms_phoneNumbers s))"
      by (cases "sms_phoneNumbers s") simp_all
    then have "\<exists>p n. SmsCreate p (SessionEnded n) \<in> set (whole (fst (snd (end_sms cfg w a))))"
      using Some True by (auto simp: end_sms_whole endSession_out)
    then show ?thesis using Some True ne tw
      by (simp add: sms_line_def)
  next
    case False
    have "list_all is_log (snd (endSession cfg (sms_end_ok w) s))" if "sms_idle cfg s"
      using that by (simp add: endSession_out)
    then have "SmsCreate p b \<notin> set (snd (endSession cfg (sms_end_ok w) s))" if "sms_idle cfg s" for p b
      using that by (auto simp: list_all_iff)
    then show ?thesis using Some False
      by (auto simp: end_sms_whole sms_line_def sms_idle_def)
  qed
qed

lemma not_summary_in:
  "list_all (\<lambda>e. \<not> is_end e) es \<Longrightarrow> SlackPostSummary ts n \<notin> set es"
  "list_all (\<lambda>e. \<not> is_end e) es \<Longrightarrow> SmsCreate p (SessionEnded n) \<notin> set es"
  "list_all (\<lambda>e. channel_of e = Some SMS) es \<Longrightarrow> SlackPostSummary ts n \<notin> set es"
  "list_all (\<lambda>e. channel_of e = Some Slack) es \<Longrightarrow> SmsCreate p b \<notin> set es"
  by (auto simp: list_all_iff)

lemma end_slack_sms_line: "sms_line (fst (end_slack cfg w a)) = sms_line a"
  by (cases "slackThread a") (simp_all add: end_slack_cases sms_line_def)

lemma analyzeBatch_no_end: "list_all (\<lambda>e. \<not> is_end e) (snd (analyzeBatch cfg w a))"
  by (simp add: analyzeBatch_out resume_no_end)

lemma analyzeBatch_chat:
  "chat_batches (snd (analyzeBatch cfg w a)) =
     (if transcriptBuffer a = [] then [] else [join [CHR 0x0A] (transcriptBuffer a)])"
  by (simp add: analyzeBatch_out resume_no_chat)

lemma flushBuffer_parts:
  "snd (flushBuffer cfg w a) =
     snd (analyzeBatch cfg w a)
     @ (issued (fst (snd (end_slack cfg w (fst (analyzeBatch cfg w a)))))
        @ issued (fst (snd (end_sms cfg w (fst (end_slack cfg w (fst (analyzeBatch cfg w a)))))))
        @ settled (fst (snd (end_slack cfg w (fst (analyzeBatch cfg w a)))))
        @ settled (fst (snd (end_sms cfg w (fst (end_slack cfg w (fst (analyzeBatch cfg w a)))))))
        @ (if snd (snd (end_slack cfg w (fst (analyzeBatch cfg w a))))
              + snd (snd (end_sms cfg w (fst (end_slack cfg w (fst (analyzeBatch cfg w a)))))) > 0
           then [Log (EndedSessions
                  (snd (snd (end_slack cfg w (fst (analyzeBatch cfg w a))))
                   + snd (snd (end_sms cfg w (fst (end_slack cfg w (fst (analyzeBatch cfg w a))))))))]
           else [])
        @ late (fst (snd (end_slack cfg w (fst (analyzeBatch cfg w a)))))
        @ late (fst (snd (end_sms cfg w (fst (end_slack cfg w (fst (analyzeBatch cfg w a))))))))"
proof -
  have "(if length (transcriptBuffer a) > 0 then analyzeBatch cfg w a else (a, [])) = analyzeBatch cfg w a"
    by (simp add: analyzeBatch_def analyzeBatch_begin_def)
  then show ?thesis
    by (simp add: flushBuffer_def case_prod_beta)
qed

lemma flushBuffer_out:
  "\<exists>t. list_all is_log t
     \<and> snd (flushBuffer cfg w a) =
         snd (analyzeBatch cfg w a)
         @ (issued (fst (snd (end_slack cfg w (fst (analyzeBatch cfg w a)))))
            @ issued (fst (snd (end_sms cfg w (fst (end_slack cfg w (fst (analyzeBatch cfg w a)))))))
            @ settled (fst (snd (end_slack cfg w (fst (analyzeBatch cfg w a)))))
            @ settled (fst (snd (end_sms cfg w (fst (end_slack cfg w (fst (analyzeBatch cfg w a)))))))
            @ t
            @ late (fst (snd (end_slack cfg w (fst (analyzeBatch cfg w a)))))
            @ late (fst (snd (end_sms cfg w (fst (end_slack cfg w (fst (analyzeBatch cfg w a))))))))"
proof (cases "snd (snd (end_slack cfg w (fst (analyzeBatch cfg w a))))
              + snd (snd (end_sms cfg w (fst (end_slack cfg w (fst (analyzeBatch cfg w a)))))) > 0")
  case True
  show ?thesis
    by (rule exI [of _ "[Log (EndedSessions (snd (snd (end_slack cfg w (fst (analyzeBatch cfg w a))))
              + snd (snd (end_sms cfg w (fst (end_slack cfg w (fst (analyzeBatch cfg w a))))))))]"])
       (simp only: flushBuffer_parts True if_True list.pred_inject is_log.simps simp_thms)
next
  case False
  show ?thesis
    by (rule exI [of _ "[]"])
       (simp only: flushBuffer_parts False if_False list.pred_inject simp_thms)
qed

lemma phases_set:
  "set (issued p @ issued q @ settled p @ settled q @ t @ late p @ late q)
     = set (whole p) \<union> set (whole q) \<union> set t"
  by (auto simp: whole_def)

lemma phases_all:
  "list_all P (issued p @ issued q @ settled p @ settled q @ t @ late p @ late q)
     \<longleftrightarrow> list_all P (whole p) \<and> list_all P (whole q) \<and> list_all P t"
  by (auto simp: whole_def)

lemma webhook_response: "fst (webhook cfg w req ss) = (if secret_ok req then Ok200 else Unauthorized401)"
  by (cases "body_data req") (simp_all add: webhook_def case_prod_beta)

lemma stop_bot_ok:
  "fst (stop_bot cfg w bid ss) = Ok200 \<longleftrightarrow> delete_ok w"
  by (simp add: stop_bot_def case_prod_beta)

lemma stop_bot_removes:
  "delete_ok w \<Longrightarrow> fst (snd (stop_bot cfg w bid ss)) bid = None"
  by (simp add: stop_bot_def case_prod_beta)

lemma stop_bot_out:
  "snd (snd (stop_bot cfg w bid ss)) =
     (case ss bid of None \<Rightarrow> [] | Some s \<Rightarrow> snd (flushBuffer cfg w (aiAgent s))) @ [BotDelete bid]"
  by (cases "ss bid") (simp_all add: stop_bot_def case_prod_beta)

lemma ex_host_value:
  "ex_host =
     \<lparr> botId = ''bot-1'', meetingUrl = ''https://zoom.us/j/1'',
       phoneNumbers = [''+15550001'', ''+15550002''], conversationHistory = [],
       interviewerId = JNum 100, interviewerName = Some ''Ann'', transcriptBuffer = [],
       batchSize = 6, batchCount = 0,
       slackThread = Some \<lparr> threadTs = Some ''1700.01'', slack_nudgeCount = 0 \<rparr>,
       smsManager = Some \<lparr> sms_phoneNumbers = [''+15550001'', ''+15550002''],
                            sms_nudgeCount = 0, sessionActive = True \<rparr> \<rparr>"
  by (simp add: ex_host_def ex_agent_def ex_cfg_def ex_world_def new_AIAgent_def setInterviewer_def
      setInterviewer_begin_def initializeSlackThread_begin_def initializeSlackThread_settle_def
      startSessionThread_settle_def startSessionThread_post_def startSession_def send_all_def
      mode_on_def slackClient_def twilioClient_def)

lemma ex_host_dm:
  "snd (send_to_platforms ex_cfg ex_world ex_args ex_host) =
     [SlackPostReply ''1700.01'' 1 ''No BANT qualification yet'' ''Ask about budget'' 0 6,
      ZoomChatMessage ''bot-1'' (Some ''100'') ''Ask about budget'',
      SmsCreate ''+15550001'' (Nudge 1 ''No BANT qualification yet'' ''Ask about budget'' 0),
      SmsCreate ''+15550002'' (Nudge 1 ''No BANT qualification yet'' ''Ask about budget'' 0),
      Log (SlackNudgeSent 1), Log ZoomDelivered,
      Log (SmsSentTo ''+15550001''), Log (SmsSentTo ''+15550002''), Log (SmsNudgeAllSent 1),
      Log (CoachingSent 3)]"
  by (simp add: ex_host_value send_to_platforms_def send_slack_def send_sms_def send_zoom_def
      sendCoachingReply_phases_def sendCoachingNudge_phases_def sendPrivateChatMessage_def send_all_def
      sendSMS_log_def sms_idle_def coachingData_def ex_cfg_def ex_world_def ex_args_def
      mode_on_def twilioClient_def dec_nat.simps digit_def)

subsection \<open>Auxiliary facts about ingestion\<close>

lemma startSession_channel:
  "list_all (\<lambda>e. channel_of e = Some SMS) (whole (fst (snd (startSession cfg ok m t p s))))"
  using send_all_channel [of ok "sms_phoneNumbers s"]
  by (simp add: startSession_def case_prod_beta whole_def)

lemma setInterviewer_begin_keeps [simp]:
  "transcriptBuffer (fst (setInterviewer_begin cfg w nm pid a)) = transcriptBuffer a"
  "batchSize (fst (setInterviewer_begin cfg w nm pid a)) = batchSize a"
  "batchCount (fst (setInterviewer_begin cfg w nm pid a)) = batchCount a"
  "conversationHistory (fst (setInterviewer_begin cfg w nm pid a)) = conversationHistory a"
  "slackThread (fst (setInterviewer_begin cfg w nm pid a)) = slackThread a"
  "botId (fst (setInterviewer_begin cfg w nm pid a)) = botId a"
  by (cases "truthy (interviewerId a)"; cases "mode_on cfg ''SMS''"; cases "smsManager a";
      simp add: setInterviewer_begin_def case_prod_beta Let_def)+

lemma setInterviewer_begin_id:
  "interviewerId (fst (setInterviewer_begin cfg w nm pid a))
     = (if truthy (interviewerId a) then interviewerId a else pid)"
  by (cases "truthy (interviewerId a)"; cases "mode_on cfg ''SMS''"; cases "smsManager a";
      simp add: setInterviewer_begin_def case_prod_beta Let_def)

lemma setInterviewer_begin_posted:
  "snd (snd (setInterviewer_begin cfg w nm pid a)) \<longleftrightarrow>
     \<not> truthy (interviewerId a) \<and> mode_on cfg ''SLACK''
     \<and> (\<exists>t. handle a = Some t \<and> live_thread t = None)"
  by (cases "truthy (interviewerId a)"; cases "slackThread a")
     (auto simp: setInterviewer_begin_def case_prod_beta Let_def initializeSlackThread_begin_def handle_def)

lemma setInterviewer_begin_out:
  "\<exists>sms. list_all (\<lambda>e. channel_of e = Some SMS) (whole sms)
     \<and> issued (fst (snd (setInterviewer_begin cfg w nm pid a)))
         = (if snd (snd (setInterviewer_begin cfg w nm pid a))
            then [startSessionThread_post (or_default nm ''Sales Rep'')
                    (extractMeetingTitle (meetingUrl a)) (detectPlatform (meetingUrl a))]
            else []) @ issued sms
     \<and> settled (fst (snd (setInterviewer_begin cfg w nm pid a))) = settled sms
     \<and> late (fst (snd (setInterviewer_begin cfg w nm pid a))) = late sms"
proof (cases "truthy (interviewerId a)")
  case True
  then show ?thesis
    by (intro exI [of _ no_phases]) (simp add: setInterviewer_begin_def)
next
  case False
  let ?a1 = "a\<lparr>interviewerId := pid, interviewerName := Some nm\<rparr>"
  let ?r = "startSession cfg (sms_start_ok w) (or_default nm ''Sales Rep'')
              (extractMeetingTitle (meetingUrl a)) (detectPlatform (meetingUrl a)) (the (smsManager a))"
  have post: "(if mode_on cfg ''SLACK'' \<and> slackThread ?a1 \<noteq> None
               then initializeSlackThread_begin nm ?a1 else None)
      = (if snd (snd (setInterviewer_begin cfg w nm pid a))
         then Some (startSessionThread_post (or_default nm ''Sales Rep'')
                    (extractMeetingTitle (meetingUrl a)) (detectPlatform (meetingUrl a)))
         else None)"
    using False
    by (cases "slackThread a")
       (auto simp: setInterviewer_begin_def case_prod_beta Let_def initializeSlackThread_begin_def)
  show ?thesis
  proof (cases "mode_on cfg ''SMS'' \<and> smsManager a \<noteq> None")
    case True
    then obtain s where s: "smsManager a = Some s" by auto
    let ?sms = "if snd (snd ?r) then closing (Log SmsStartFailed) (fst (snd ?r)) else fst (snd ?r)"
    have "issued (fst (snd (setInterviewer_begin cfg w nm pid a)))
        = (if snd (snd (setInterviewer_begin cfg w nm pid a))
            then [startSessionThread_post (or_default nm ''Sales Rep'')
                    (extractMeetingTitle (meetingUrl a)) (detectPlatform (meetingUrl a))]
            else []) @ issued ?sms"
      and "settled (fst (snd (setInterviewer_begin cfg w nm pid a))) = settled ?sms"
      and "late (fst (snd (setInterviewer_begin cfg w nm pid a))) = late ?sms"
      using False True s post
      by (auto simp: setInterviewer_begin_def case_prod_beta Let_def)
    moreover have "list_all (\<lambda>e. channel_of e = Some SMS) (whole ?sms)"
      using startSession_channel [of cfg "sms_start_ok w" _ _ _ "the (smsManager a)"]
      by (simp add: whole_def)
    ultimately show ?thesis by blast
  next
    case F2: False
    have "issued (fst (snd (setInterviewer_begin cfg w nm pid a)))
        = (if snd (snd (setInterviewer_begin cfg w nm pid a))
            then [startSessionThread_post (or_default nm ''Sales Rep'')
                    (extractMeetingTitle (meetingUrl a)) (detectPlatform (meetingUrl a))]
            else []) @ issued no_phases"
      and "settled (fst (snd (setInterviewer_begin cfg w nm pid a))) = settled no_phases"
      and "late (fst (snd (setInterviewer_begin cfg w nm pid a))) = late no_phases"
      using False F2 post
      by (cases "mode_on cfg ''SMS''"; cases "smsManager a";
          auto simp: setInterviewer_begin_def case_prod_beta Let_def)+
    then show ?thesis by (intro exI [of _ no_phases]) simp
  qed
qed

lemma settle_keeps [simp]:
  "transcriptBuffer (fst (initializeSlackThread_settle r a)) = transcriptBuffer a"
  "batchSize (fst (initializeSlackThread_settle r a)) = batchSize a"
  "batchCount (fst (initializeSlackThread_settle r a)) = batchCount a"
  "interviewerId (fst (initializeSlackThread_settle r a)) = interviewerId a"
  "smsManager (fst (initializeSlackThread_settle r a)) = smsManager a"
  by (cases "slackThread a"; simp add: initializeSlackThread_settle_def case_prod_beta)+

lemma settle_channel: "list_all (\<lambda>e. channel_of e = Some Slack) (snd (initializeSlackThread_settle r a))"
  by (cases "slackThread a"; cases r)
     (simp_all add: initializeSlackThread_settle_def startSessionThread_settle_def)

lemma settle_no_parent: "list_all (\<lambda>e. \<not> is_parent_post e) (snd (initializeSlackThread_settle r a))"
  by (cases "slackThread a"; cases r)
     (simp_all add: initializeSlackThread_settle_def startSessionThread_settle_def)

lemma settle_logs: "list_all is_log (snd (initializeSlackThread_settle r a))"
  by (cases "slackThread a"; cases r)
     (simp_all add: initializeSlackThread_settle_def startSessionThread_settle_def)

lemma send_keeps_batchSize [simp]:
  "batchSize (fst (send_slack cfg w g a)) = batchSize a"
  "batchSize (fst (send_sms cfg w g a)) = batchSize a"
  by (cases "slackThread a"; cases "smsManager a"; simp add: send_slack_cases send_sms_cases)+

lemma resume_keeps [simp]:
  "batchSize (fst (analyzeBatch_resume cfg w a)) = batchSize a"
  "batchCount (fst (analyzeBatch_resume cfg w a)) = batchCount a"
  "interviewerId (fst (analyzeBatch_resume cfg w a)) = interviewerId a"
  using resume_cases [of cfg w a] by (auto simp: send_to_platforms_parts)

lemma resume_buffer:
  "transcriptBuffer (fst (analyzeBatch_resume cfg w a)) = transcriptBuffer a
   \<or> transcriptBuffer (fst (analyzeBatch_resume cfg w a)) = []"
  using resume_cases [of cfg w a] by (auto simp: send_to_platforms_buffer)

lemma resume_buffer_empty:
  "transcriptBuffer a = [] \<Longrightarrow> transcriptBuffer (fst (analyzeBatch_resume cfg w a)) = []"
  using resume_buffer [of cfg w a] by auto

lemma begin_projections:
  "transcriptBuffer (fst (processTranscript_begin cfg w sp pid h txt a))
     = (if fills a then [] else transcriptBuffer a @ [transcript_line sp h txt])"
  "snd (snd (snd (processTranscript_begin cfg w sp pid h txt a)))
     = (if fills a then Some (join [CHR 0x0A] (transcriptBuffer a @ [transcript_line sp h txt])) else None)"
  "batchSize (fst (processTranscript_begin cfg w sp pid h txt a)) = batchSize a"
  "batchCount (fst (processTranscript_begin cfg w sp pid h txt a)) = batchCount a + (if fills a then 1 else 0)"
  "handle (fst (processTranscript_begin cfg w sp pid h txt a)) = handle a"
  by (simp_all add: processTranscript_begin_def case_prod_beta Let_def analyzeBatch_begin_def fills_def handle_def)

lemma begin_id:
  "interviewerId (fst (processTranscript_begin cfg w sp pid h txt a))
     = (if h \<and> \<not> truthy (interviewerId a) then pid else interviewerId a)"
  by (auto simp: processTranscript_begin_def case_prod_beta Let_def analyzeBatch_begin_def
      setInterviewer_begin_id)

lemma begin_posted:
  "fst (snd (snd (processTranscript_begin cfg w sp pid h txt a)))
     = (h \<and> snd (snd (setInterviewer_begin cfg w sp pid a)))"
  by (simp add: processTranscript_begin_def case_prod_beta Let_def setInterviewer_begin_posted)

lemma begin_out:
  "fst (snd (processTranscript_begin cfg w sp pid h txt a))
     = (if h \<and> \<not> truthy (interviewerId a) then fst (snd (setInterviewer_begin cfg w sp pid a)) else no_phases)"
  by (simp add: processTranscript_begin_def case_prod_beta Let_def)

lemma processTranscript_parts:
  "processTranscript cfg w sp pid h txt a =
     (let b = processTranscript_begin cfg w sp pid h txt a;
          s = (if fst (snd (snd b)) then initializeSlackThread_settle (slack_start w) (fst b) else (fst b, []))
      in case snd (snd (snd b)) of
           None \<Rightarrow> (fst s, issued (fst (snd b)) @ settled (fst (snd b)) @ late (fst (snd b)) @ snd s)
         | Some m \<Rightarrow> (fst (analyzeBatch_resume cfg w (fst s)),
                       issued (fst (snd b)) @ ChatSendMessage m # settled (fst (snd b)) @ late (fst (snd b))
                         @ snd s @ snd (analyzeBatch_resume cfg w (fst s))))"
  by (cases "snd (snd (snd (processTranscript_begin cfg w sp pid h txt a)))")
     (simp_all add: processTranscript_def case_prod_beta Let_def)

lemma begin_out_no_chat:
  "chat_batches (issued (fst (snd (processTranscript_begin cfg w sp pid h txt a)))) = []"
  "chat_batches (settled (fst (snd (processTranscript_begin cfg w sp pid h txt a)))) = []"
  "chat_batches (late (fst (snd (processTranscript_begin cfg w sp pid h txt a)))) = []"
proof -
  obtain sms where sms: "list_all (\<lambda>e. channel_of e = Some SMS) (whole sms)"
    and out: "issued (fst (snd (setInterviewer_begin cfg w sp pid a)))
         = (if snd (snd (setInterviewer_begin cfg w sp pid a))
            then [startSessionThread_post (or_default sp ''Sales Rep'')
                    (extractMeetingTitle (meetingUrl a)) (detectPlatform (meetingUrl a))]
            else []) @ issued sms"
      "settled (fst (snd (setInterviewer_begin cfg w sp pid a))) = settled sms"
      "late (fst (snd (setInterviewer_begin cfg w sp pid a))) = late sms"
    using setInterviewer_begin_out [of cfg w sp pid a] by blast
  from sms have c: "chat_batches (issued sms) = []" "chat_batches (settled sms) = []" "chat_batches (late sms) = []"
    by (auto simp: list_all_whole intro: chat_batches_channel)
  show "chat_batches (issued (fst (snd (processTranscript_begin cfg w sp pid h txt a)))) = []"
    "chat_batches (settled (fst (snd (processTranscript_begin cfg w sp pid h txt a)))) = []"
    "chat_batches (late (fst (snd (processTranscript_begin cfg w sp pid h txt a)))) = []"
    using c by (simp_all add: begin_out out startSessionThread_post_def)
qed

lemma processTranscript_buffer:
  "transcriptBuffer (fst (processTranscript cfg w sp pid h txt a))
     = (if fills a then [] else transcriptBuffer a @ [transcript_line sp h txt])"
  by (simp add: processTranscript_parts Let_def begin_projections resume_buffer_empty)

lemma processTranscript_batchSize [simp]:
  "batchSize (fst (processTranscript cfg w sp pid h txt a)) = batchSize a"
  by (simp add: processTranscript_parts Let_def begin_projections)

lemma processTranscript_chat:
  "chat_batches (snd (processTranscript cfg w sp pid h txt a))
     = (if fills a then [join [CHR 0x0A] (transcriptBuffer a @ [transcript_line sp h txt])] else [])"
  using chat_batches_channel [OF settle_channel]
  by (simp add: processTranscript_parts Let_def begin_projections begin_out_no_chat resume_no_chat)

subsection \<open>Auxiliary facts about the thread handle\<close>

lemma channel_no_parent:
  "list_all (\<lambda>e. channel_of e = Some c) es \<Longrightarrow> c \<noteq> Slack \<Longrightarrow> list_all (\<lambda>e. \<not> is_parent_post e) es"
  by (induction es rule: chat_batches.induct) auto

lemma sendCoachingReply_no_parent: "list_all (\<lambda>e. \<not> is_parent_post e) (snd (sendCoachingReply ok d m))"
  by (cases "live_thread (threadTs m)") (simp_all add: sendCoachingReply_def sendCoachingReply_phases_def Let_def)

lemma send_to_platforms_no_parent: "list_all (\<lambda>e. \<not> is_parent_post e) (snd (send_to_platforms cfg w g a))"
  using channel_no_parent [OF send_zoom_channel, of cfg w g a]
        channel_no_parent [OF send_sms_channel, of cfg w g a]
  by (simp add: send_to_platforms_all send_slack_whole sendCoachingReply_no_parent)

lemma resume_no_parent: "list_all (\<lambda>e. \<not> is_parent_post e) (snd (analyzeBatch_resume cfg w a))"
  using resume_cases [of cfg w a] send_to_platforms_no_parent [of cfg w _ a] by auto

lemma send_slack_dead:
  "live_handle a = None \<Longrightarrow> calls (whole (fst (snd (send_slack cfg w g a)))) = []"
  by (cases "slackThread a")
     (simp_all add: send_slack_whole sendCoachingReply_def sendCoachingReply_phases_def live_handle_def
        handle_def calls_def)

lemma resume_slack_dead:
  assumes "live_handle a = None"
  shows "calls (on_channel Slack (snd (analyzeBatch_resume cfg w a))) = []"
proof -
  have "calls (on_channel Slack (snd (send_to_platforms cfg w g a))) = []" for g
    using send_slack_dead [OF assms] by (simp add: send_to_platforms_on_channel)
  then show ?thesis
    using resume_cases [of cfg w a] by (auto simp: on_channel_def calls_def)
qed

lemma ex_nothread_value:
  "ex_nothread =
     \<lparr> botId = ''bot-1'', meetingUrl = ''https://zoom.us/j/1'',
       phoneNumbers = [''+15550001'', ''+15550002''], conversationHistory = [],
       interviewerId = JNum 100, interviewerName = Some ''Ann'', transcriptBuffer = [],
       batchSize = 6, batchCount = 0,
       slackThread = Some \<lparr> threadTs = None, slack_nudgeCount = 0 \<rparr>,
       smsManager = Some \<lparr> sms_phoneNumbers = [''+15550001'', ''+15550002''],
                            sms_nudgeCount = 0, sessionActive = True \<rparr> \<rparr>"
  by (simp add: ex_nothread_def ex_agent_def ex_cfg_def ex_world_def new_AIAgent_def setInterviewer_def
      setInterviewer_begin_def initializeSlackThread_begin_def initializeSlackThread_settle_def
      startSessionThread_settle_def startSessionThread_post_def startSession_def send_all_def
      mode_on_def slackClient_def twilioClient_def)

subsection \<open>Auxiliary facts about overlapping handlers and the counters\<close>

lemma tick_arrive:
  "tick_step cfg (TranscriptArrives w sp pid h tx) l =
     Some \<lparr> agent = fst (processTranscript_begin cfg w sp pid h tx (agent l)),
            analyzing = analyzing l + (if fills (agent l) then 1 else 0),
            thread_posts = thread_posts l
              + (if fst (snd (snd (processTranscript_begin cfg w sp pid h tx (agent l)))) then 1 else 0),
            emitted = emitted l @ issued (fst (snd (processTranscript_begin cfg w sp pid h tx (agent l))))
              @ (if fills (agent l)
                 then [ChatSendMessage (join [CHR 0x0A] (transcriptBuffer (agent l) @ [transcript_line sp h tx]))]
                 else [])
              @ settled (fst (snd (processTranscript_begin cfg w sp pid h tx (agent l))))
              @ late (fst (snd (processTranscript_begin cfg w sp pid h tx (agent l)))) \<rparr>"
  by (simp add: tick_step_def case_prod_beta begin_projections)

lemma tick_join:
  "tick_step cfg (HostJoins w nm pid) l =
     Some \<lparr> agent = fst (setInterviewer_begin cfg w nm pid (agent l)),
            analyzing = analyzing l,
            thread_posts = thread_posts l
              + (if snd (snd (setInterviewer_begin cfg w nm pid (agent l))) then 1 else 0),
            emitted = emitted l @ whole (fst (snd (setInterviewer_begin cfg w nm pid (agent l)))) \<rparr>"
  by (simp add: tick_step_def case_prod_beta)

lemma tick_thread:
  "tick_step cfg (ThreadPostSettles r) l =
     (if thread_posts l = 0 then None
      else Some \<lparr> agent = fst (initializeSlackThread_settle r (agent l)), analyzing = analyzing l,
                  thread_posts = thread_posts l - 1,
                  emitted = emitted l @ snd (initializeSlackThread_settle r (agent l)) \<rparr>)"
  by (simp add: tick_step_def case_prod_beta)

lemma tick_chat:
  "tick_step cfg (ChatSettles w) l =
     (if analyzing l = 0 then None
      else Some \<lparr> agent = fst (analyzeBatch_resume cfg w (agent l)), analyzing = analyzing l - 1,
                  thread_posts = thread_posts l,
                  emitted = emitted l @ snd (analyzeBatch_resume cfg w (agent l)) \<rparr>)"
  by (simp add: tick_step_def case_prod_beta)

lemma burst_count:
  assumes "0 < batchSize (agent l)" and "length (transcriptBuffer (agent l)) < batchSize (agent l)"
  shows "\<exists>l'. run_ticks cfg (map arrive evs) l = Some l'
           \<and> analyzing l' = analyzing l
               + (length (transcriptBuffer (agent l)) + length evs) div batchSize (agent l)"
  using assms
proof (induction evs arbitrary: l)
  case Nil
  then show ?case by simp
next
  case (Cons e evs)
  obtain w sp pid h tx where e: "e = (w, sp, pid, h, tx)" by (cases e)
  let ?n = "batchSize (agent l)"
  let ?b = "transcriptBuffer (agent l)"
  obtain l1 where l1: "tick_step cfg (TranscriptArrives w sp pid h tx) l = Some l1"
    and a1: "agent l1 = fst (processTranscript_begin cfg w sp pid h tx (agent l))"
    and n1: "analyzing l1 = analyzing l + (if fills (agent l) then 1 else 0)"
    by (simp add: tick_arrive)
  have bs: "batchSize (agent l1) = ?n" by (simp add: a1 begin_projections)
  have run: "run_ticks cfg (map arrive (e # evs)) l = run_ticks cfg (map arrive evs) l1"
    by (simp add: e l1)
  show ?case
  proof (cases "fills (agent l)")
    case True
    with Cons.prems have len: "Suc (length ?b) = ?n" by (simp add: fills_def)
    have b1: "transcriptBuffer (agent l1) = []" using True by (simp add: a1 begin_projections)
    from Cons.IH [of l1] Cons.prems(1) obtain l' where
      r: "run_ticks cfg (map arrive evs) l1 = Some l'" and
      c: "analyzing l' = analyzing l1 + length evs div ?n"
      by (auto simp: bs b1)
    from Cons.prems(1) have "?n \<noteq> 0" by simp
    then have "(?n + length evs) div ?n = length evs div ?n + 1" by (rule div_add_self1)
    moreover have "length ?b + length (e # evs) = ?n + length evs"
      using len by simp
    ultimately have "(length ?b + length (e # evs)) div ?n = length evs div ?n + 1"
      by (simp only:)
    with r c n1 True show ?thesis unfolding run by simp
  next
    case False
    with Cons.prems have len: "Suc (length ?b) < ?n" by (simp add: fills_def)
    have b1: "transcriptBuffer (agent l1) = ?b @ [transcript_line sp h tx]"
      using False by (simp add: a1 begin_projections)
    from Cons.IH [of l1] Cons.prems(1) len obtain l' where
      r: "run_ticks cfg (map arrive evs) l1 = Some l'" and
      c: "analyzing l' = analyzing l1 + (Suc (length ?b) + length evs) div ?n"
      by (auto simp: bs b1)
    with n1 False show ?thesis unfolding run by simp
  qed
qed

lemma handler_alone:
  "run_ticks cfg (handler_ticks cfg (w, sp, pid, h, tx) (agent l)) l =
     Some \<lparr> agent = fst (processTranscript cfg w sp pid h tx (agent l)),
            analyzing = analyzing l, thread_posts = thread_posts l,
            emitted = emitted l @ snd (processTranscript cfg w sp pid h tx (agent l)) \<rparr>"
proof -
  let ?B = "processTranscript_begin cfg w sp pid h tx (agent l)"
  show ?thesis
  proof (cases "fst (snd (snd ?B))"; cases "snd (snd (snd ?B))")
  qed (simp_all add: tick_arrive tick_step_def processTranscript_parts case_prod_beta Let_def begin_projections
        split: if_splits)
qed

lemma sendCoachingReply_count:
  "slack_nudgeCount (fst (sendCoachingReply ok d m))
     = slack_nudgeCount m + (if live_thread (threadTs m) = None then 0 else 1)"
  by (cases "live_thread (threadTs m)") (simp_all add: sendCoachingReply_def sendCoachingReply_phases_def Let_def)

lemma sendCoachingNudge_count:
  "sms_nudgeCount (fst (sendCoachingNudge cfg oks d s))
     = sms_nudgeCount s + (if sms_idle cfg s then 0 else 1)"
  by (simp add: sendCoachingNudge_def sendCoachingNudge_phases_def Let_def case_prod_beta)

lemma endSessionThread_summary:
  "filter is_end (snd (endSessionThread ok m))
     = (case live_thread (threadTs m) of None \<Rightarrow> []
        | Some ts \<Rightarrow> [SlackPostSummary ts (slack_nudgeCount m)])"
  by (cases "live_thread (threadTs m)") (simp_all add: endSessionThread_out)

lemma filter_logs: "list_all is_log es \<Longrightarrow> filter is_end es = []"
  by (induction es rule: chat_batches.induct) auto

lemma endSession_summary:
  "filter is_end (snd (endSession cfg oks s))
     = (if sms_idle cfg s then []
        else map (\<lambda>p. SmsCreate p (SessionEnded (sms_nudgeCount s))) (sms_phoneNumbers s))"
  by (simp add: endSession_out filter_logs send_all_log_phases filter_map comp_def)

lemma late_thread_run:
  "map_option (\<lambda>l. (analyzing l, thread_posts l,
                    filter is_end (snd (flushBuffer ex_cfg ex_world (agent l)))))
     (run_ticks ex_cfg ex_late_thread (start_loop ex_agent))
   = Some (0, 0, [SlackPostSummary ''1700.01'' 1,
                  SmsCreate ''+15550001'' (SessionEnded 2), SmsCreate ''+15550002'' (SessionEnded 2)])"
  by code_simp

subsection \<open>Auxiliary facts about batches\<close>

lemma windows_short: "length xs < n \<Longrightarrow> windows n xs = []"
  by (simp add: windows.simps [of n xs])

lemma windows_full: "0 < n \<Longrightarrow> length pre = n \<Longrightarrow> windows n (pre @ rest) = pre # windows n rest"
  by (simp add: windows.simps [of n "pre @ rest"])

lemma windows_length: "0 < n \<Longrightarrow> length (windows n xs) = length xs div n"
proof (induction n xs rule: windows.induct)
  case (1 n xs)
  show ?case
  proof (cases "length xs < n")
    case True
    then show ?thesis by (simp add: windows_short)
  next
    case False
    with 1 have "length (windows n (drop n xs)) = (length xs - n) div n" by simp
    with False 1(2) show ?thesis
      by (simp add: windows.simps [of n xs] le_div_geq)
  qed
qed

lemma windows_sizes: "list_all (\<lambda>b. length b = n) (windows n xs)"
proof (induction n xs rule: windows.induct)
  case (1 n xs)
  then show ?case
    by (cases "n = 0 \<or> length xs < n") (simp_all add: windows.simps [of n xs])
qed

lemma ingest_all_batches:
  assumes "0 < batchSize a" and "length (transcriptBuffer a) < batchSize a"
  shows "chat_batches (snd (ingest_all cfg evs a))
           = map (join [CHR 0x0A]) (windows (batchSize a) (transcriptBuffer a @ map line_of evs))
       \<and> transcriptBuffer (fst (ingest_all cfg evs a))
           = drop (batchSize a * (length (transcriptBuffer a @ map line_of evs) div batchSize a))
               (transcriptBuffer a @ map line_of evs)"
  using assms
proof (induction evs arbitrary: a)
  case Nil
  then show ?case by (simp add: windows_short)
next
  case (Cons e evs)
  obtain w sp pid h tx where e: "e = (w, sp, pid, h, tx)" by (cases e)
  let ?n = "batchSize a"
  let ?b = "transcriptBuffer a"
  let ?l = "transcript_line sp h tx"
  let ?a1 = "fst (processTranscript cfg w sp pid h tx a)"
  let ?rest = "map line_of evs"
  have step: "ingest_all cfg (e # evs) a
      = (fst (ingest_all cfg evs ?a1), snd (processTranscript cfg w sp pid h tx a) @ snd (ingest_all cfg evs ?a1))"
    by (simp add: e case_prod_beta)
  have n1: "batchSize ?a1 = ?n" by simp
  show ?case
  proof (cases "fills a")
    case True
    with Cons.prems have len: "length (?b @ [?l]) = ?n" by (simp add: fills_def)
    have b1: "transcriptBuffer ?a1 = []" using True by (simp add: processTranscript_buffer)
    from Cons.IH [of ?a1] Cons.prems
    have ih: "chat_batches (snd (ingest_all cfg evs ?a1)) = map (join [CHR 0x0A]) (windows ?n ?rest)"
      and ihb: "transcriptBuffer (fst (ingest_all cfg evs ?a1)) = drop (?n * (length ?rest div ?n)) ?rest"
      by (simp_all add: n1 b1)
    have w: "windows ?n (?b @ map line_of (e # evs)) = (?b @ [?l]) # windows ?n ?rest"
      using windows_full [OF Cons.prems(1) len, of ?rest] by (simp add: e)
    define pre where "pre = ?b @ [?l]"
    have lp: "length pre = ?n" using len by (simp add: pre_def)
    have xs: "?b @ map line_of (e # evs) = pre @ ?rest" by (simp add: e pre_def)
    from Cons.prems(1) have "?n \<noteq> 0" by simp
    then have "(?n + length ?rest) div ?n = length ?rest div ?n + 1" by (rule div_add_self1)
    then have dv: "length (pre @ ?rest) div ?n = Suc (length ?rest div ?n)" by (simp add: lp)
    have "drop (?n * Suc (length ?rest div ?n)) (pre @ ?rest) = drop (?n * (length ?rest div ?n)) ?rest"
      by (simp add: lp)
    then have d: "drop (?n * (length (?b @ map line_of (e # evs)) div ?n)) (?b @ map line_of (e # evs))
        = drop (?n * (length ?rest div ?n)) ?rest"
      by (simp only: xs dv)
    show ?thesis
      using True by (simp only: step fst_conv snd_conv chat_batches_append processTranscript_chat ih ihb w d)
         simp
  next
    case False
    with Cons.prems have len: "length (?b @ [?l]) < ?n" by (simp add: fills_def)
    have b1: "transcriptBuffer ?a1 = ?b @ [?l]" using False by (simp add: processTranscript_buffer)
    from Cons.IH [of ?a1] Cons.prems(1) len
    have ih: "chat_batches (snd (ingest_all cfg evs ?a1)) = map (join [CHR 0x0A]) (windows ?n ((?b @ [?l]) @ ?rest))"
      and ihb: "transcriptBuffer (fst (ingest_all cfg evs ?a1))
          = drop (?n * (length ((?b @ [?l]) @ ?rest) div ?n)) ((?b @ [?l]) @ ?rest)"
      by (simp_all add: n1 b1)
    have eq: "?b @ map line_of (e # evs) = (?b @ [?l]) @ ?rest" by (simp add: e)
    show ?thesis
      using False by (simp only: step fst_conv snd_conv chat_batches_append processTranscript_chat ih ihb eq)
         simp
  qed
qed

lemma resume_buffer_exact:
  "transcriptBuffer (fst (analyzeBatch_resume cfg w a))
     = (if analysis_fails w then [] else transcriptBuffer a)"
proof (cases "chat_reply w")
  case (ChatCall f args)
  then show ?thesis
    by (cases args) (auto simp: analyzeBatch_resume_def analysis_fails_def send_to_platforms_buffer)
qed (simp_all add: analyzeBatch_resume_def analysis_fails_def)

lemma setInterviewer_begin_no_chat:
  "chat_batches (whole (fst (snd (setInterviewer_begin cfg w nm pid a)))) = []"
proof -
  obtain sms where sms: "list_all (\<lambda>e. channel_of e = Some SMS) (whole sms)"
    and out: "issued (fst (snd (setInterviewer_begin cfg w nm pid a)))
         = (if snd (snd (setInterviewer_begin cfg w nm pid a))
            then [startSessionThread_post (or_default nm ''Sales Rep'')
                    (extractMeetingTitle (meetingUrl a)) (detectPlatform (meetingUrl a))]
            else []) @ issued sms"
      "settled (fst (snd (setInterviewer_begin cfg w nm pid a))) = settled sms"
      "late (fst (snd (setInterviewer_begin cfg w nm pid a))) = late sms"
    using setInterviewer_begin_out [of cfg w nm pid a] by blast
  from sms have "chat_batches (issued sms) = []" "chat_batches (settled sms) = []" "chat_batches (late sms) = []"
    by (auto simp: list_all_whole intro: chat_batches_channel)
  then show ?thesis
    by (simp add: whole_def out startSessionThread_post_def)
qed

lemma tick_batcher:
  assumes step: "tick_step cfg t l = Some l'"
      and size: "batchSize (agent l) = 6"
      and short: "length (transcriptBuffer (agent l)) < 6"
      and sofar: "chat_batches (emitted l) = map (join [CHR 0x0A]) out"
  shows "batchSize (agent l') = 6"
    and "transcriptBuffer (agent l') = fst (batcher t (transcriptBuffer (agent l), out))"
    and "chat_batches (emitted l') = map (join [CHR 0x0A]) (snd (batcher t (transcriptBuffer (agent l), out)))"
    and "length (transcriptBuffer (agent l')) < 6"
    and "list_all (\<lambda>b. length b = 6) out
           \<Longrightarrow> list_all (\<lambda>b. length b = 6) (snd (batcher t (transcriptBuffer (agent l), out)))"
proof -
  have f: "fills (agent l) \<longleftrightarrow> length (transcriptBuffer (agent l)) + 1 = 6"
    using size short by (auto simp: fills_def)
  have all: "batchSize (agent l') = 6
      \<and> transcriptBuffer (agent l') = fst (batcher t (transcriptBuffer (agent l), out))
      \<and> chat_batches (emitted l') = map (join [CHR 0x0A]) (snd (batcher t (transcriptBuffer (agent l), out)))
      \<and> length (transcriptBuffer (agent l')) < 6
      \<and> (list_all (\<lambda>b. length b = 6) out
           \<longrightarrow> list_all (\<lambda>b. length b = 6) (snd (batcher t (transcriptBuffer (agent l), out))))"
  proof (cases t)
    case (TranscriptArrives w sp pid h tx)
    with step have l': "l' = \<lparr> agent = fst (processTranscript_begin cfg w sp pid h tx (agent l)),
            analyzing = analyzing l + (if fills (agent l) then 1 else 0),
            thread_posts = thread_posts l
              + (if fst (snd (snd (processTranscript_begin cfg w sp pid h tx (agent l)))) then 1 else 0),
            emitted = emitted l @ issued (fst (snd (processTranscript_begin cfg w sp pid h tx (agent l))))
              @ (if fills (agent l)
                 then [ChatSendMessage (join [CHR 0x0A] (transcriptBuffer (agent l) @ [transcript_line sp h tx]))]
                 else [])
              @ settled (fst (snd (processTranscript_begin cfg w sp pid h tx (agent l))))
              @ late (fst (snd (processTranscript_begin cfg w sp pid h tx (agent l)))) \<rparr>"
      by (simp add: tick_arrive)
    show ?thesis
      using short size sofar
      by (simp add: l' TranscriptArrives begin_projections begin_out_no_chat f)
  next
    case (HostJoins w nm pid)
    with step have l': "l' = \<lparr> agent = fst (setInterviewer_begin cfg w nm pid (agent l)),
            analyzing = analyzing l,
            thread_posts = thread_posts l
              + (if snd (snd (setInterviewer_begin cfg w nm pid (agent l))) then 1 else 0),
            emitted = emitted l @ whole (fst (snd (setInterviewer_begin cfg w nm pid (agent l)))) \<rparr>"
      by (simp add: tick_join)
    show ?thesis
      using short size sofar
      by (simp add: l' HostJoins setInterviewer_begin_no_chat)
  next
    case (ThreadPostSettles r)
    with step have l': "l' = \<lparr> agent = fst (initializeSlackThread_settle r (agent l)), analyzing = analyzing l,
                  thread_posts = thread_posts l - 1,
                  emitted = emitted l @ snd (initializeSlackThread_settle r (agent l)) \<rparr>"
      by (simp add: tick_thread split: if_splits)
    show ?thesis
      using short size sofar chat_batches_channel [OF settle_channel, of r "agent l"]
      by (simp add: l' ThreadPostSettles)
  next
    case (ChatSettles w)
    with step have l': "l' = \<lparr> agent = fst (analyzeBatch_resume cfg w (agent l)), analyzing = analyzing l - 1,
                  thread_posts = thread_posts l,
                  emitted = emitted l @ snd (analyzeBatch_resume cfg w (agent l)) \<rparr>"
      by (simp add: tick_chat split: if_splits)
    show ?thesis
      using short size sofar
      by (simp add: l' ChatSettles resume_no_chat resume_buffer_exact)
  qed
  from all show "batchSize (agent l') = 6"
    and "transcriptBuffer (agent l') = fst (batcher t (transcriptBuffer (agent l), out))"
    and "chat_batches (emitted l') = map (join [CHR 0x0A]) (snd (batcher t (transcriptBuffer (agent l), out)))"
    and "length (transcriptBuffer (agent l')) < 6"
    and "list_all (\<lambda>b. length b = 6) out
           \<Longrightarrow> list_all (\<lambda>b. length b = 6) (snd (batcher t (transcriptBuffer (agent l), out)))"
    by blast+
qed

lemma run_batcher:
  assumes "run_ticks cfg ts l = Some l'"
      and "batchSize (agent l) = 6"
      and "length (transcriptBuffer (agent l)) < 6"
      and "chat_batches (emitted l) = map (join [CHR 0x0A]) out"
      and "list_all (\<lambda>b. length b = 6) out"
  shows "transcriptBuffer (agent l') = fst (fold batcher ts (transcriptBuffer (agent l), out))
       \<and> chat_batches (emitted l') = map (join [CHR 0x0A]) (snd (fold batcher ts (transcriptBuffer (agent l), out)))
       \<and> list_all (\<lambda>b. length b = 6) (snd (fold batcher ts (transcriptBuffer (agent l), out)))
       \<and> length (transcriptBuffer (agent l')) < 6"
  using assms
proof (induction ts arbitrary: l out)
  case Nil
  then show ?case by simp
next
  case (Cons t ts)
  from Cons.prems(1) obtain l1 where s: "tick_step cfg t l = Some l1"
    and r: "run_ticks cfg ts l1 = Some l'"
    by (auto split: option.splits)
  obtain buf1 out1 where b: "batcher t (transcriptBuffer (agent l), out) = (buf1, out1)"
    by (cases "batcher t (transcriptBuffer (agent l), out)")
  note step = tick_batcher [OF s Cons.prems(2) Cons.prems(3) Cons.prems(4)]
  have "transcriptBuffer (agent l1) = buf1" "chat_batches (emitted l1) = map (join [CHR 0x0A]) out1"
    "list_all (\<lambda>b. length b = 6) out1"
    using step(2) step(3) step(5) [OF Cons.prems(5)] by (simp_all add: b)
  with Cons.IH [OF r step(1) step(4), of out1] show ?case
    by (auto simp: b)
qed

lemma drop_full:
  assumes "0 < n" and "length pre = n"
  shows "drop (n * (length (pre @ rest) div n)) (pre @ rest) = drop (n * (length rest div n)) rest"
proof -
  from assms(1) have "n \<noteq> 0" by simp
  then have "(n + length rest) div n = length rest div n + 1" by (rule div_add_self1)
  then have dv: "length (pre @ rest) div n = Suc (length rest div n)" by (simp add: assms(2))
  have "drop (n * Suc (length rest div n)) (pre @ rest) = drop (n * (length rest div n)) rest"
    by (simp add: assms(2))
  then show ?thesis by (simp only: dv)
qed

lemma batcher_windows:
  assumes "list_all (\<lambda>t. \<not> failed_analysis t) ts" and "length buf < 6"
  shows "fold batcher ts (buf, out)
           = (drop (6 * (length (buf @ concat (map line_added ts)) div 6)) (buf @ concat (map line_added ts)),
              out @ windows 6 (buf @ concat (map line_added ts)))"
  using assms
proof (induction ts arbitrary: buf out)
  case Nil
  then show ?case by (simp add: windows_short)
next
  case (Cons t ts)
  from Cons.prems(1) have ok: "\<not> failed_analysis t" and rest: "list_all (\<lambda>t. \<not> failed_analysis t) ts"
    by simp_all
  let ?L = "concat (map line_added ts)"
  show ?case
  proof (cases t)
    case (TranscriptArrives w sp pid h tx)
    let ?x = "transcript_line sp h tx"
    show ?thesis
    proof (cases "length buf + 1 = 6")
      case True
      then have len: "length (buf @ [?x]) = 6" by simp
      have w: "windows 6 ((buf @ [?x]) @ ?L) = (buf @ [?x]) # windows 6 ?L"
        by (rule windows_full [OF _ len]) simp
      have d: "drop (6 * (length ((buf @ [?x]) @ ?L) div 6)) ((buf @ [?x]) @ ?L)
          = drop (6 * (length ?L div 6)) ?L"
        by (rule drop_full [OF _ len]) simp
      have e: "buf @ concat (map line_added (t # ts)) = (buf @ [?x]) @ ?L"
        by (simp add: TranscriptArrives)
      have "fold batcher (t # ts) (buf, out) = fold batcher ts ([], out @ [buf @ [?x]])"
        using True by (simp add: TranscriptArrives)
      also have "\<dots> = (drop (6 * (length ?L div 6)) ?L, (out @ [buf @ [?x]]) @ windows 6 ?L)"
        using Cons.IH [OF rest, of "[]" "out @ [buf @ [?x]]"] by simp
      finally show ?thesis
        by (simp only: e w d) simp
    next
      case False
      with Cons.prems(2) have len: "length (buf @ [?x]) < 6" by simp
      have e: "buf @ concat (map line_added (t # ts)) = (buf @ [?x]) @ ?L"
        by (simp add: TranscriptArrives)
      have "fold batcher (t # ts) (buf, out) = fold batcher ts (buf @ [?x], out)"
        using False by (simp add: TranscriptArrives)
      also note Cons.IH [OF rest len, of out]
      finally show ?thesis
        by (simp only: e)
    qed
  next
    case (HostJoins w nm pid)
    then show ?thesis
      using Cons.IH [OF rest Cons.prems(2), of out] by simp
  next
    case (ThreadPostSettles r)
    then show ?thesis
      using Cons.IH [OF rest Cons.prems(2), of out] by simp
  next
    case (ChatSettles w)
    then show ?thesis
      using Cons.IH [OF rest Cons.prems(2), of out] ok by simp
  qed
qed

subsection \<open>Auxiliary facts about the posts that open a thread\<close>

lemma parent_posts_append [simp]: "parent_posts (xs @ ys) = parent_posts xs + parent_posts ys"
  by (simp add: parent_posts_def)

lemma parent_posts_none: "list_all (\<lambda>e. \<not> is_parent_post e) es \<Longrightarrow> parent_posts es = 0"
  by (induction es) (simp_all add: parent_posts_def)

lemma parent_posts_simps [simp]:
  "parent_posts [] = 0"
  "parent_posts [ChatSendMessage b] = 0"
  by (simp_all add: parent_posts_def)

lemma setInterviewer_begin_parents:
  "parent_posts (issued (fst (snd (setInterviewer_begin cfg w nm pid a))))
     = (if snd (snd (setInterviewer_begin cfg w nm pid a)) then 1 else 0)"
  "parent_posts (settled (fst (snd (setInterviewer_begin cfg w nm pid a)))) = 0"
  "parent_posts (late (fst (snd (setInterviewer_begin cfg w nm pid a)))) = 0"
proof -
  obtain sms where sms: "list_all (\<lambda>e. channel_of e = Some SMS) (whole sms)"
    and out: "issued (fst (snd (setInterviewer_begin cfg w nm pid a)))
         = (if snd (snd (setInterviewer_begin cfg w nm pid a))
            then [startSessionThread_post (or_default nm ''Sales Rep'')
                    (extractMeetingTitle (meetingUrl a)) (detectPlatform (meetingUrl a))]
            else []) @ issued sms"
      "settled (fst (snd (setInterviewer_begin cfg w nm pid a))) = settled sms"
      "late (fst (snd (setInterviewer_begin cfg w nm pid a))) = late sms"
    using setInterviewer_begin_out [of cfg w nm pid a] by blast
  from channel_no_parent [OF sms]
  have "parent_posts (issued sms) = 0" "parent_posts (settled sms) = 0" "parent_posts (late sms) = 0"
    by (auto simp: list_all_whole intro: parent_posts_none)
  then show "parent_posts (issued (fst (snd (setInterviewer_begin cfg w nm pid a))))
     = (if snd (snd (setInterviewer_begin cfg w nm pid a)) then 1 else 0)"
    "parent_posts (settled (fst (snd (setInterviewer_begin cfg w nm pid a)))) = 0"
    "parent_posts (late (fst (snd (setInterviewer_begin cfg w nm pid a)))) = 0"
    by (simp_all add: out startSessionThread_post_def) (simp add: parent_posts_def)
qed

lemma begin_parents:
  "parent_posts (issued (fst (snd (processTranscript_begin cfg w sp pid h tx a))))
     = (if fst (snd (snd (processTranscript_begin cfg w sp pid h tx a))) then 1 else 0)"
  "parent_posts (settled (fst (snd (processTranscript_begin cfg w sp pid h tx a)))) = 0"
  "parent_posts (late (fst (snd (processTranscript_begin cfg w sp pid h tx a)))) = 0"
  by (auto simp: begin_out begin_posted setInterviewer_begin_parents setInterviewer_begin_posted)

lemma setInterviewer_begin_handle:
  "handle (fst (setInterviewer_begin cfg w nm pid a)) = handle a"
  by (simp add: handle_def)

lemma live_handle_cong: "handle a = handle b \<Longrightarrow> live_handle a = live_handle b"
  by (simp add: live_handle_def)

text \<open>What one tick does to the thread posts, to the host id and to the handle.\<close>

lemma tick_arrive_thread:
  assumes "tick_step cfg (TranscriptArrives w sp pid h tx) l = Some l'"
  shows "\<exists>es. emitted l' = emitted l @ es
           \<and> parent_posts es = (if fst (snd (snd (processTranscript_begin cfg w sp pid h tx (agent l)))) then 1 else 0)"
    and "thread_posts l' = thread_posts l
           + (if fst (snd (snd (processTranscript_begin cfg w sp pid h tx (agent l)))) then 1 else 0)"
    and "handle (agent l') = handle (agent l)"
    and "interviewerId (agent l') = (if h \<and> \<not> truthy (interviewerId (agent l)) then pid else interviewerId (agent l))"
    and "fst (snd (snd (processTranscript_begin cfg w sp pid h tx (agent l))))
           \<longleftrightarrow> h \<and> \<not> truthy (interviewerId (agent l)) \<and> mode_on cfg ''SLACK''
               \<and> (\<exists>t. handle (agent l) = Some t \<and> live_thread t = None)"
proof -
  from assms have l': "l' = \<lparr> agent = fst (processTranscript_begin cfg w sp pid h tx (agent l)),
            analyzing = analyzing l + (if fills (agent l) then 1 else 0),
            thread_posts = thread_posts l
              + (if fst (snd (snd (processTranscript_begin cfg w sp pid h tx (agent l)))) then 1 else 0),
            emitted = emitted l @ (issued (fst (snd (processTranscript_begin cfg w sp pid h tx (agent l))))
              @ (if fills (agent l)
                 then [ChatSendMessage (join [CHR 0x0A] (transcriptBuffer (agent l) @ [transcript_line sp h tx]))]
                 else [])
              @ settled (fst (snd (processTranscript_begin cfg w sp pid h tx (agent l))))
              @ late (fst (snd (processTranscript_begin cfg w sp pid h tx (agent l))))) \<rparr>"
    by (simp add: tick_arrive)
  show "\<exists>es. emitted l' = emitted l @ es
           \<and> parent_posts es = (if fst (snd (snd (processTranscript_begin cfg w sp pid h tx (agent l)))) then 1 else 0)"
    by (subst l', simp only: loop.simps, intro exI conjI, rule refl) (simp add: begin_parents)
  show "thread_posts l' = thread_posts l
           + (if fst (snd (snd (processTranscript_begin cfg w sp pid h tx (agent l)))) then 1 else 0)"
    by (simp add: l')
  show "handle (agent l') = handle (agent l)"
    by (simp add: l' begin_projections)
  show "interviewerId (agent l') = (if h \<and> \<not> truthy (interviewerId (agent l)) then pid else interviewerId (agent l))"
    by (simp add: l' begin_id)
  show "fst (snd (snd (processTranscript_begin cfg w sp pid h tx (agent l))))
           \<longleftrightarrow> h \<and> \<not> truthy (interviewerId (agent l)) \<and> mode_on cfg ''SLACK''
               \<and> (\<exists>t. handle (agent l) = Some t \<and> live_thread t = None)"
    by (simp add: begin_posted setInterviewer_begin_posted)
qed

lemma tick_join_thread:
  assumes "tick_step cfg (HostJoins w nm pid) l = Some l'"
  shows "\<exists>es. emitted l' = emitted l @ es
           \<and> parent_posts es = (if snd (snd (setInterviewer_begin cfg w nm pid (agent l))) then 1 else 0)"
    and "thread_posts l' = thread_posts l
           + (if snd (snd (setInterviewer_begin cfg w nm pid (agent l))) then 1 else 0)"
    and "handle (agent l') = handle (agent l)"
    and "interviewerId (agent l') = (if \<not> truthy (interviewerId (agent l)) then pid else interviewerId (agent l))"
    and "snd (snd (setInterviewer_begin cfg w nm pid (agent l)))
           \<longleftrightarrow> \<not> truthy (interviewerId (agent l)) \<and> mode_on cfg ''SLACK''
               \<and> (\<exists>t. handle (agent l) = Some t \<and> live_thread t = None)"
proof -
  from assms have l': "l' = \<lparr> agent = fst (setInterviewer_begin cfg w nm pid (agent l)),
            analyzing = analyzing l,
            thread_posts = thread_posts l
              + (if snd (snd (setInterviewer_begin cfg w nm pid (agent l))) then 1 else 0),
            emitted = emitted l @ whole (fst (snd (setInterviewer_begin cfg w nm pid (agent l)))) \<rparr>"
    by (simp add: tick_join)
  show "\<exists>es. emitted l' = emitted l @ es
           \<and> parent_posts es = (if snd (snd (setInterviewer_begin cfg w nm pid (agent l))) then 1 else 0)"
    by (subst l', simp only: loop.simps, intro exI conjI, rule refl)
       (simp add: whole_def setInterviewer_begin_parents)
  show "thread_posts l' = thread_posts l
           + (if snd (snd (setInterviewer_begin cfg w nm pid (agent l))) then 1 else 0)"
    by (simp add: l')
  show "handle (agent l') = handle (agent l)"
    by (simp add: l' setInterviewer_begin_handle)
  show "interviewerId (agent l') = (if \<not> truthy (interviewerId (agent l)) then pid else interviewerId (agent l))"
    by (simp add: l' setInterviewer_begin_id)
  show "snd (snd (setInterviewer_begin cfg w nm pid (agent l)))
           \<longleftrightarrow> \<not> truthy (interviewerId (agent l)) \<and> mode_on cfg ''SLACK''
               \<and> (\<exists>t. handle (agent l) = Some t \<and> live_thread t = None)"
    by (rule setInterviewer_begin_posted)
qed

lemma tick_settle_thread:
  assumes "tick_step cfg (ThreadPostSettles r) l = Some l'"
  shows "\<exists>es. emitted l' = emitted l @ es \<and> parent_posts es = 0"
    and "0 < thread_posts l" and "thread_posts l' = thread_posts l - 1"
    and "interviewerId (agent l') = interviewerId (agent l)"
proof -
  from assms have p: "0 < thread_posts l"
    and l': "l' = \<lparr> agent = fst (initializeSlackThread_settle r (agent l)), analyzing = analyzing l,
                  thread_posts = thread_posts l - 1,
                  emitted = emitted l @ snd (initializeSlackThread_settle r (agent l)) \<rparr>"
    by (simp_all add: tick_thread split: if_splits)
  show "\<exists>es. emitted l' = emitted l @ es \<and> parent_posts es = 0"
    by (subst l', simp only: loop.simps, intro exI conjI, rule refl)
       (rule parent_posts_none [OF settle_no_parent])
  show "0 < thread_posts l" by (rule p)
  show "thread_posts l' = thread_posts l - 1" by (simp add: l')
  show "interviewerId (agent l') = interviewerId (agent l)" by (simp add: l')
qed

lemma tick_chat_thread:
  assumes "tick_step cfg (ChatSettles w) l = Some l'"
  shows "\<exists>es. emitted l' = emitted l @ es \<and> parent_posts es = 0"
    and "thread_posts l' = thread_posts l"
    and "handle (agent l') = handle (agent l)"
    and "interviewerId (agent l') = interviewerId (agent l)"
proof -
  from assms have l': "l' = \<lparr> agent = fst (analyzeBatch_resume cfg w (agent l)), analyzing = analyzing l - 1,
                  thread_posts = thread_posts l,
                  emitted = emitted l @ snd (analyzeBatch_resume cfg w (agent l)) \<rparr>"
    by (simp add: tick_chat split: if_splits)
  show "\<exists>es. emitted l' = emitted l @ es \<and> parent_posts es = 0"
    by (subst l', simp only: loop.simps, intro exI conjI, rule refl)
       (rule parent_posts_none [OF resume_no_parent])
  show "thread_posts l' = thread_posts l" by (simp add: l')
  show "handle (agent l') = handle (agent l)" by (simp add: l' resume_handle)
  show "interviewerId (agent l') = interviewerId (agent l)" by (simp add: l')
qed

lemma live_dead: "handle a = Some t \<Longrightarrow> live_thread t = None \<Longrightarrow> live_handle a = None"
  by (simp add: live_handle_def)

lemma tick_opens:
  assumes "tick_step cfg t l = Some l'"
  shows "\<exists>es. emitted l' = emitted l @ es \<and> parent_posts es \<le> 1
           \<and> (parent_posts es \<noteq> 0 \<longrightarrow>
                host_signal t \<and> \<not> truthy (interviewerId (agent l)) \<and> live_handle (agent l) = None)"
proof (cases t)
  case (TranscriptArrives w sp pid h tx)
  note f = tick_arrive_thread [OF assms [unfolded TranscriptArrives]]
  from f(1) obtain es where es: "emitted l' = emitted l @ es"
    "parent_posts es = (if fst (snd (snd (processTranscript_begin cfg w sp pid h tx (agent l)))) then 1 else 0)"
    by blast
  show ?thesis
    using es f(5) by (intro exI [of _ es]) (auto simp: TranscriptArrives dest: live_dead)
next
  case (HostJoins w nm pid)
  note f = tick_join_thread [OF assms [unfolded HostJoins]]
  from f(1) obtain es where es: "emitted l' = emitted l @ es"
    "parent_posts es = (if snd (snd (setInterviewer_begin cfg w nm pid (agent l))) then 1 else 0)"
    by blast
  show ?thesis
    using es f(5) by (intro exI [of _ es]) (auto simp: HostJoins dest: live_dead)
next
  case (ThreadPostSettles r)
  from tick_settle_thread(1) [OF assms [unfolded ThreadPostSettles]] show ?thesis by auto
next
  case (ChatSettles w)
  from tick_chat_thread(1) [OF assms [unfolded ChatSettles]] show ?thesis by auto
qed

lemma live_le: "(if live_handle a = None then 0 else 1) \<le> (1::nat)"
  by simp

lemma tick_one_thread:
  assumes step: "tick_step cfg t l = Some l'" and named: "names_host t" and inv: "one_thread l"
  shows "one_thread l'"
    and "live_handle (agent l) \<noteq> None \<Longrightarrow> handle (agent l') = handle (agent l)"
proof -
  from inv have i1: "truthy (interviewerId (agent l)) \<or> (parent_posts (emitted l) = 0 \<and> thread_posts l = 0)"
    and i2: "thread_posts l + (if live_handle (agent l) = None then 0 else 1) \<le> parent_posts (emitted l)"
    and i3: "parent_posts (emitted l) \<le> 1"
    by (simp_all add: one_thread_def)
  have "one_thread l' \<and> (live_handle (agent l) \<noteq> None \<longrightarrow> handle (agent l') = handle (agent l))"
  proof (cases t)
    case (TranscriptArrives w sp pid h tx)
    note f = tick_arrive_thread [OF step [unfolded TranscriptArrives]]
    from f(1) obtain es where es: "emitted l' = emitted l @ es"
      "parent_posts es = (if fst (snd (snd (processTranscript_begin cfg w sp pid h tx (agent l)))) then 1 else 0)"
      by blast
    have lh: "live_handle (agent l') = live_handle (agent l)"
      by (rule live_handle_cong [OF f(3)])
    show ?thesis
    proof (cases "fst (snd (snd (processTranscript_begin cfg w sp pid h tx (agent l))))")
      case True
      with f(5) have h: h and nt: "\<not> truthy (interviewerId (agent l))"
        and dead: "live_handle (agent l) = None"
        by (auto dest: live_dead)
      from nt i1 have z: "parent_posts (emitted l) = 0" "thread_posts l = 0" by simp_all
      from named h have "truthy pid" by (simp add: TranscriptArrives)
      then show ?thesis
        using True h nt dead z f(2) f(3) f(4) es
        by (simp add: one_thread_def lh)
    next
      case False
      have id: "truthy (interviewerId (agent l')) \<or> \<not> truthy (interviewerId (agent l))"
        using named by (auto simp: f(4) TranscriptArrives)
      show ?thesis
        using False i1 i2 i3 f(2) f(3) es id
        by (auto simp: one_thread_def lh)
    qed
  next
    case (HostJoins w nm pid)
    note f = tick_join_thread [OF step [unfolded HostJoins]]
    from f(1) obtain es where es: "emitted l' = emitted l @ es"
      "parent_posts es = (if snd (snd (setInterviewer_begin cfg w nm pid (agent l))) then 1 else 0)"
      by blast
    have lh: "live_handle (agent l') = live_handle (agent l)"
      by (rule live_handle_cong [OF f(3)])
    from named have tp: "truthy pid" by (simp add: HostJoins)
    then have id: "truthy (interviewerId (agent l'))" by (simp add: f(4))
    show ?thesis
    proof (cases "snd (snd (setInterviewer_begin cfg w nm pid (agent l)))")
      case True
      with f(5) have nt: "\<not> truthy (interviewerId (agent l))"
        and dead: "live_handle (agent l) = None"
        by (auto dest: live_dead)
      from nt i1 have z: "parent_posts (emitted l) = 0" "thread_posts l = 0" by simp_all
      show ?thesis
        using True nt dead z f(2) f(3) id es
        by (simp add: one_thread_def lh)
    next
      case False
      show ?thesis
        using False i1 i2 i3 f(2) f(3) es id
        by (auto simp: one_thread_def lh)
    qed
  next
    case (ThreadPostSettles r)
    note f = tick_settle_thread [OF step [unfolded ThreadPostSettles]]
    from f(1) obtain es where es: "emitted l' = emitted l @ es" "parent_posts es = 0"
      by blast
    from f(2) i2 i3 have one: "thread_posts l = 1" "parent_posts (emitted l) = 1"
      and dead: "live_handle (agent l) = None"
      by (auto split: if_splits)
    from f(2) i1 have id: "truthy (interviewerId (agent l))" by auto
    show ?thesis
      using one dead id f(3) f(4) es live_le [of "agent l'"]
      by (simp add: one_thread_def)
  next
    case (ChatSettles w)
    note f = tick_chat_thread [OF step [unfolded ChatSettles]]
    from f(1) obtain es where es: "emitted l' = emitted l @ es" "parent_posts es = 0"
      by blast
    have lh: "live_handle (agent l') = live_handle (agent l)"
      by (rule live_handle_cong [OF f(3)])
    show ?thesis
      using i1 i2 i3 f(2) f(3) f(4) es
      by (simp add: one_thread_def lh)
  qed
  then show "one_thread l'"
    and "live_handle (agent l) \<noteq> None \<Longrightarrow> handle (agent l') = handle (agent l)"
    by blast+
qed

lemma run_one_thread:
  assumes "run_ticks cfg ts l = Some l'" and "list_all names_host ts" and "one_thread l"
  shows "one_thread l'"
  using assms
proof (induction ts arbitrary: l)
  case Nil
  then show ?case by simp
next
  case (Cons t ts)
  from Cons.prems(1) obtain l1 where s: "tick_step cfg t l = Some l1"
    and r: "run_ticks cfg ts l1 = Some l'"
    by (auto split: option.splits)
  from Cons.prems(2) have n: "names_host t" "list_all names_host ts" by simp_all
  from Cons.IH [OF r n(2) tick_one_thread(1) [OF s n(1) Cons.prems(3)]] show ?case .
qed

lemma start_one_thread: "one_thread (start_loop (new_AIAgent cfg bid url phones))"
  by (simp add: one_thread_def start_loop_def new_AIAgent_def live_handle_def handle_def)

subsection \<open>Auxiliary facts about what a fan-out delivers\<close>

lemma calls_Log [simp]: "calls (Log x # es) = calls es" "calls [Log x] = []"
  by (simp_all add: calls_def)

lemma send_slack_phase_calls:
  "calls (issued (fst (snd (send_slack cfg w g a)))) =
     (case (mode_on cfg ''SLACK'', slackThread a) of
        (True, Some m) \<Rightarrow>
          (case live_thread (threadTs m) of
             None \<Rightarrow> []
           | Some ts \<Rightarrow>
               [SlackPostReply ts (slack_nudgeCount m + 1) (reason g) (message g) (batchCount a) 6])
      | _ \<Rightarrow> [])"
  "calls (settled (fst (snd (send_slack cfg w g a)))) = []"
  by (cases "mode_on cfg ''SLACK''"; cases "slackThread a";
      cases "live_thread (threadTs (the (slackThread a)))";
      simp add: send_slack_def sendCoachingReply_phases_def Let_def coachingData_def calls_def)+

lemma send_zoom_phase_calls:
  "truthy (interviewerId a) \<Longrightarrow>
     calls (issued (fst (send_zoom cfg w g a))) =
       (if mode_on cfg ''ZOOM_DM''
        then [ZoomChatMessage (botId a) (Some (String_js (interviewerId a))) (message g)] else [])"
  "calls (settled (fst (send_zoom cfg w g a))) = []"
  by (simp_all add: send_zoom_def sendPrivateChatMessage_def calls_def)

lemma send_sms_phase_calls:
  "calls (issued (fst (snd (send_sms cfg w g a)))) =
     (case (mode_on cfg ''SMS'', smsManager a) of
        (True, Some s) \<Rightarrow>
          (if sms_idle cfg s then []
           else map (\<lambda>p. SmsCreate p (Nudge (sms_nudgeCount s + 1) (reason g) (message g) (batchCount a)))
                  (sms_phoneNumbers s))
      | _ \<Rightarrow> [])"
  "calls (settled (fst (snd (send_sms cfg w g a)))) = []"
  "list_all is_log (late (fst (snd (send_sms cfg w g a))))"
proof -
  show "calls (issued (fst (snd (send_sms cfg w g a)))) =
     (case (mode_on cfg ''SMS'', smsManager a) of
        (True, Some s) \<Rightarrow>
          (if sms_idle cfg s then []
           else map (\<lambda>p. SmsCreate p (Nudge (sms_nudgeCount s + 1) (reason g) (message g) (batchCount a)))
                  (sms_phoneNumbers s))
      | _ \<Rightarrow> [])"
    by (cases "mode_on cfg ''SMS''"; cases "smsManager a")
       (simp_all add: send_sms_def sendCoachingNudge_phases_def Let_def case_prod_beta coachingData_def
          calls_def filter_map comp_def)
  show "calls (settled (fst (snd (send_sms cfg w g a)))) = []"
    using send_all_log_phases(1) [of "sms_nudge_ok w" "sms_phoneNumbers (the (smsManager a))"]
    by (cases "mode_on cfg ''SMS''"; cases "smsManager a")
       (simp_all add: send_sms_def sendCoachingNudge_phases_def Let_def case_prod_beta calls_logs)
  show "list_all is_log (late (fst (snd (send_sms cfg w g a))))"
    using send_all_log_phases(2) [of "sms_nudge_ok w" "sms_phoneNumbers (the (smsManager a))"]
    by (cases "mode_on cfg ''SMS''"; cases "smsManager a")
       (simp_all add: send_sms_def sendCoachingNudge_phases_def Let_def case_prod_beta)
qed

lemma send_to_platforms_deliveries:
  assumes "truthy (interviewerId a)"
  shows "calls (issued (fst (snd (send_slack cfg w g a))) @ issued (fst (send_zoom cfg w g a))
           @ issued (fst (snd (send_sms cfg w g a)))
           @ settled (fst (snd (send_slack cfg w g a))) @ settled (fst (send_zoom cfg w g a))
           @ settled (fst (snd (send_sms cfg w g a)))) = deliveries cfg g a"
    and "calls (snd (send_to_platforms cfg w g a)) = deliveries cfg g a"
proof -
  show pre: "calls (issued (fst (snd (send_slack cfg w g a))) @ issued (fst (send_zoom cfg w g a))
           @ issued (fst (snd (send_sms cfg w g a)))
           @ settled (fst (snd (send_slack cfg w g a))) @ settled (fst (send_zoom cfg w g a))
           @ settled (fst (snd (send_sms cfg w g a)))) = deliveries cfg g a"
    by (simp only: calls_append, subst send_slack_phase_calls(1), subst send_slack_phase_calls(2),
        subst send_zoom_phase_calls(1) [OF assms], subst send_zoom_phase_calls(2),
        subst send_sms_phase_calls(1), subst send_sms_phase_calls(2))
       (simp only: deliveries_def append_Nil2)
  show "calls (snd (send_to_platforms cfg w g a)) = deliveries cfg g a"
    by (subst send_to_platforms_out, subst calls_append, subst pre)
       (simp only: calls_Log calls_logs [OF send_sms_phase_calls(3)] append_Nil2)
qed

lemma send_slack_outcome:
  assumes "mode_on cfg ''SLACK''" and "slackThread a \<noteq> None"
  shows "\<exists>e \<in> set (issued (fst (snd (send_slack cfg w g a))) @ settled (fst (snd (send_slack cfg w g a)))).
           outcome_of e = Some Slack"
  using assms
  by (cases "slackThread a"; cases "live_thread (threadTs (the (slackThread a)))")
     (auto simp: send_slack_def sendCoachingReply_phases_def Let_def)

lemma send_zoom_outcome:
  assumes "mode_on cfg ''ZOOM_DM''"
  shows "\<exists>e \<in> set (settled (fst (send_zoom cfg w g a))). outcome_of e = Some ZoomDM"
  using assms by (simp add: send_zoom_def sendPrivateChatMessage_def)

lemma send_sms_outcome:
  assumes "mode_on cfg ''SMS''" and "smsManager a \<noteq> None"
  shows "\<exists>e \<in> set (issued (fst (snd (send_sms cfg w g a))) @ settled (fst (snd (send_sms cfg w g a)))).
           outcome_of e = Some SMS"
proof -
  from assms obtain s where s: "smsManager a = Some s" by auto
  show ?thesis
  proof (cases "sms_idle cfg s")
    case True
    then show ?thesis
      using assms s by (simp add: send_sms_def sendCoachingNudge_phases_def)
  next
    case False
    then show ?thesis
      using assms s
      by (auto simp: send_sms_def sendCoachingNudge_phases_def Let_def case_prod_beta)
  qed
qed

lemma platforms_outcomes:
  assumes "c \<in> set (platforms cfg a)"
  shows "\<exists>e \<in> set (issued (fst (snd (send_slack cfg w g a))) @ issued (fst (send_zoom cfg w g a))
           @ issued (fst (snd (send_sms cfg w g a)))
           @ settled (fst (snd (send_slack cfg w g a))) @ settled (fst (send_zoom cfg w g a))
           @ settled (fst (snd (send_sms cfg w g a)))). outcome_of e = Some c"
proof (cases c)
  case Slack
  with assms have "mode_on cfg ''SLACK''" "slackThread a \<noteq> None"
    by (auto simp: platforms_def split: if_splits)
  from send_slack_outcome [OF this, of w g] show ?thesis
    unfolding Slack by auto
next
  case ZoomDM
  with assms have "mode_on cfg ''ZOOM_DM''"
    by (auto simp: platforms_def split: if_splits)
  from send_zoom_outcome [OF this, of w g a] show ?thesis
    unfolding ZoomDM by auto
next
  case SMS
  with assms have "mode_on cfg ''SMS''" "smsManager a \<noteq> None"
    by (auto simp: platforms_def split: if_splits)
  from send_sms_outcome [OF this, of w g] show ?thesis
    unfolding SMS by auto
qed

lemma send_sms_late_kind:
  "list_all (\<lambda>e. is_log e \<and> channel_of e = Some SMS) (late (fst (snd (send_sms cfg w g a))))"
  using send_sms_phase_calls(3) [of cfg w g a] send_sms_channel [of cfg w g a]
  by (auto simp: list_all_iff whole_def)

lemma slack_ack:
  assumes "mode_on cfg ''SLACK''" and "slack_reply_ok w"
      and "slackThread a = Some m" and "live_thread (threadTs m) = Some ts"
  shows "Log (SlackNudgeSent (slack_nudgeCount m + 1)) \<in> set (whole (fst (snd (send_slack cfg w g a))))"
  using assms by (simp add: send_slack_def sendCoachingReply_phases_def Let_def)

lemma zoom_ack:
  assumes "mode_on cfg ''ZOOM_DM''" and "zoom_fetch w = FetchOk"
  shows "Log ZoomDelivered \<in> set (whole (fst (send_zoom cfg w g a)))"
  using assms by (simp add: send_zoom_def sendPrivateChatMessage_def)

lemma sms_ack:
  assumes "mode_on cfg ''SMS''" and "smsManager a = Some s" and "\<not> sms_idle cfg s"
      and "i < length (sms_phoneNumbers s)" and "sms_nudge_ok w i"
  shows "Log (SmsSentTo (sms_phoneNumbers s ! i)) \<in> set (whole (fst (snd (send_sms cfg w g a))))"
proof -
  from send_all_logs [OF assms(4), of "sms_nudge_ok w"] assms(5)
  have "Log (SmsSentTo (sms_phoneNumbers s ! i))
      \<in> set (whole (fst (send_all (sms_nudge_ok w) (sms_phoneNumbers s)
                (Nudge (sms_nudgeCount s + 1) (c_reason (coachingData g a)) (c_message (coachingData g a))
                   (c_batchNumber (coachingData g a))))))"
    by (simp add: sendSMS_log_def)
  then show ?thesis
    using assms(1-3)
    by (auto simp: send_sms_def sendCoachingNudge_phases_def Let_def case_prod_beta whole_def)
qed

subsection \<open>Auxiliary facts about the SMS fan-out and the stop route\<close>

lemma send_all_line_kinds:
  assumes "e \<in> set (settled (fst (send_all ok ps b))) \<union> set (late (fst (send_all ok ps b)))"
  shows "\<exists>p. e = Log (SmsSentTo p) \<or> e = Log (SmsFailedTo p)"
  using assms unfolding send_all_log_set by (auto simp: sendSMS_log_def)

lemma sendCoachingNudge_report:
  assumes "\<not> sms_idle cfg s"
  shows "Log (SmsNudgeAllSent (sms_nudgeCount s + 1)) \<in> set (snd (sendCoachingNudge cfg ok d s))
           \<longleftrightarrow> (\<forall>i < length (sms_phoneNumbers s). ok i)"
    and "Log SmsNudgeError \<in> set (snd (sendCoachingNudge cfg ok d s))
           \<longleftrightarrow> \<not> (\<forall>i < length (sms_phoneNumbers s). ok i)"
proof -
  let ?p = "fst (send_all ok (sms_phoneNumbers s)
                (Nudge (sms_nudgeCount s + 1) (c_reason d) (c_message d) (c_batchNumber d)))"
  have no: "Log (SmsNudgeAllSent n) \<notin> set (settled ?p) \<union> set (late ?p)"
    "Log SmsNudgeError \<notin> set (settled ?p) \<union> set (late ?p)" for n
    using send_all_line_kinds [of _ ok "sms_phoneNumbers s"] by blast+
  show "Log (SmsNudgeAllSent (sms_nudgeCount s + 1)) \<in> set (snd (sendCoachingNudge cfg ok d s))
           \<longleftrightarrow> (\<forall>i < length (sms_phoneNumbers s). ok i)"
    using assms no by (auto simp: sendCoachingNudge_out)
  show "Log SmsNudgeError \<in> set (snd (sendCoachingNudge cfg ok d s))
           \<longleftrightarrow> \<not> (\<forall>i < length (sms_phoneNumbers s). ok i)"
    using assms no by (auto simp: sendCoachingNudge_out)
qed

lemma sendCoachingNudge_lines:
  assumes "\<not> sms_idle cfg s" and "i < length (sms_phoneNumbers s)"
  shows "Log (if ok i then SmsSentTo (sms_phoneNumbers s ! i) else SmsFailedTo (sms_phoneNumbers s ! i))
           \<in> set (snd (sendCoachingNudge cfg ok d s))"
proof -
  from send_all_logs [OF assms(2), of ok]
  have "sendSMS_log (ok i) (sms_phoneNumbers s ! i)
      \<in> set (whole (fst (send_all ok (sms_phoneNumbers s)
                (Nudge (sms_nudgeCount s + 1) (c_reason d) (c_message d) (c_batchNumber d)))))" .
  then show ?thesis
    using assms(1) by (auto simp: sendCoachingNudge_out whole_def sendSMS_log_def)
qed

lemma end_not_log: "is_end e \<Longrightarrow> \<not> is_log e"
  by (cases e rule: is_end.cases) simp_all

lemma calls_ends:
  "list_all (\<lambda>e. is_log e \<or> is_end e) es \<Longrightarrow> calls es = filter is_end es"
  by (induction es) (auto simp: calls_def dest: end_not_log)

lemma filter_no_end: "list_all (\<lambda>e. \<not> is_end e) es \<Longrightarrow> filter is_end es = []"
  by (induction es) auto

lemma flushBuffer_facts:
  "\<exists>post. snd (flushBuffer cfg w a) = snd (analyzeBatch cfg w a) @ post
     \<and> list_all (\<lambda>e. is_log e \<or> is_end e) post
     \<and> ((\<exists>ts n. SlackPostSummary ts n \<in> set post)
          \<longleftrightarrow> mode_on cfg ''SLACK'' \<and> (\<exists>m. slackThread a = Some m \<and> live_thread (threadTs m) \<noteq> None))
     \<and> ((\<exists>p n. SmsCreate p (SessionEnded n) \<in> set post)
          \<longleftrightarrow> mode_on cfg ''SMS'' \<and> (\<exists>s. smsManager a = Some s \<and> \<not> sms_idle cfg s))"
proof -
  let ?a1 = "fst (analyzeBatch cfg w a)"
  let ?a2 = "fst (end_slack cfg w ?a1)"
  let ?S = "fst (snd (end_slack cfg w ?a1))"
  let ?M = "fst (snd (end_sms cfg w ?a2))"
  obtain t where t: "list_all is_log t"
    and out: "snd (flushBuffer cfg w a) = snd (analyzeBatch cfg w a)
        @ (issued ?S @ issued ?M @ settled ?S @ settled ?M @ t @ late ?S @ late ?M)"
    using flushBuffer_out [of cfg w a] by blast
  let ?post = "issued ?S @ issued ?M @ settled ?S @ settled ?M @ t @ late ?S @ late ?M"
  have set_post: "set ?post = set (whole ?S) \<union> set (whole ?M) \<union> set t"
    by (rule phases_set)
  have tl: "list_all (\<lambda>e. is_log e \<or> is_end e) t"
    using t by (auto simp: list_all_iff)
  have kinds: "list_all (\<lambda>e. is_log e \<or> is_end e) ?post"
    using end_slack_kinds(1) [of cfg w ?a1] end_sms_kinds(1) [of cfg w ?a2] tl
    by (simp only: phases_all simp_thms)
  have tlog: "\<And>ts n. SlackPostSummary ts n \<notin> set t" "\<And>p b. SmsCreate p b \<notin> set t"
    using t by (auto simp: list_all_iff)
  have "(\<exists>ts n. SlackPostSummary ts n \<in> set ?post) \<longleftrightarrow> (\<exists>ts n. SlackPostSummary ts n \<in> set (whole ?S))"
    unfolding set_post
    using not_summary_in(3) [OF end_sms_kinds(2), of _ _ cfg w ?a2] tlog
    by blast
  then have slack: "(\<exists>ts n. SlackPostSummary ts n \<in> set ?post)
        \<longleftrightarrow> mode_on cfg ''SLACK'' \<and> (\<exists>m. slackThread a = Some m \<and> live_thread (threadTs m) \<noteq> None)"
    by (simp add: end_slack_summary analyzeBatch_handle) (auto simp: handle_def)
  have "(\<exists>p n. SmsCreate p (SessionEnded n) \<in> set ?post)
        \<longleftrightarrow> (\<exists>p n. SmsCreate p (SessionEnded n) \<in> set (whole ?M))"
    unfolding set_post
    using not_summary_in(4) [OF end_slack_kinds(2), of _ _ cfg w ?a1] tlog
    by blast
  then have sms: "(\<exists>p n. SmsCreate p (SessionEnded n) \<in> set ?post)
        \<longleftrightarrow> mode_on cfg ''SMS'' \<and> (\<exists>s. smsManager a = Some s \<and> \<not> sms_idle cfg s)"
    by (simp add: end_sms_summary end_slack_sms_line analyzeBatch_sms_line)
       (auto simp: sms_line_def sms_idle_def)
  from out kinds slack sms show ?thesis by blast
qed

lemma chat_batches_ends: "list_all (\<lambda>e. is_log e \<or> is_end e) es \<Longrightarrow> chat_batches es = []"
  by (induction es rule: chat_batches.induct) auto

lemma ex_live_value:
  "\<exists>s. ex_live ''bot-1'' = Some s
     \<and> transcriptBuffer (aiAgent s) = [''[SALES REP - Ann]: hello'']
     \<and> slackThread (aiAgent s) = Some \<lparr> threadTs = Some ''1700.01'', slack_nudgeCount = 0 \<rparr>
     \<and> smsManager (aiAgent s) = Some ex_sms"
  by (simp add: ex_live_def ex_sessions_def ex_request_def start_bot_def webhook_def webhook_task_def
      find_session_def on_transcript_def processTranscript_def processTranscript_begin_def
      analyzeBatch_begin_def ex_cfg_def ex_world_def new_AIAgent_def
      setInterviewer_begin_def initializeSlackThread_begin_def initializeSlackThread_settle_def
      startSessionThread_settle_def startSessionThread_post_def startSession_def send_all_def
      mode_on_def slackClient_def twilioClient_def transcript_line_def role_of_def ex_sms_def
      Let_def or_default_def)

lemma ex_live_other: "ex_live ''bot-2'' = None"
  by (simp add: ex_live_def ex_sessions_def ex_request_def start_bot_def webhook_def webhook_task_def
      find_session_def on_transcript_def case_prod_beta Let_def)

subsection \<open>The claims\<close>

text \<open>
  C1. A coaching directive is the reply \<open>ChatCall ''send_message'' (Some g)\<close>. What
  the agent does with it does not depend on the participant id and name it carries;
  every direct message it issues has the stored host id as its \<^verbatim>\<open>to\<close> field (and is
  issued only when that id is truthy); and when no host id is stored the directive is
  dropped: the agent is unchanged and the only effect is the console line ``no sales
  rep identified''. The Slack reply and the SMS copies carry no addressee: they go to
  the session's thread and phone list.
\<close>

theorem directive_goes_to_host:
  assumes "chat_reply w = ChatCall ''send_message'' (Some g)"
  shows "analyzeBatch_resume cfg
           (w\<lparr>chat_reply :=
                ChatCall ''send_message'' (Some (g\<lparr>participant_id := p, participant_name := n\<rparr>))\<rparr>) a
           = analyzeBatch_resume cfg w a
       \<and> (\<forall>b t m. ZoomChatMessage b t m \<in> set (snd (analyzeBatch_resume cfg w a)) \<longrightarrow>
             b = botId a \<and> t = Some (String_js (interviewerId a)) \<and> m = message g
             \<and> truthy (interviewerId a))
       \<and> (\<not> truthy (interviewerId a) \<longrightarrow> analyzeBatch_resume cfg w a = (a, [Log NoSalesRep]))"
proof (cases "truthy (interviewerId a)")
  case True
  with assms have r: "analyzeBatch_resume cfg w a = send_to_platforms cfg w g a"
    by (simp add: analyzeBatch_resume_def)
  from True have r':
    "analyzeBatch_resume cfg
       (w\<lparr>chat_reply :=
            ChatCall ''send_message'' (Some (g\<lparr>participant_id := p, participant_name := n\<rparr>))\<rparr>) a
       = send_to_platforms cfg w g a"
    by (simp add: analyzeBatch_resume_def send_to_platforms_target)
  show ?thesis
    using True zoom_in_platforms [of _ _ _ cfg w g a] by (auto simp: r r')
next
  case False
  with assms show ?thesis by (simp add: analyzeBatch_resume_def)
qed

theorem directive_goes_to_host_witness:
  "chat_reply ex_world = ChatCall ''send_message'' (Some ex_args)
   \<and> participant_id ex_args = JStr ''p9''
   \<and> ZoomChatMessage ''bot-1'' (Some ''100'') ''Ask about budget''
       \<in> set (snd (analyzeBatch_resume ex_cfg ex_world ex_host))
   \<and> String_js (interviewerId ex_host) = ''100''
   \<and> \<not> truthy (interviewerId ex_agent)
   \<and> analyzeBatch_resume ex_cfg ex_world ex_agent = (ex_agent, [Log NoSalesRep])"
proof -
  have h: "chat_reply ex_world = ChatCall ''send_message'' (Some ex_args)"
    by (simp add: ex_world_def)
  have t: "truthy (interviewerId ex_host)"
    by (simp add: ex_host_value)
  have f: "\<not> truthy (interviewerId ex_agent)"
    by (simp add: ex_agent_def new_AIAgent_def)
  have z: "ZoomChatMessage ''bot-1'' (Some ''100'') ''Ask about budget''
             \<in> set (snd (analyzeBatch_resume ex_cfg ex_world ex_host))"
    using h t by (simp add: analyzeBatch_resume_def ex_host_dm)
  from directive_goes_to_host [OF h, of ex_cfg _ _ ex_host] z
  have "Some ''100'' = Some (String_js (interviewerId ex_host))" by blast
  moreover from directive_goes_to_host [OF h, of ex_cfg _ _ ex_agent] f
  have "analyzeBatch_resume ex_cfg ex_world ex_agent = (ex_agent, [Log NoSalesRep])" by blast
  ultimately show ?thesis using h z f by (simp add: ex_args_def)
qed

text \<open>
  C2, as the claim states it, fails. Handlers overlap, and an analysis that fails
  empties the buffer when it settles. In the run \<open>ex_lost\<close> twelve events are
  ingested: the sixth fills the first batch, the seventh and eighth are buffered while
  the chat call of that batch is in flight, the call fails and the buffer is emptied,
  and four more events arrive. Six events have then been ingested since the last
  emission, and no analyze call was issued for them: one batch has been submitted and
  four lines are buffered. The seventh and eighth line are in no batch and not in the
  buffer, so the flush at the end of the session, which submits the four buffered
  lines, does not submit them either. The same twelve events ingested one handler
  after the other give two batches.
\<close>

theorem lost_lines_counterexample:
  "length ex_twelve = 12
   \<and> map_option (\<lambda>l. (chat_batches (emitted l), transcriptBuffer (agent l),
                       chat_batches (snd (flushBuffer ex_cfg ex_world (agent l)))))
       (run_ticks ex_cfg ex_lost (start_loop ex_agent))
     = Some ([''[SALES REP - Ann]: hello'' @ [CHR 0x0A] @ ''[PROSPECT - Bo]: a'' @ [CHR 0x0A]
        @ ''[PROSPECT - Bo]: b'' @ [CHR 0x0A] @ ''[PROSPECT - Bo]: c'' @ [CHR 0x0A]
        @ ''[PROSPECT - Bo]: d'' @ [CHR 0x0A] @ ''[PROSPECT - Bo]: e''],
             [''[PROSPECT - Bo]: h'', ''[PROSPECT - Bo]: i'', ''[PROSPECT - Bo]: j'', ''[PROSPECT - Bo]: k''],
             [''[PROSPECT - Bo]: h'' @ [CHR 0x0A] @ ''[PROSPECT - Bo]: i'' @ [CHR 0x0A]
        @ ''[PROSPECT - Bo]: j'' @ [CHR 0x0A] @ ''[PROSPECT - Bo]: k''])
   \<and> chat_batches (snd (ingest_all ex_cfg ex_twelve ex_agent))
     = [''[SALES REP - Ann]: hello'' @ [CHR 0x0A] @ ''[PROSPECT - Bo]: a'' @ [CHR 0x0A]
        @ ''[PROSPECT - Bo]: b'' @ [CHR 0x0A] @ ''[PROSPECT - Bo]: c'' @ [CHR 0x0A]
        @ ''[PROSPECT - Bo]: d'' @ [CHR 0x0A] @ ''[PROSPECT - Bo]: e'',
        ''[PROSPECT - Bo]: f'' @ [CHR 0x0A] @ ''[PROSPECT - Bo]: g'' @ [CHR 0x0A]
        @ ''[PROSPECT - Bo]: h'' @ [CHR 0x0A] @ ''[PROSPECT - Bo]: i'' @ [CHR 0x0A]
        @ ''[PROSPECT - Bo]: j'' @ [CHR 0x0A] @ ''[PROSPECT - Bo]: k'']"
  by code_simp

text \<open>
  C2, amended. In every run of a fresh session, whatever the order in which
  events arrive and calls settle, the buffer and the batches submitted to the chat
  model are those of \<open>batcher\<close>: an analyze call is issued exactly when the line of
  an arriving event makes six buffered lines; its batch is these six lines in
  ingestion order, and the buffer is empty right after; an analysis that fails empties
  the buffer when it settles. Ingestion never submits fewer than six lines and never
  leaves six in the buffer; what is buffered at the stop is submitted by
  \<^verbatim>\<open>flushBuffer\<close>, as one batch. As long as no analysis fails, the batches are
  exactly the windows of six consecutive events, in any order of arrivals and
  settlements, and the buffer holds the rest after the last full window. The same
  holds, failed analyses included, when every handler runs to its end before the
  next event arrives.
\<close>

theorem batches_in_every_schedule:
  assumes "run_ticks cfg ts (start_loop (new_AIAgent cfg bid url phones)) = Some l"
  shows "transcriptBuffer (agent l) = fst (fold batcher ts ([], []))
       \<and> chat_batches (emitted l) = map (join [CHR 0x0A]) (snd (fold batcher ts ([], [])))
       \<and> list_all (\<lambda>b. length b = 6) (snd (fold batcher ts ([], [])))
       \<and> length (transcriptBuffer (agent l)) < 6
       \<and> (list_all (\<lambda>t. \<not> failed_analysis t) ts \<longrightarrow>
            chat_batches (emitted l) = map (join [CHR 0x0A]) (windows 6 (concat (map line_added ts)))
            \<and> transcriptBuffer (agent l)
                = drop (6 * (length (concat (map line_added ts)) div 6)) (concat (map line_added ts)))
       \<and> chat_batches (snd (flushBuffer cfg w (agent l)))
           = (if transcriptBuffer (agent l) = [] then [] else [join [CHR 0x0A] (transcriptBuffer (agent l))])
       \<and> chat_batches (snd (ingest_all cfg evs (new_AIAgent cfg bid url phones)))
           = map (join [CHR 0x0A]) (windows 6 (map line_of evs))
       \<and> transcriptBuffer (fst (ingest_all cfg evs (new_AIAgent cfg bid url phones)))
           = drop (6 * (length evs div 6)) (map line_of evs)"
proof -
  let ?a = "new_AIAgent cfg bid url phones"
  have a: "batchSize ?a = 6" "transcriptBuffer ?a = []"
    by (simp_all add: new_AIAgent_def)
  have s: "batchSize (agent (start_loop ?a)) = 6" "length (transcriptBuffer (agent (start_loop ?a))) < 6"
    "chat_batches (emitted (start_loop ?a)) = map (join [CHR 0x0A]) []"
    "transcriptBuffer (agent (start_loop ?a)) = []"
    by (simp_all add: start_loop_def new_AIAgent_def)
  from run_batcher [OF assms s(1) s(2) s(3)]
  have run: "transcriptBuffer (agent l) = fst (fold batcher ts ([], []))
       \<and> chat_batches (emitted l) = map (join [CHR 0x0A]) (snd (fold batcher ts ([], [])))
       \<and> list_all (\<lambda>b. length b = 6) (snd (fold batcher ts ([], [])))
       \<and> length (transcriptBuffer (agent l)) < 6"
    by (auto simp: s(4))
  have quiet: "chat_batches (emitted l) = map (join [CHR 0x0A]) (windows 6 (concat (map line_added ts)))
         \<and> transcriptBuffer (agent l)
             = drop (6 * (length (concat (map line_added ts)) div 6)) (concat (map line_added ts))"
    if "list_all (\<lambda>t. \<not> failed_analysis t) ts"
    using run batcher_windows [OF that, of "[]" "[]"] by simp
  obtain post where "snd (flushBuffer cfg w (agent l)) = snd (analyzeBatch cfg w (agent l)) @ post"
    and "list_all (\<lambda>e. is_log e \<or> is_end e) post"
    using flushBuffer_facts [of cfg w "agent l"] by blast
  then have flush: "chat_batches (snd (flushBuffer cfg w (agent l)))
           = (if transcriptBuffer (agent l) = [] then [] else [join [CHR 0x0A] (transcriptBuffer (agent l))])"
    using chat_batches_ends [of post] by (simp add: analyzeBatch_chat)
  from ingest_all_batches [of ?a cfg evs]
  have alone: "chat_batches (snd (ingest_all cfg evs ?a)) = map (join [CHR 0x0A]) (windows 6 (map line_of evs))
       \<and> transcriptBuffer (fst (ingest_all cfg evs ?a)) = drop (6 * (length evs div 6)) (map line_of evs)"
    by (simp add: a)
  from run quiet flush alone show ?thesis by blast
qed

theorem batches_in_every_schedule_witness:
  "(\<exists>l. run_ticks ex_cfg ex_lost (start_loop (new_AIAgent ex_cfg ''bot-1'' ''https://zoom.us/j/1''
            [''+15550001'', ''+15550002''])) = Some l
      \<and> transcriptBuffer (agent l) = [''[PROSPECT - Bo]: h'', ''[PROSPECT - Bo]: i'', ''[PROSPECT - Bo]: j'', ''[PROSPECT - Bo]: k'']
      \<and> chat_batches (emitted l) = [''[SALES REP - Ann]: hello'' @ [CHR 0x0A] @ ''[PROSPECT - Bo]: a'' @ [CHR 0x0A]
        @ ''[PROSPECT - Bo]: b'' @ [CHR 0x0A] @ ''[PROSPECT - Bo]: c'' @ [CHR 0x0A]
        @ ''[PROSPECT - Bo]: d'' @ [CHR 0x0A] @ ''[PROSPECT - Bo]: e''])
   \<and> list_all (\<lambda>t. \<not> failed_analysis t) (map arrive ex_twelve)
   \<and> (\<exists>l. run_ticks ex_cfg (map arrive ex_twelve) (start_loop (new_AIAgent ex_cfg ''bot-1''
            ''https://zoom.us/j/1'' [''+15550001'', ''+15550002''])) = Some l
      \<and> transcriptBuffer (agent l) = []
      \<and> chat_batches (emitted l)
          = [''[SALES REP - Ann]: hello'' @ [CHR 0x0A] @ ''[PROSPECT - Bo]: a'' @ [CHR 0x0A]
        @ ''[PROSPECT - Bo]: b'' @ [CHR 0x0A] @ ''[PROSPECT - Bo]: c'' @ [CHR 0x0A]
        @ ''[PROSPECT - Bo]: d'' @ [CHR 0x0A] @ ''[PROSPECT - Bo]: e'',
             ''[PROSPECT - Bo]: f'' @ [CHR 0x0A] @ ''[PROSPECT - Bo]: g'' @ [CHR 0x0A]
        @ ''[PROSPECT - Bo]: h'' @ [CHR 0x0A] @ ''[PROSPECT - Bo]: i'' @ [CHR 0x0A]
        @ ''[PROSPECT - Bo]: j'' @ [CHR 0x0A] @ ''[PROSPECT - Bo]: k''])"
proof -
  have "run_ticks ex_cfg ex_lost (start_loop ex_agent) \<noteq> None"
    by code_simp
  then obtain l where l: "run_ticks ex_cfg ex_lost (start_loop (new_AIAgent ex_cfg ''bot-1''
      ''https://zoom.us/j/1'' [''+15550001'', ''+15550002''])) = Some l"
    by (auto simp: ex_agent_def)
  have f: "fold batcher ex_lost ([], [])
      = ([''[PROSPECT - Bo]: h'', ''[PROSPECT - Bo]: i'', ''[PROSPECT - Bo]: j'', ''[PROSPECT - Bo]: k''],
         [[''[SALES REP - Ann]: hello'', ''[PROSPECT - Bo]: a'', ''[PROSPECT - Bo]: b'',
          ''[PROSPECT - Bo]: c'', ''[PROSPECT - Bo]: d'', ''[PROSPECT - Bo]: e'']])"
    by code_simp
  have j: "join [CHR 0x0A] [''[SALES REP - Ann]: hello'', ''[PROSPECT - Bo]: a'', ''[PROSPECT - Bo]: b'',
          ''[PROSPECT - Bo]: c'', ''[PROSPECT - Bo]: d'', ''[PROSPECT - Bo]: e'']
      = ''[SALES REP - Ann]: hello'' @ [CHR 0x0A] @ ''[PROSPECT - Bo]: a'' @ [CHR 0x0A]
        @ ''[PROSPECT - Bo]: b'' @ [CHR 0x0A] @ ''[PROSPECT - Bo]: c'' @ [CHR 0x0A]
        @ ''[PROSPECT - Bo]: d'' @ [CHR 0x0A] @ ''[PROSPECT - Bo]: e''"
    by code_simp
  from batches_in_every_schedule [OF l, of ex_world "[]"]
  have "transcriptBuffer (agent l) = fst (fold batcher ex_lost ([], []))"
    and "chat_batches (emitted l) = map (join [CHR 0x0A]) (snd (fold batcher ex_lost ([], [])))"
    by blast+
  then have lost: "transcriptBuffer (agent l) = [''[PROSPECT - Bo]: h'', ''[PROSPECT - Bo]: i'', ''[PROSPECT - Bo]: j'', ''[PROSPECT - Bo]: k'']"
    "chat_batches (emitted l) = [''[SALES REP - Ann]: hello'' @ [CHR 0x0A] @ ''[PROSPECT - Bo]: a'' @ [CHR 0x0A]
        @ ''[PROSPECT - Bo]: b'' @ [CHR 0x0A] @ ''[PROSPECT - Bo]: c'' @ [CHR 0x0A]
        @ ''[PROSPECT - Bo]: d'' @ [CHR 0x0A] @ ''[PROSPECT - Bo]: e'']"
    by (simp_all only: f fst_conv snd_conv list.map j)
  have "run_ticks ex_cfg (map arrive ex_twelve) (start_loop ex_agent) \<noteq> None"
    by code_simp
  then obtain k where k: "run_ticks ex_cfg (map arrive ex_twelve) (start_loop (new_AIAgent ex_cfg ''bot-1''
      ''https://zoom.us/j/1'' [''+15550001'', ''+15550002''])) = Some k"
    by (auto simp: ex_agent_def)
  have q: "list_all (\<lambda>t. \<not> failed_analysis t) (map arrive ex_twelve)"
    by code_simp
  have wd: "map (join [CHR 0x0A]) (windows 6 (concat (map line_added (map arrive ex_twelve))))
      = [''[SALES REP - Ann]: hello'' @ [CHR 0x0A] @ ''[PROSPECT - Bo]: a'' @ [CHR 0x0A]
        @ ''[PROSPECT - Bo]: b'' @ [CHR 0x0A] @ ''[PROSPECT - Bo]: c'' @ [CHR 0x0A]
        @ ''[PROSPECT - Bo]: d'' @ [CHR 0x0A] @ ''[PROSPECT - Bo]: e'',
         ''[PROSPECT - Bo]: f'' @ [CHR 0x0A] @ ''[PROSPECT - Bo]: g'' @ [CHR 0x0A]
        @ ''[PROSPECT - Bo]: h'' @ [CHR 0x0A] @ ''[PROSPECT - Bo]: i'' @ [CHR 0x0A]
        @ ''[PROSPECT - Bo]: j'' @ [CHR 0x0A] @ ''[PROSPECT - Bo]: k'']"
    by code_simp
  have dr: "drop (6 * (length (concat (map line_added (map arrive ex_twelve))) div 6))
        (concat (map line_added (map arrive ex_twelve))) = []"
    by code_simp
  from batches_in_every_schedule [OF k, of ex_world "[]"] q
  have "chat_batches (emitted k) = map (join [CHR 0x0A]) (windows 6 (concat (map line_added (map arrive ex_twelve))))"
    and "transcriptBuffer (agent k)
           = drop (6 * (length (concat (map line_added (map arrive ex_twelve))) div 6))
               (concat (map line_added (map arrive ex_twelve)))"
    by blast+
  then have quiet: "chat_batches (emitted k)
      = [''[SALES REP - Ann]: hello'' @ [CHR 0x0A] @ ''[PROSPECT - Bo]: a'' @ [CHR 0x0A]
        @ ''[PROSPECT - Bo]: b'' @ [CHR 0x0A] @ ''[PROSPECT - Bo]: c'' @ [CHR 0x0A]
        @ ''[PROSPECT - Bo]: d'' @ [CHR 0x0A] @ ''[PROSPECT - Bo]: e'',
         ''[PROSPECT - Bo]: f'' @ [CHR 0x0A] @ ''[PROSPECT - Bo]: g'' @ [CHR 0x0A]
        @ ''[PROSPECT - Bo]: h'' @ [CHR 0x0A] @ ''[PROSPECT - Bo]: i'' @ [CHR 0x0A]
        @ ''[PROSPECT - Bo]: j'' @ [CHR 0x0A] @ ''[PROSPECT - Bo]: k'']"
    "transcriptBuffer (agent k) = []"
    by (simp_all only: wd dr)
  from l lost q k quiet show ?thesis by blast
qed

text \<open>
  C3, as the claim states it, fails: when twelve transcript events arrive in a
  fresh session before any chat call settles, two analyze calls are in flight at once.
\<close>

theorem two_analyses_in_flight_counterexample:
  "map_option analyzing (run_ticks ex_cfg (map arrive ex_twelve) (start_loop ex_agent)) = Some 2"
  by code_simp

text \<open>
  C3, amended. A handler waits only for the analyze call it started itself; nothing
  makes a later handler wait. While no chat call settles, the events that arrive start
  one analyze call each time the buffer reaches the batch size, so the number of calls
  in flight grows by the number of windows the arrivals fill. Analyze calls are one at
  a time when each handler runs alone: its arrival, then the settling of what it
  started, leave the number of calls in flight as it was and the agent as
  \<^verbatim>\<open>processTranscript\<close> run to its end leaves it.
\<close>

theorem analyses_overlap:
  "(0 < batchSize (agent l) \<and> length (transcriptBuffer (agent l)) < batchSize (agent l) \<longrightarrow>
      (\<exists>l'. run_ticks cfg (map arrive evs) l = Some l'
           \<and> analyzing l' = analyzing l
               + (length (transcriptBuffer (agent l)) + length evs) div batchSize (agent l)))
   \<and> run_ticks cfg (handler_ticks cfg (w, sp, pid, h, tx) (agent l)) l =
       Some \<lparr> agent = fst (processTranscript cfg w sp pid h tx (agent l)),
              analyzing = analyzing l, thread_posts = thread_posts l,
              emitted = emitted l @ snd (processTranscript cfg w sp pid h tx (agent l)) \<rparr>"
  using burst_count [of l cfg evs] handler_alone [of cfg w sp pid h tx l] by blast

theorem analyses_overlap_witness:
  "0 < batchSize (agent (start_loop ex_agent))
   \<and> length (transcriptBuffer (agent (start_loop ex_agent))) < batchSize (agent (start_loop ex_agent))
   \<and> (\<exists>l'. run_ticks ex_cfg (map arrive ex_twelve) (start_loop ex_agent) = Some l' \<and> analyzing l' = 2)"
proof -
  have a: "batchSize (agent (start_loop ex_agent)) = 6" "transcriptBuffer (agent (start_loop ex_agent)) = []"
    "analyzing (start_loop ex_agent) = 0"
    by (simp_all add: start_loop_def ex_agent_def new_AIAgent_def)
  have n: "length ex_twelve = 12" by (simp add: ex_twelve_def ex_seven_def)
  have h: "0 < batchSize (agent (start_loop ex_agent))
      \<and> length (transcriptBuffer (agent (start_loop ex_agent))) < batchSize (agent (start_loop ex_agent))"
    by (simp add: a)
  from analyses_overlap [THEN conjunct1, rule_format, OF h, of ex_cfg ex_twelve]
  have "\<exists>l'. run_ticks ex_cfg (map arrive ex_twelve) (start_loop ex_agent) = Some l' \<and> analyzing l' = 2"
    by (simp add: a n numeral_2_eq_2)
  with h show ?thesis by blast
qed

text \<open>
  C4. When the analyze call fails (the chat call rejects, or its reply is a
  \<^verbatim>\<open>send_message\<close> call without arguments), \<^verbatim>\<open>analyzeBatch\<close> on a non-empty
  buffer has submitted the batch once and has done nothing else but log the error: no
  call on any channel, the batch counter one higher, the buffer empty, every other
  field as before. A further \<^verbatim>\<open>analyzeBatch\<close> finds nothing to submit, so the
  batch is not tried again.
\<close>

theorem failed_analysis_forfeits_batch:
  assumes "chat_reply w = ChatFails \<or> chat_reply w = ChatCall ''send_message'' None"
      and "transcriptBuffer a \<noteq> []"
  shows "analyzeBatch cfg w a =
           (a\<lparr>batchCount := batchCount a + 1, transcriptBuffer := []\<rparr>,
            [ChatSendMessage (join [CHR 0x0A] (transcriptBuffer a)), Log BatchError])
         \<and> analyzeBatch cfg w' (fst (analyzeBatch cfg w a)) = (fst (analyzeBatch cfg w a), [])"
  using assms
  by (auto simp: analyzeBatch_def analyzeBatch_begin_def analyzeBatch_resume_def)

theorem failed_analysis_forfeits_batch_witness:
  "chat_reply (ex_world\<lparr>chat_reply := ChatFails\<rparr>) = ChatFails
   \<and> transcriptBuffer (ex_host\<lparr>transcriptBuffer := [''[PROSPECT - Bo]: too expensive'']\<rparr>) \<noteq> []
   \<and> analyzeBatch ex_cfg (ex_world\<lparr>chat_reply := ChatFails\<rparr>)
        (ex_host\<lparr>transcriptBuffer := [''[PROSPECT - Bo]: too expensive'']\<rparr>)
      = (ex_host\<lparr>batchCount := 1, transcriptBuffer := []\<rparr>,
         [ChatSendMessage ''[PROSPECT - Bo]: too expensive'', Log BatchError])"
  using failed_analysis_forfeits_batch
    [of "ex_world\<lparr>chat_reply := ChatFails\<rparr>"
        "ex_host\<lparr>transcriptBuffer := [''[PROSPECT - Bo]: too expensive'']\<rparr>" ex_cfg]
  by (simp add: ex_host_value)

text \<open>
  C5. A directive \<open>g\<close> arrives while a host is resolved. Whatever the outcome of
  each channel's send, the calls that leave the process are the deliveries of the
  directive: on every channel that is enabled and open its call is made, also when
  another channel fails. A channel whose own send succeeds logs its delivery: the
  Slack reply with its number, the direct message, each phone number whose text was
  accepted. Take a second world that delivers the same directive and settles the
  channels differently: the agent ends in the same state, and what happens on a
  channel is the same as soon as that channel's own send settles alike. The fan-out
  reports the number of channels it sent to once every channel's adapter call has
  settled: all calls have been made by then, every channel has printed the line that
  ends its send, and what follows are only lines of SMS sends that were still pending
  when one of them failed. The fan-out never takes the error path of the analysis: no
  batch error is logged and the buffer is untouched.
\<close>

theorem one_channel_failing:
  assumes "chat_reply w = ChatCall ''send_message'' (Some g)"
      and "chat_reply w' = chat_reply w"
      and "truthy (interviewerId a)"
  shows "calls (snd (analyzeBatch_resume cfg w a)) = deliveries cfg g a
       \<and> (\<forall>m ts. mode_on cfg ''SLACK'' \<and> slack_reply_ok w
              \<and> slackThread a = Some m \<and> live_thread (threadTs m) = Some ts \<longrightarrow>
             Log (SlackNudgeSent (slack_nudgeCount m + 1)) \<in> set (snd (analyzeBatch_resume cfg w a)))
       \<and> (mode_on cfg ''ZOOM_DM'' \<and> zoom_fetch w = FetchOk \<longrightarrow>
             Log ZoomDelivered \<in> set (snd (analyzeBatch_resume cfg w a)))
       \<and> (\<forall>s i. mode_on cfg ''SMS'' \<and> smsManager a = Some s \<and> \<not> sms_idle cfg s
              \<and> i < length (sms_phoneNumbers s) \<and> sms_nudge_ok w i \<longrightarrow>
             Log (SmsSentTo (sms_phoneNumbers s ! i)) \<in> set (snd (analyzeBatch_resume cfg w a)))
       \<and> fst (analyzeBatch_resume cfg w a) = fst (analyzeBatch_resume cfg w' a)
       \<and> (\<forall>c. same_outcome c w w' \<longrightarrow>
             on_channel c (snd (analyzeBatch_resume cfg w a)) = on_channel c (snd (analyzeBatch_resume cfg w' a)))
       \<and> (\<exists>pre post. snd (analyzeBatch_resume cfg w a)
                         = pre @ Log (CoachingSent (length (platforms cfg a))) # post
             \<and> calls pre = deliveries cfg g a
             \<and> (\<forall>c \<in> set (platforms cfg a). \<exists>e \<in> set pre. outcome_of e = Some c)
             \<and> list_all (\<lambda>e. is_log e \<and> channel_of e = Some SMS) post)
       \<and> Log BatchError \<notin> set (snd (analyzeBatch_resume cfg w a))
       \<and> transcriptBuffer (fst (analyzeBatch_resume cfg w a)) = transcriptBuffer a"
proof -
  from assms have r: "analyzeBatch_resume cfg w a = send_to_platforms cfg w g a"
    and r': "analyzeBatch_resume cfg w' a = send_to_platforms cfg w' g a"
    by (simp_all add: analyzeBatch_resume_def)
  let ?out = "snd (send_to_platforms cfg w g a)"
  have c: "calls ?out = deliveries cfg g a"
    by (rule send_to_platforms_deliveries(2) [OF assms(3)])
  have k1: "\<forall>m ts. mode_on cfg ''SLACK'' \<and> slack_reply_ok w
              \<and> slackThread a = Some m \<and> live_thread (threadTs m) = Some ts \<longrightarrow>
             Log (SlackNudgeSent (slack_nudgeCount m + 1)) \<in> set ?out"
    using slack_ack [of cfg w a _ _ g] by (auto simp: send_to_platforms_set)
  have k2: "mode_on cfg ''ZOOM_DM'' \<and> zoom_fetch w = FetchOk \<longrightarrow> Log ZoomDelivered \<in> set ?out"
    using zoom_ack [of cfg w g a] by (auto simp: send_to_platforms_set)
  have k3: "\<forall>s i. mode_on cfg ''SMS'' \<and> smsManager a = Some s \<and> \<not> sms_idle cfg s
              \<and> i < length (sms_phoneNumbers s) \<and> sms_nudge_ok w i \<longrightarrow>
             Log (SmsSentTo (sms_phoneNumbers s ! i)) \<in> set ?out"
    using sms_ack [of cfg a _ _ w g] by (auto simp: send_to_platforms_set)
  have st: "fst (send_to_platforms cfg w g a) = fst (send_to_platforms cfg w' g a)"
    by (rule send_to_platforms_state)
  have iso: "\<forall>c. same_outcome c w w' \<longrightarrow>
      on_channel c ?out = on_channel c (snd (send_to_platforms cfg w' g a))"
    using send_to_platforms_same [of _ w w' cfg g a] by blast
  have wait: "\<exists>pre post. ?out = pre @ Log (CoachingSent (length (platforms cfg a))) # post
             \<and> calls pre = deliveries cfg g a
             \<and> (\<forall>c \<in> set (platforms cfg a). \<exists>e \<in> set pre. outcome_of e = Some c)
             \<and> list_all (\<lambda>e. is_log e \<and> channel_of e = Some SMS) post"
    using send_to_platforms_out [of cfg w g a] send_to_platforms_deliveries(1) [OF assms(3), of cfg w g]
      platforms_outcomes [of _ cfg a w g] send_sms_late_kind [of cfg w g a]
    by blast
  have ne: "Log BatchError \<notin> set ?out"
    by (rule send_to_platforms_no_error)
  have b: "transcriptBuffer (fst (send_to_platforms cfg w g a)) = transcriptBuffer a"
    by (rule send_to_platforms_buffer)
  show ?thesis
    unfolding r r' using c k1 k2 k3 st iso wait ne b by blast
qed

theorem one_channel_failing_witness:
  "chat_reply (ex_world\<lparr>slack_reply_ok := False\<rparr>) = ChatCall ''send_message'' (Some ex_args)
   \<and> chat_reply ex_world = chat_reply (ex_world\<lparr>slack_reply_ok := False\<rparr>)
   \<and> truthy (interviewerId ex_host)
   \<and> calls (snd (analyzeBatch_resume ex_cfg (ex_world\<lparr>slack_reply_ok := False\<rparr>) ex_host))
       = [SlackPostReply ''1700.01'' 1 ''No BANT qualification yet'' ''Ask about budget'' 0 6,
          ZoomChatMessage ''bot-1'' (Some ''100'') ''Ask about budget'',
          SmsCreate ''+15550001'' (Nudge 1 ''No BANT qualification yet'' ''Ask about budget'' 0),
          SmsCreate ''+15550002'' (Nudge 1 ''No BANT qualification yet'' ''Ask about budget'' 0)]
   \<and> Log ZoomDelivered \<in> set (snd (analyzeBatch_resume ex_cfg (ex_world\<lparr>slack_reply_ok := False\<rparr>) ex_host))
   \<and> Log (SmsSentTo ''+15550002'')
       \<in> set (snd (analyzeBatch_resume ex_cfg (ex_world\<lparr>slack_reply_ok := False\<rparr>) ex_host))
   \<and> same_outcome SMS (ex_world\<lparr>slack_reply_ok := False\<rparr>) ex_world
   \<and> on_channel SMS (snd (analyzeBatch_resume ex_cfg (ex_world\<lparr>slack_reply_ok := False\<rparr>) ex_host))
       = on_channel SMS (snd (analyzeBatch_resume ex_cfg ex_world ex_host))"
proof -
  let ?w = "ex_world\<lparr>slack_reply_ok := False\<rparr>"
  have h1: "chat_reply ?w = ChatCall ''send_message'' (Some ex_args)"
    and h2: "chat_reply ex_world = chat_reply ?w"
    by (simp_all add: ex_world_def)
  have h3: "truthy (interviewerId ex_host)"
    by (simp add: ex_host_value)
  have h4: "same_outcome SMS ?w ex_world"
    by simp
  have d: "deliveries ex_cfg ex_args ex_host
       = [SlackPostReply ''1700.01'' 1 ''No BANT qualification yet'' ''Ask about budget'' 0 6,
          ZoomChatMessage ''bot-1'' (Some ''100'') ''Ask about budget'',
          SmsCreate ''+15550001'' (Nudge 1 ''No BANT qualification yet'' ''Ask about budget'' 0),
          SmsCreate ''+15550002'' (Nudge 1 ''No BANT qualification yet'' ''Ask about budget'' 0)]"
    by (simp add: deliveries_def ex_host_value ex_cfg_def ex_args_def mode_on_def sms_idle_def
        twilioClient_def dec_nat.simps digit_def)
  have z: "mode_on ex_cfg ''ZOOM_DM'' \<and> zoom_fetch ?w = FetchOk"
    by (simp add: ex_cfg_def mode_on_def ex_world_def)
  have s: "mode_on ex_cfg ''SMS'' \<and> smsManager ex_host = Some ex_sms \<and> \<not> sms_idle ex_cfg ex_sms
      \<and> 1 < length (sms_phoneNumbers ex_sms) \<and> sms_nudge_ok ?w 1"
    by (simp add: ex_cfg_def mode_on_def ex_world_def ex_host_value ex_sms_def sms_idle_def twilioClient_def)
  note isolated = one_channel_failing [OF h1 h2 h3, of ex_cfg]
  from isolated have c: "calls (snd (analyzeBatch_resume ex_cfg ?w ex_host)) = deliveries ex_cfg ex_args ex_host"
    by blast
  from isolated z have kz: "Log ZoomDelivered \<in> set (snd (analyzeBatch_resume ex_cfg ?w ex_host))"
    by blast
  from isolated s have "Log (SmsSentTo (sms_phoneNumbers ex_sms ! 1))
      \<in> set (snd (analyzeBatch_resume ex_cfg ?w ex_host))"
    by blast
  then have ks: "Log (SmsSentTo ''+15550002'') \<in> set (snd (analyzeBatch_resume ex_cfg ?w ex_host))"
    by (simp add: ex_sms_def)
  from isolated h4
  have e: "on_channel SMS (snd (analyzeBatch_resume ex_cfg ?w ex_host))
          = on_channel SMS (snd (analyzeBatch_resume ex_cfg ex_world ex_host))"
    by blast
  from h1 h2 h3 h4 c [unfolded d] kz ks e show ?thesis by blast
qed

text \<open>
  C6. \<^verbatim>\<open>POST /api/stop-bot\<close> for a bot without a session only deletes the bot.
  For a bot with a session it flushes the session's agent and then deletes the bot.
  The flush submits exactly one batch, the joined buffer, when the buffer is not
  empty, and none when it is empty. The calls of the stop are, in this order: the calls
  of that last analysis (the chat call and the sends it causes), the end-of-session
  calls, the \<^verbatim>\<open>DELETE\<close>. Its effects split in the same way: first a part that
  holds the calls of the analysis and no end-of-session call, then nothing but
  end-of-session calls and console lines. A Slack summary is posted exactly when Slack is on and the
  agent holds a live thread handle; the SMS session-ended text is sent exactly when
  SMS is on and the SMS manager is configured and active.
\<close>

theorem stop_flushes_then_ends:
  "(ss bid = None \<longrightarrow> snd (snd (stop_bot cfg w bid ss)) = [BotDelete bid])
   \<and> (\<forall>s. ss bid = Some s \<longrightarrow>
        chat_batches (snd (snd (stop_bot cfg w bid ss)))
          = (if transcriptBuffer (aiAgent s) = [] then []
             else [join [CHR 0x0A] (transcriptBuffer (aiAgent s))])
        \<and> calls (snd (snd (stop_bot cfg w bid ss)))
          = calls (snd (analyzeBatch cfg w (aiAgent s)))
            @ filter is_end (snd (snd (stop_bot cfg w bid ss))) @ [BotDelete bid]
        \<and> (\<exists>pre post. snd (snd (stop_bot cfg w bid ss)) = pre @ post @ [BotDelete bid]
              \<and> calls pre = calls (snd (analyzeBatch cfg w (aiAgent s)))
              \<and> list_all (\<lambda>e. \<not> is_end e) pre
              \<and> list_all (\<lambda>e. is_log e \<or> is_end e) post)
        \<and> ((\<exists>ts n. SlackPostSummary ts n \<in> set (snd (snd (stop_bot cfg w bid ss))))
             \<longleftrightarrow> mode_on cfg ''SLACK''
                 \<and> (\<exists>m. slackThread (aiAgent s) = Some m \<and> live_thread (threadTs m) \<noteq> None))
        \<and> ((\<exists>p n. SmsCreate p (SessionEnded n) \<in> set (snd (snd (stop_bot cfg w bid ss))))
             \<longleftrightarrow> mode_on cfg ''SMS''
                 \<and> (\<exists>m. smsManager (aiAgent s) = Some m \<and> \<not> sms_idle cfg m)))"
proof (cases "ss bid")
  case None
  then show ?thesis by (simp add: stop_bot_out)
next
  case (Some s)
  let ?A = "snd (analyzeBatch cfg w (aiAgent s))"
  obtain post where out: "snd (flushBuffer cfg w (aiAgent s)) = ?A @ post"
    and kinds: "list_all (\<lambda>e. is_log e \<or> is_end e) post"
    and slack: "(\<exists>ts n. SlackPostSummary ts n \<in> set post)
          \<longleftrightarrow> mode_on cfg ''SLACK''
              \<and> (\<exists>m. slackThread (aiAgent s) = Some m \<and> live_thread (threadTs m) \<noteq> None)"
    and sms: "(\<exists>p n. SmsCreate p (SessionEnded n) \<in> set post)
          \<longleftrightarrow> mode_on cfg ''SMS'' \<and> (\<exists>m. smsManager (aiAgent s) = Some m \<and> \<not> sms_idle cfg m)"
    using flushBuffer_facts [of cfg w "aiAgent s"] by blast
  have stop: "snd (snd (stop_bot cfg w bid ss)) = ?A @ post @ [BotDelete bid]"
    using Some by (simp add: stop_bot_out out)
  have ne: "list_all (\<lambda>e. \<not> is_end e) ?A"
    by (rule analyzeBatch_no_end)
  have chat: "chat_batches (?A @ post @ [BotDelete bid])
          = (if transcriptBuffer (aiAgent s) = [] then []
             else [join [CHR 0x0A] (transcriptBuffer (aiAgent s))])"
    using chat_batches_ends [OF kinds] by (simp add: analyzeBatch_chat)
  have order: "calls (?A @ post @ [BotDelete bid])
          = calls ?A @ filter is_end (?A @ post @ [BotDelete bid]) @ [BotDelete bid]"
    using calls_ends [OF kinds] filter_no_end [OF ne] by (simp add: calls_def)
  have s1: "(\<exists>ts n. SlackPostSummary ts n \<in> set (?A @ post @ [BotDelete bid]))
      \<longleftrightarrow> (\<exists>ts n. SlackPostSummary ts n \<in> set post)"
    using not_summary_in(1) [OF ne] by auto
  have s2: "(\<exists>p n. SmsCreate p (SessionEnded n) \<in> set (?A @ post @ [BotDelete bid]))
      \<longleftrightarrow> (\<exists>p n. SmsCreate p (SessionEnded n) \<in> set post)"
    using not_summary_in(2) [OF ne] by auto
  have split: "\<exists>pre post'. ?A @ post @ [BotDelete bid] = pre @ post' @ [BotDelete bid]
      \<and> calls pre = calls ?A
      \<and> list_all (\<lambda>e. \<not> is_end e) pre \<and> list_all (\<lambda>e. is_log e \<or> is_end e) post'"
    using ne kinds by blast
  show ?thesis
    unfolding stop using Some chat order split s1 s2 slack sms by simp
qed

theorem stop_flushes_then_ends_witness:
  "map_option (\<lambda>s. transcriptBuffer (aiAgent s)) (ex_live ''bot-1'') = Some [''[SALES REP - Ann]: hello'']
   \<and> chat_batches (snd (snd (stop_bot ex_cfg ex_world ''bot-1'' ex_live))) = [''[SALES REP - Ann]: hello'']
   \<and> (\<exists>ts n. SlackPostSummary ts n \<in> set (snd (snd (stop_bot ex_cfg ex_world ''bot-1'' ex_live))))
   \<and> (\<exists>p n. SmsCreate p (SessionEnded n) \<in> set (snd (snd (stop_bot ex_cfg ex_world ''bot-1'' ex_live))))
   \<and> map_option (\<lambda>s. transcriptBuffer (aiAgent s)) (ex_sessions ''bot-1'') = Some []
   \<and> chat_batches (snd (snd (stop_bot ex_cfg ex_world ''bot-1'' ex_sessions))) = []
   \<and> (\<nexists>ts n. SlackPostSummary ts n \<in> set (snd (snd (stop_bot ex_cfg ex_world ''bot-1'' ex_sessions))))
   \<and> ex_live ''bot-2'' = None
   \<and> snd (snd (stop_bot ex_cfg ex_world ''bot-2'' ex_live)) = [BotDelete ''bot-2'']"
proof -
  have on: "mode_on ex_cfg ''SLACK''" "mode_on ex_cfg ''SMS''"
    by (simp_all add: ex_cfg_def mode_on_def)
  obtain s where s: "ex_live ''bot-1'' = Some s"
    and sb: "transcriptBuffer (aiAgent s) = [''[SALES REP - Ann]: hello'']"
    and st: "slackThread (aiAgent s) = Some \<lparr> threadTs = Some ''1700.01'', slack_nudgeCount = 0 \<rparr>"
    and sm: "smsManager (aiAgent s) = Some ex_sms"
    using ex_live_value by blast
  obtain s0 where s0: "ex_sessions ''bot-1'' = Some s0" and a0: "aiAgent s0 = ex_agent"
    by (simp add: ex_sessions_def start_bot_def ex_agent_def)
  have none: "ex_live ''bot-2'' = None"
    using ex_live_other by simp
  have open_slack: "\<exists>m. slackThread (aiAgent s) = Some m \<and> live_thread (threadTs m) \<noteq> None"
    by (simp add: st)
  have open_sms: "\<exists>m. smsManager (aiAgent s) = Some m \<and> \<not> sms_idle ex_cfg m"
    by (simp add: sm sms_idle_def ex_sms_def twilioClient_def ex_cfg_def mode_on_def)
  have closed: "\<not> (\<exists>m. slackThread (aiAgent s0) = Some m \<and> live_thread (threadTs m) \<noteq> None)"
    by (simp add: a0 ex_agent_def new_AIAgent_def)
  have b0: "transcriptBuffer (aiAgent s0) = []"
    by (simp add: a0 ex_agent_def new_AIAgent_def)
  note live = stop_flushes_then_ends [of ex_live "''bot-1''" ex_cfg ex_world, THEN conjunct2, rule_format, OF s]
  note fresh = stop_flushes_then_ends [of ex_sessions "''bot-1''" ex_cfg ex_world, THEN conjunct2, rule_format, OF s0]
  note other = stop_flushes_then_ends [of ex_live "''bot-2''" ex_cfg ex_world, THEN conjunct1, rule_format, OF none]
  from live have l1: "chat_batches (snd (snd (stop_bot ex_cfg ex_world ''bot-1'' ex_live))) = [''[SALES REP - Ann]: hello'']"
    by (simp add: sb)
  from live on open_slack
  have l2: "\<exists>ts n. SlackPostSummary ts n \<in> set (snd (snd (stop_bot ex_cfg ex_world ''bot-1'' ex_live)))"
    by blast
  from live on open_sms
  have l3: "\<exists>p n. SmsCreate p (SessionEnded n) \<in> set (snd (snd (stop_bot ex_cfg ex_world ''bot-1'' ex_live)))"
    by blast
  from fresh have f1: "chat_batches (snd (snd (stop_bot ex_cfg ex_world ''bot-1'' ex_sessions))) = []"
    by (simp add: b0)
  from fresh closed
  have f2: "\<nexists>ts n. SlackPostSummary ts n \<in> set (snd (snd (stop_bot ex_cfg ex_world ''bot-1'' ex_sessions)))"
    by blast
  from l1 l2 l3 f1 f2 none other show ?thesis
    by (simp add: s sb s0 b0)
qed

text \<open>
  C7, as the claim states it, fails: a transcript event for a bot whose session was
  stopped (the stop request answered 200) is answered 200 \<^verbatim>\<open>OK\<close>, the answer the
  same event gets while the session is live; no error reaches the caller.
\<close>

theorem stopped_session_event_counterexample:
  "fst (stop_bot ex_cfg ex_world ''bot-1'' ex_sessions) = Ok200
   \<and> fst (webhook ex_cfg ex_world ex_request (fst (snd (stop_bot ex_cfg ex_world ''bot-1'' ex_sessions)))) = Ok200
   \<and> fst (webhook ex_cfg ex_world ex_request ex_sessions) = Ok200"
  by (simp add: webhook_response stop_bot_ok ex_request_def ex_world_def)

text \<open>
  C7, amended. After a stop request for a bot has been answered 200, the bot has no
  session, and an authorised webhook request for that bot, whatever its event, is
  answered 200 \<^verbatim>\<open>OK\<close>; it is dropped with the console line ``no session found'',
  issues no call, and leaves the session map as it is.
\<close>

theorem stopped_session_event_dropped:
  assumes "fst (stop_bot cfg w bid ss) = Ok200"
      and "secret_ok req" and "body_data req = Some (Some bid, d)" and "event_name req \<noteq> []"
  shows "webhook cfg w' req (fst (snd (stop_bot cfg w bid ss)))
           = (Ok200, fst (snd (stop_bot cfg w bid ss)), [Log NoSessionFound])
         \<and> fst (snd (stop_bot cfg w bid ss)) bid = None"
proof -
  from assms(1) have gone: "fst (snd (stop_bot cfg w bid ss)) bid = None"
    by (simp add: stop_bot_ok stop_bot_removes)
  then have "find_session (fst (snd (stop_bot cfg w bid ss))) (Some bid) = None"
    by (simp add: find_session_def)
  then have "webhook_task cfg w' (event_name req) (Some bid, d) (fst (snd (stop_bot cfg w bid ss)))
      = (fst (snd (stop_bot cfg w bid ss)), [Log NoSessionFound])"
    by (simp add: webhook_task_def)
  with assms gone show ?thesis
    by (simp add: webhook_def)
qed

theorem stopped_session_event_dropped_witness:
  "fst (stop_bot ex_cfg ex_world ''bot-1'' ex_sessions) = Ok200
   \<and> secret_ok ex_request
   \<and> body_data ex_request = Some (Some ''bot-1'', Some (Inner (Some (Participant ''Ann'' (JNum 100) True)) ''hello''))
   \<and> event_name ex_request \<noteq> []
   \<and> ex_sessions ''bot-1'' \<noteq> None
   \<and> webhook ex_cfg ex_world ex_request (fst (snd (stop_bot ex_cfg ex_world ''bot-1'' ex_sessions)))
       = (Ok200, fst (snd (stop_bot ex_cfg ex_world ''bot-1'' ex_sessions)), [Log NoSessionFound])"
proof -
  have h1: "fst (stop_bot ex_cfg ex_world ''bot-1'' ex_sessions) = Ok200"
    by (simp add: stop_bot_ok ex_world_def)
  have h2: "secret_ok ex_request"
    and h3: "body_data ex_request = Some (Some ''bot-1'', Some (Inner (Some (Participant ''Ann'' (JNum 100) True)) ''hello''))"
    and h4: "event_name ex_request \<noteq> []"
    by (simp_all add: ex_request_def)
  have live: "ex_sessions ''bot-1'' \<noteq> None"
    by (simp add: ex_sessions_def start_bot_def)
  from stopped_session_event_dropped [OF h1 h2 h3 h4, of ex_world] h1 h2 h3 h4 live show ?thesis by blast
qed

text \<open>
  C8, as the claim states it, fails. The host is resolved, Slack is on, and the
  Slack manager has no thread handle (the post that should have opened the thread was
  refused). A directive is then delivered by direct message and SMS; on Slack nothing
  is posted, neither a post that opens a thread nor a reply: the reply is skipped with
  a console line, and the manager still has no handle afterwards. Nor is the handle
  unique when the host's join event carries no participant id: in the run
  \<open>ex_two_joins\<close> it arrives twice before Slack has answered, two threads are
  opened, and the handle of the second replaces the handle of the first.
\<close>

theorem dispatch_without_thread_counterexample:
  "truthy (interviewerId ex_nothread) \<and> mode_on ex_cfg ''SLACK'' \<and> handle ex_nothread = Some None
   \<and> calls (snd (analyzeBatch_resume ex_cfg ex_world ex_nothread)) =
       [ZoomChatMessage ''bot-1'' (Some ''100'') ''Ask about budget'',
        SmsCreate ''+15550001'' (Nudge 1 ''No BANT qualification yet'' ''Ask about budget'' 0),
        SmsCreate ''+15550002'' (Nudge 1 ''No BANT qualification yet'' ''Ask about budget'' 0)]
   \<and> Log NoActiveSlackThread \<in> set (snd (analyzeBatch_resume ex_cfg ex_world ex_nothread))
   \<and> handle (fst (analyzeBatch_resume ex_cfg ex_world ex_nothread)) = Some None
   \<and> map_option (\<lambda>l. (parent_posts (emitted l), live_handle (agent l)))
       (run_ticks ex_cfg (take 3 ex_two_joins) (start_loop ex_agent)) = Some (2, Some ''1700.01'')
   \<and> map_option (\<lambda>l. (parent_posts (emitted l), live_handle (agent l)))
       (run_ticks ex_cfg ex_two_joins (start_loop ex_agent)) = Some (2, Some ''1700.02'')"
  by code_simp

text \<open>
  C8, amended. Handling an analysis result never opens a thread and never changes
  the thread handle; while the Slack manager has no live handle, a directive causes no
  call to Slack at all. A tick opens at most one thread, and only a host signal does,
  when no host id is stored and no handle is live. In a run of a fresh session whose
  host signals all carry a participant id, at most one thread is ever opened, and
  once a handle is live no later step changes it.
\<close>

theorem thread_opened_by_host_only:
  "handle (fst (analyzeBatch_resume cfg w a)) = handle a
   \<and> parent_posts (snd (analyzeBatch_resume cfg w a)) = 0
   \<and> (live_handle a = None \<longrightarrow> calls (on_channel Slack (snd (analyzeBatch_resume cfg w a))) = [])
   \<and> (\<forall>l1 l2. tick_step cfg t l1 = Some l2 \<longrightarrow>
         (\<exists>es. emitted l2 = emitted l1 @ es \<and> parent_posts es \<le> 1
            \<and> (parent_posts es \<noteq> 0 \<longrightarrow>
                 host_signal t \<and> \<not> truthy (interviewerId (agent l1)) \<and> live_handle (agent l1) = None)))
   \<and> (\<forall>l. run_ticks cfg ts (start_loop (new_AIAgent cfg bid url phones)) = Some l
            \<and> list_all names_host ts \<longrightarrow>
         parent_posts (emitted l) \<le> 1
         \<and> (\<forall>l'. names_host t \<and> live_handle (agent l) \<noteq> None \<and> tick_step cfg t l = Some l' \<longrightarrow>
               handle (agent l') = handle (agent l) \<and> parent_posts (emitted l') = parent_posts (emitted l)))"
proof -
  have d1: "handle (fst (analyzeBatch_resume cfg w a)) = handle a"
    by (rule resume_handle)
  have d2: "parent_posts (snd (analyzeBatch_resume cfg w a)) = 0"
    by (rule parent_posts_none [OF resume_no_parent])
  have d3: "live_handle a = None \<longrightarrow> calls (on_channel Slack (snd (analyzeBatch_resume cfg w a))) = []"
    using resume_slack_dead [of a cfg w] by blast
  have t1: "\<forall>l1 l2. tick_step cfg t l1 = Some l2 \<longrightarrow>
         (\<exists>es. emitted l2 = emitted l1 @ es \<and> parent_posts es \<le> 1
            \<and> (parent_posts es \<noteq> 0 \<longrightarrow>
                 host_signal t \<and> \<not> truthy (interviewerId (agent l1)) \<and> live_handle (agent l1) = None))"
    using tick_opens [of cfg t] by blast
  have r: "parent_posts (emitted l) \<le> 1
         \<and> (\<forall>l'. names_host t \<and> live_handle (agent l) \<noteq> None \<and> tick_step cfg t l = Some l' \<longrightarrow>
               handle (agent l') = handle (agent l) \<and> parent_posts (emitted l') = parent_posts (emitted l))"
    if run: "run_ticks cfg ts (start_loop (new_AIAgent cfg bid url phones)) = Some l"
      and named: "list_all names_host ts" for l
  proof -
    have inv: "one_thread l"
      by (rule run_one_thread [OF run named start_one_thread])
    then have once: "parent_posts (emitted l) \<le> 1"
      by (simp add: one_thread_def)
    have "handle (agent l') = handle (agent l) \<and> parent_posts (emitted l') = parent_posts (emitted l)"
      if n: "names_host t" and live: "live_handle (agent l) \<noteq> None" and s: "tick_step cfg t l = Some l'" for l'
    proof -
      have h: "handle (agent l') = handle (agent l)"
        by (rule tick_one_thread(2) [OF s n inv live])
      from tick_opens [OF s] live obtain es where "emitted l' = emitted l @ es" "parent_posts es = 0"
        by auto
      then have "parent_posts (emitted l') = parent_posts (emitted l)" by simp
      with h show ?thesis by blast
    qed
    with once show ?thesis by blast
  qed
  from d1 d2 d3 t1 r show ?thesis by blast
qed

theorem thread_opened_by_host_only_witness:
  "live_handle ex_nothread = None
   \<and> calls (on_channel Slack (snd (analyzeBatch_resume ex_cfg ex_world ex_nothread))) = []
   \<and> list_all names_host ex_late_thread
   \<and> (\<exists>l. run_ticks ex_cfg ex_late_thread (start_loop (new_AIAgent ex_cfg ''bot-1'' ''https://zoom.us/j/1''
              [''+15550001'', ''+15550002''])) = Some l
        \<and> parent_posts (emitted l) \<le> 1
        \<and> live_handle (agent l) = Some ''1700.01''
        \<and> (\<exists>l'. tick_step ex_cfg (HostJoins ex_world ''Ann'' (JNum 100)) l = Some l'
              \<and> handle (agent l') = Some (Some ''1700.01'')))"
proof -
  have d: "live_handle ex_nothread = None"
    by (simp add: live_handle_def handle_def ex_nothread_value)
  have n: "list_all names_host ex_late_thread"
    by code_simp
  have "map_option (\<lambda>l. handle (agent l)) (run_ticks ex_cfg ex_late_thread (start_loop ex_agent))
      = Some (Some (Some ''1700.01''))"
    by code_simp
  then obtain l where l: "run_ticks ex_cfg ex_late_thread (start_loop (new_AIAgent ex_cfg ''bot-1''
      ''https://zoom.us/j/1'' [''+15550001'', ''+15550002''])) = Some l"
    and h: "handle (agent l) = Some (Some ''1700.01'')"
    by (auto simp: ex_agent_def)
  from h have live: "live_handle (agent l) = Some ''1700.01''"
    by (simp add: live_handle_def)
  obtain l' where s: "tick_step ex_cfg (HostJoins ex_world ''Ann'' (JNum 100)) l = Some l'"
    by (simp add: tick_join)
  note opened = thread_opened_by_host_only [of ex_cfg ex_world ex_nothread "HostJoins ex_world ''Ann'' (JNum 100)"
      ex_late_thread "''bot-1''" "''https://zoom.us/j/1''" "[''+15550001'', ''+15550002'']"]
  from opened d have c: "calls (on_channel Slack (snd (analyzeBatch_resume ex_cfg ex_world ex_nothread))) = []"
    by blast
  from opened l n have once: "parent_posts (emitted l) \<le> 1"
    by blast
  have nh: "names_host (HostJoins ex_world ''Ann'' (JNum 100))" by simp
  from opened l n nh live s have "handle (agent l') = handle (agent l)"
    by (metis option.distinct(1))
  with h have "handle (agent l') = Some (Some ''1700.01'')" by simp
  with d c n l once live s show ?thesis by blast
qed

text \<open>
  C9, as the claim states it, fails: with two phone numbers of which the first
  fails and the second is delivered, the second number's delivery is logged, yet the
  fan-out's own report is the error line, the very line it gives when no number is
  delivered; it never reports the nudge as sent.
\<close>

theorem sms_partial_failure_counterexample:
  "Log (SmsSentTo ''+15550002'') \<in> set (snd (sendCoachingNudge ex_cfg (\<lambda>i. i \<noteq> 0) ex_coaching ex_sms))
   \<and> Log (SmsNudgeAllSent 1) \<notin> set (snd (sendCoachingNudge ex_cfg (\<lambda>i. i \<noteq> 0) ex_coaching ex_sms))
   \<and> Log SmsNudgeError \<in> set (snd (sendCoachingNudge ex_cfg (\<lambda>i. i \<noteq> 0) ex_coaching ex_sms))
   \<and> Log SmsNudgeError \<in> set (snd (sendCoachingNudge ex_cfg (\<lambda>i. False) ex_coaching ex_sms))
   \<and> filter (\<lambda>e. outcome_of e \<noteq> None) (snd (sendCoachingNudge ex_cfg (\<lambda>i. i \<noteq> 0) ex_coaching ex_sms))
       = filter (\<lambda>e. outcome_of e \<noteq> None) (snd (sendCoachingNudge ex_cfg (\<lambda>i. False) ex_coaching ex_sms))"
  by (simp add: sendCoachingNudge_def sendCoachingNudge_phases_def sms_idle_def send_all_def sendSMS_log_def
      ex_sms_def ex_cfg_def twilioClient_def mode_on_def closing_def whole_def)

text \<open>
  C9, amended. When the SMS manager is configured and active, one coaching nudge
  issues one \<^verbatim>\<open>messages.create\<close> per phone number, in list order, all with the same
  body, whatever the outcomes; the outcome of every number is logged on a line of its
  own; the failure of a send is not passed on (the manager counts the nudge and
  returns). The fan-out as a whole is reported all-or-nothing: ``sent to all numbers''
  exactly when every send succeeded, the error line exactly when some send failed.
\<close>

theorem sms_fan_out_per_address:
  assumes "\<not> sms_idle cfg s"
  shows "calls (snd (sendCoachingNudge cfg ok d s))
           = map (\<lambda>p. SmsCreate p (Nudge (sms_nudgeCount s + 1) (c_reason d) (c_message d) (c_batchNumber d)))
               (sms_phoneNumbers s)
       \<and> (\<forall>i < length (sms_phoneNumbers s).
             Log (if ok i then SmsSentTo (sms_phoneNumbers s ! i) else SmsFailedTo (sms_phoneNumbers s ! i))
               \<in> set (snd (sendCoachingNudge cfg ok d s)))
       \<and> (Log (SmsNudgeAllSent (sms_nudgeCount s + 1)) \<in> set (snd (sendCoachingNudge cfg ok d s))
            \<longleftrightarrow> (\<forall>i < length (sms_phoneNumbers s). ok i))
       \<and> (Log SmsNudgeError \<in> set (snd (sendCoachingNudge cfg ok d s))
            \<longleftrightarrow> \<not> (\<forall>i < length (sms_phoneNumbers s). ok i))
       \<and> fst (sendCoachingNudge cfg ok d s) = s\<lparr>sms_nudgeCount := sms_nudgeCount s + 1\<rparr>"
proof -
  have st: "fst (sendCoachingNudge cfg ok d s) = s\<lparr>sms_nudgeCount := sms_nudgeCount s + 1\<rparr>"
    using assms by (simp add: sendCoachingNudge_def sendCoachingNudge_phases_def Let_def case_prod_beta)
  have c: "calls (snd (sendCoachingNudge cfg ok d s))
      = map (\<lambda>p. SmsCreate p (Nudge (sms_nudgeCount s + 1) (c_reason d) (c_message d) (c_batchNumber d)))
          (sms_phoneNumbers s)"
    using assms by (simp add: sendCoachingNudge_call_list)
  have l: "\<forall>i < length (sms_phoneNumbers s).
      Log (if ok i then SmsSentTo (sms_phoneNumbers s ! i) else SmsFailedTo (sms_phoneNumbers s ! i))
        \<in> set (snd (sendCoachingNudge cfg ok d s))"
    using sendCoachingNudge_lines [OF assms] by blast
  from c l sendCoachingNudge_report [OF assms, of ok d] st show ?thesis by blast
qed

theorem sms_fan_out_per_address_witness:
  "\<not> sms_idle ex_cfg ex_sms
   \<and> calls (snd (sendCoachingNudge ex_cfg (\<lambda>i. i \<noteq> 0) ex_coaching ex_sms))
       = [SmsCreate ''+15550001'' (Nudge 1 ''No BANT qualification yet'' ''Ask about budget'' 0),
          SmsCreate ''+15550002'' (Nudge 1 ''No BANT qualification yet'' ''Ask about budget'' 0)]
   \<and> Log (SmsFailedTo ''+15550001'') \<in> set (snd (sendCoachingNudge ex_cfg (\<lambda>i. i \<noteq> 0) ex_coaching ex_sms))
   \<and> Log (SmsSentTo ''+15550002'') \<in> set (snd (sendCoachingNudge ex_cfg (\<lambda>i. i \<noteq> 0) ex_coaching ex_sms))
   \<and> Log SmsNudgeError \<in> set (snd (sendCoachingNudge ex_cfg (\<lambda>i. i \<noteq> 0) ex_coaching ex_sms))"
proof -
  have h: "\<not> sms_idle ex_cfg ex_sms"
    by (simp add: sms_idle_def ex_sms_def ex_cfg_def twilioClient_def mode_on_def)
  have d: "c_reason ex_coaching = ''No BANT qualification yet''" "c_message ex_coaching = ''Ask about budget''"
    "c_batchNumber ex_coaching = 0"
    by (simp_all add: ex_coaching_def coachingData_def ex_args_def ex_host_value)
  have p: "sms_phoneNumbers ex_sms = [''+15550001'', ''+15550002'']" "sms_nudgeCount ex_sms = 0"
    by (simp_all add: ex_sms_def)
  note fan = sms_fan_out_per_address [OF h, of "\<lambda>i. i \<noteq> 0" ex_coaching]
  from fan have c: "calls (snd (sendCoachingNudge ex_cfg (\<lambda>i. i \<noteq> 0) ex_coaching ex_sms))
       = [SmsCreate ''+15550001'' (Nudge 1 ''No BANT qualification yet'' ''Ask about budget'' 0),
          SmsCreate ''+15550002'' (Nudge 1 ''No BANT qualification yet'' ''Ask about budget'' 0)]"
    by (simp add: d p)
  from fan have l: "\<forall>i < length (sms_phoneNumbers ex_sms).
      Log (if i \<noteq> 0 then SmsSentTo (sms_phoneNumbers ex_sms ! i)
           else SmsFailedTo (sms_phoneNumbers ex_sms ! i))
        \<in> set (snd (sendCoachingNudge ex_cfg (\<lambda>i. i \<noteq> 0) ex_coaching ex_sms))"
    by blast
  from l [rule_format, of 0] have "Log (SmsFailedTo ''+15550001'')
      \<in> set (snd (sendCoachingNudge ex_cfg (\<lambda>i. i \<noteq> 0) ex_coaching ex_sms))"
    by (simp add: p)
  moreover from l [rule_format, of 1] have "Log (SmsSentTo ''+15550002'')
      \<in> set (snd (sendCoachingNudge ex_cfg (\<lambda>i. i \<noteq> 0) ex_coaching ex_sms))"
    by (simp add: p)
  moreover from fan have "Log SmsNudgeError \<in> set (snd (sendCoachingNudge ex_cfg (\<lambda>i. i \<noteq> 0) ex_coaching ex_sms))
      \<longleftrightarrow> \<not> (\<forall>i < length (sms_phoneNumbers ex_sms). i \<noteq> 0)"
    by blast
  then have "Log SmsNudgeError \<in> set (snd (sendCoachingNudge ex_cfg (\<lambda>i. i \<noteq> 0) ex_coaching ex_sms))"
    by (simp add: p)
  ultimately show ?thesis using h c by simp
qed

text \<open>
  C10. The agent holds no nudge counter of its own (record \<open>AIAgent\<close>); each
  manager holds one. The Slack counter goes up by one on a coaching reply exactly when
  the manager has a live thread handle, the SMS counter on a coaching nudge exactly
  when the manager is configured and active. Each end-of-session summary carries the
  counter of its own manager. The two can differ in one session: in the run
  \<open>ex_late_thread\<close> the first directive comes while the Slack thread is not yet
  open, and at the stop the Slack summary reports one nudge, the SMS summary two.
\<close>

theorem counters_are_per_channel:
  "slack_nudgeCount (fst (sendCoachingReply ok d m))
     = slack_nudgeCount m + (if live_thread (threadTs m) = None then 0 else 1)
   \<and> sms_nudgeCount (fst (sendCoachingNudge cfg oks d s))
     = sms_nudgeCount s + (if sms_idle cfg s then 0 else 1)
   \<and> filter is_end (snd (endSessionThread ok m))
     = (case live_thread (threadTs m) of None \<Rightarrow> []
        | Some ts \<Rightarrow> [SlackPostSummary ts (slack_nudgeCount m)])
   \<and> filter is_end (snd (endSession cfg oks s))
     = (if sms_idle cfg s then []
        else map (\<lambda>p. SmsCreate p (SessionEnded (sms_nudgeCount s))) (sms_phoneNumbers s))
   \<and> (\<exists>l. run_ticks ex_cfg ex_late_thread (start_loop ex_agent) = Some l
          \<and> analyzing l = 0 \<and> thread_posts l = 0
          \<and> filter is_end (snd (flushBuffer ex_cfg ex_world (agent l)))
              = [SlackPostSummary ''1700.01'' 1,
                 SmsCreate ''+15550001'' (SessionEnded 2), SmsCreate ''+15550002'' (SessionEnded 2)])"
  using late_thread_run
  by (auto simp: sendCoachingReply_count sendCoachingNudge_count endSessionThread_summary endSession_summary)

theorem counters_are_per_channel_witness:
  "\<not> sms_idle ex_cfg ex_sms
   \<and> sms_nudgeCount (fst (sendCoachingNudge ex_cfg (\<lambda>i. True) ex_coaching ex_sms)) = 1
   \<and> slack_nudgeCount (fst (sendCoachingReply True ex_coaching \<lparr>threadTs = None, slack_nudgeCount = 0\<rparr>)) = 0
   \<and> sms_idle ex_cfg (ex_sms\<lparr>sessionActive := False\<rparr>)
   \<and> sms_nudgeCount (fst (sendCoachingNudge ex_cfg (\<lambda>i. True) ex_coaching (ex_sms\<lparr>sessionActive := False\<rparr>))) = 0"
proof -
  have h: "\<not> sms_idle ex_cfg ex_sms" "sms_idle ex_cfg (ex_sms\<lparr>sessionActive := False\<rparr>)"
    by (simp_all add: sms_idle_def ex_sms_def ex_cfg_def twilioClient_def mode_on_def)
  have n: "sms_nudgeCount ex_sms = 0" by (simp add: ex_sms_def)
  from counters_are_per_channel [of True ex_coaching "\<lparr>threadTs = None, slack_nudgeCount = 0\<rparr>" ex_cfg "\<lambda>i. True" ex_sms]
       counters_are_per_channel [of True ex_coaching "\<lparr>threadTs = None, slack_nudgeCount = 0\<rparr>" ex_cfg "\<lambda>i. True"
               "ex_sms\<lparr>sessionActive := False\<rparr>"]
  show ?thesis using h n by simp
qed

end
